theory Spec2Isabelle
  imports Main "HOL-Library.Word" "HOL-Library.AList"
begin

section \<open>Errors and HTTP responses\<close>

text \<open>
  Go errors as values. \<open>Wrapped e m\<close> is \<open>errors.Wrap(e, m)\<close> of github.com/pkg/errors,
  \<open>StatusNotFound\<close> is a cluster API error for which \<open>kuberneteserrors.IsNotFound\<close>
  holds, \<open>ResetNFSError\<close> is the conflict error of the NFS backend and
  \<open>IndexOutOfRange\<close> is the runtime panic of indexing a slice past its end.
\<close>

datatype error =
    Failure string
  | StatusNotFound string
  | ResetNFSError string
  | IndexOutOfRange
  | Wrapped error string

fun Cause :: "error \<Rightarrow> error" where
  "Cause (Wrapped e m) = Cause e"
| "Cause e = e"

fun Error_text :: "error \<Rightarrow> string" where
  "Error_text (Failure m) = m"
| "Error_text (StatusNotFound m) = m"
| "Error_text (ResetNFSError m) = m"
| "Error_text IndexOutOfRange = ''runtime error: index out of range''"
| "Error_text (Wrapped e m) = m @ '': '' @ Error_text e"

fun is_ResetNFSError :: "error \<Rightarrow> bool" where
  "is_ResetNFSError (ResetNFSError m) = True"
| "is_ResetNFSError e = False"

fun IsNotFound :: "error \<Rightarrow> bool" where
  "IsNotFound (StatusNotFound m) = True"
| "IsNotFound e = False"

text \<open>
  What a handler writes: \<open>JSON w status body\<close>, or \<open>w.WriteHeader(status)\<close> alone
  (a response with no body).
\<close>

datatype 'b response = JSON nat 'b | WriteHeader nat

definition StatusOK :: nat where "StatusOK = 200"
definition StatusBadRequest :: nat where "StatusBadRequest = 400"
definition StatusConflict :: nat where "StatusConflict = 409"
definition StatusInternalServerError :: nat where "StatusInternalServerError = 500"

section \<open>The workload store\<close>

record App =
  ID :: string
  Slug :: string
  SnapshotTTL :: string
  SnapshotSchedule :: string

record Cluster =
  ClusterID :: string
  InstanceSnapshotTTL :: string
  InstanceSnapshotSchedule :: string

text \<open>A pending snapshot request: its id, the workload that owns it, and when it is due.\<close>

record ScheduledSnapshot =
  snapshot_id :: string
  owner_id :: string
  scheduled_at :: int

datatype store_op =
    OpGetApp | OpGetAppFromSlug | OpListClusters
  | OpSetSnapshotTTL | OpSetSnapshotSchedule
  | OpDeletePendingScheduledSnapshots | OpCreateScheduledSnapshot
  | OpSetInstanceSnapshotTTL | OpSetInstanceSnapshotSchedule
  | OpDeletePendingScheduledInstanceSnapshots | OpCreateScheduledInstanceSnapshot

text \<open>
  The persisted state behind \<open>store.GetStore()\<close>. \<open>unavailable\<close> lists the calls that
  return an error, so that every \<open>if err != nil\<close> of a handler is a branch of the model.
\<close>

record store =
  apps :: "App list"
  clusters :: "Cluster list"
  scheduled_snapshots :: "ScheduledSnapshot list"
  scheduled_instance_snapshots :: "ScheduledSnapshot list"
  unavailable :: "store_op list"

definition store_error :: "store \<Rightarrow> store_op \<Rightarrow> bool" where
  "store_error st opn = (opn \<in> set (unavailable st))"

text \<open>
  The store implementation is not among the sources; section 6 of the spec gives its calls
  (\<open>GetWorkload(id)\<close>, \<open>SetSnapshotSchedule(id, cron)\<close>, \<open>SetSnapshotTTL(id, duration)\<close>,
  \<open>CreatePendingSnapshot(id, ownerID, when)\<close>, \<open>DeletePendingSnapshots(ownerID)\<close>) over an
  opaque record store, and each of them is modelled from there.
\<close>

text \<open>Modelled from the spec: \<open>GetWorkload(id)\<close> for an application, by its id.\<close>

definition GetApp :: "store \<Rightarrow> string \<Rightarrow> error + App" where
  "GetApp st i =
     (if store_error st OpGetApp then Inl (Failure ''failed to query db'')
      else case find (\<lambda>a. ID a = i) (apps st) of
             None \<Rightarrow> Inl (Failure ''app not found'')
           | Some a \<Rightarrow> Inr a)"

text \<open>Modelled from the spec: \<open>GetWorkload(id)\<close> for an application, by its slug.\<close>

definition GetAppFromSlug :: "store \<Rightarrow> string \<Rightarrow> error + App" where
  "GetAppFromSlug st s =
     (if store_error st OpGetAppFromSlug then Inl (Failure ''failed to query db'')
      else case find (\<lambda>a. Slug a = s) (apps st) of
             None \<Rightarrow> Inl (Failure ''app not found'')
           | Some a \<Rightarrow> Inr a)"

text \<open>Modelled from the spec: \<open>GetWorkload(id)\<close> for the clusters, which the handlers list.\<close>

definition ListClusters :: "store \<Rightarrow> error + Cluster list" where
  "ListClusters st =
     (if store_error st OpListClusters then Inl (Failure ''failed to query db'')
      else Inr (clusters st))"

text \<open>Modelled from the spec: \<open>SetSnapshotTTL(id, duration)\<close>.\<close>

definition SetSnapshotTTL :: "store \<Rightarrow> string \<Rightarrow> string \<Rightarrow> error + store" where
  "SetSnapshotTTL st i ttl =
     (if store_error st OpSetSnapshotTTL then Inl (Failure ''failed to exec db query'')
      else Inr (st\<lparr>apps := map (\<lambda>a. if ID a = i then a\<lparr>SnapshotTTL := ttl\<rparr> else a) (apps st)\<rparr>))"

text \<open>Modelled from the spec: \<open>SetSnapshotSchedule(id, cron)\<close>.\<close>

definition SetSnapshotSchedule :: "store \<Rightarrow> string \<Rightarrow> string \<Rightarrow> error + store" where
  "SetSnapshotSchedule st i sched =
     (if store_error st OpSetSnapshotSchedule then Inl (Failure ''failed to exec db query'')
      else Inr (st\<lparr>apps := map (\<lambda>a. if ID a = i then a\<lparr>SnapshotSchedule := sched\<rparr> else a) (apps st)\<rparr>))"

text \<open>Modelled from the spec: \<open>DeletePendingSnapshots(ownerID)\<close>.\<close>

definition DeletePendingScheduledSnapshots :: "store \<Rightarrow> string \<Rightarrow> error + store" where
  "DeletePendingScheduledSnapshots st i =
     (if store_error st OpDeletePendingScheduledSnapshots then Inl (Failure ''failed to exec db query'')
      else Inr (st\<lparr>scheduled_snapshots := filter (\<lambda>s. owner_id s \<noteq> i) (scheduled_snapshots st)\<rparr>))"

text \<open>Modelled from the spec: \<open>CreatePendingSnapshot(id, ownerID, when)\<close>.\<close>

definition CreateScheduledSnapshot :: "store \<Rightarrow> string \<Rightarrow> string \<Rightarrow> int \<Rightarrow> error + store" where
  "CreateScheduledSnapshot st sid i t =
     (if store_error st OpCreateScheduledSnapshot then Inl (Failure ''failed to exec db query'')
      else Inr (st\<lparr>scheduled_snapshots :=
                     scheduled_snapshots st @ [\<lparr>snapshot_id = sid, owner_id = i, scheduled_at = t\<rparr>]\<rparr>))"

text \<open>Modelled from the spec: \<open>SetSnapshotTTL(id, duration)\<close> for a cluster.\<close>

definition SetInstanceSnapshotTTL :: "store \<Rightarrow> string \<Rightarrow> string \<Rightarrow> error + store" where
  "SetInstanceSnapshotTTL st i ttl =
     (if store_error st OpSetInstanceSnapshotTTL then Inl (Failure ''failed to exec db query'')
      else Inr (st\<lparr>clusters :=
                     map (\<lambda>c. if ClusterID c = i then c\<lparr>InstanceSnapshotTTL := ttl\<rparr> else c) (clusters st)\<rparr>))"

text \<open>Modelled from the spec: \<open>SetSnapshotSchedule(id, cron)\<close> for a cluster.\<close>

definition SetInstanceSnapshotSchedule :: "store \<Rightarrow> string \<Rightarrow> string \<Rightarrow> error + store" where
  "SetInstanceSnapshotSchedule st i sched =
     (if store_error st OpSetInstanceSnapshotSchedule then Inl (Failure ''failed to exec db query'')
      else Inr (st\<lparr>clusters :=
                     map (\<lambda>c. if ClusterID c = i then c\<lparr>InstanceSnapshotSchedule := sched\<rparr> else c) (clusters st)\<rparr>))"

text \<open>Modelled from the spec: \<open>DeletePendingSnapshots(ownerID)\<close> for a cluster.\<close>

definition DeletePendingScheduledInstanceSnapshots :: "store \<Rightarrow> string \<Rightarrow> error + store" where
  "DeletePendingScheduledInstanceSnapshots st i =
     (if store_error st OpDeletePendingScheduledInstanceSnapshots
      then Inl (Failure ''failed to exec db query'')
      else Inr (st\<lparr>scheduled_instance_snapshots :=
                     filter (\<lambda>s. owner_id s \<noteq> i) (scheduled_instance_snapshots st)\<rparr>))"

text \<open>Modelled from the spec: \<open>CreatePendingSnapshot(id, ownerID, when)\<close> for a cluster.\<close>

definition CreateScheduledInstanceSnapshot :: "store \<Rightarrow> string \<Rightarrow> string \<Rightarrow> int \<Rightarrow> error + store" where
  "CreateScheduledInstanceSnapshot st sid i t =
     (if store_error st OpCreateScheduledInstanceSnapshot
      then Inl (Failure ''failed to exec db query'')
      else Inr (st\<lparr>scheduled_instance_snapshots :=
                     scheduled_instance_snapshots st
                       @ [\<lparr>snapshot_id = sid, owner_id = i, scheduled_at = t\<rparr>]\<rparr>))"

section \<open>What the handlers take from outside\<close>

record ParsedTTL =
  Quantity :: "64 word"
  Unit :: string

text \<open>
  The retention helpers \<open>snapshot.FormatTTL\<close> and \<open>snapshot.ParseTTL\<close> and the cron
  library (github.com/robfig/cron) are not among the sources: the handlers take them as
  parameters, together with the clock and the random id. \<open>ParseStandard\<close> stands for the
  parser with the fields minute, hour, day of month, month, day of week and descriptors, which
  is what both \<open>cron.ParseStandard\<close> and the \<open>cron.NewParser(...)\<close> call of
  \<open>SaveSnapshotConfig\<close> build; \<open>Next\<close> is the schedule's \<open>Next(time)\<close>;
  \<open>rand_String\<close> is \<open>rand.String(32)\<close>.
\<close>

record 's env =
  FormatTTL :: "string \<Rightarrow> string \<Rightarrow> error + string"
  ParseTTL :: "string \<Rightarrow> error + ParsedTTL"
  ParseStandard :: "string \<Rightarrow> error + 's"
  Next :: "'s \<Rightarrow> int \<Rightarrow> int"
  time_Now :: int
  rand_String :: string

text \<open>\<open>strconv.FormatInt(n, 10)\<close>.\<close>

definition digit_char :: "nat \<Rightarrow> char" where
  "digit_char d = ''0123456789'' ! d"

fun format_nat :: "nat \<Rightarrow> string" where
  "format_nat n = (if n < 10 then [digit_char n] else format_nat (n div 10) @ [digit_char (n mod 10)])"

declare format_nat.simps [simp del]

definition FormatInt :: "int \<Rightarrow> string" where
  "FormatInt n = (if n < 0 then CHR ''-'' # format_nat (nat (- n)) else format_nat (nat n))"

text \<open>\<open>strings.ToLower\<close> on ASCII letters.\<close>

definition to_lower_char :: "char \<Rightarrow> char" where
  "to_lower_char c =
     (case map_of (zip ''ABCDEFGHIJKLMNOPQRSTUVWXYZ'' ''abcdefghijklmnopqrstuvwxyz'') c of
        Some l \<Rightarrow> l
      | None \<Rightarrow> c)"

definition ToLower :: "string \<Rightarrow> string" where
  "ToLower s = map to_lower_char s"

section \<open>Reading the snapshot configuration\<close>

record SnapshotTTL_view =
  InputValue :: string
  InputTimeUnit :: string
  Converted :: string

text \<open>\<open>SnapshotConfig\<close> and \<open>InstanceSnapshotConfig\<close> have the same three fields.\<close>

record SnapshotConfig =
  AutoEnabled :: bool
  AutoSchedule :: string
  TTl :: SnapshotTTL_view

definition GetSnapshotConfig :: "'s env \<Rightarrow> string \<Rightarrow> store \<Rightarrow> SnapshotConfig response" where
  "GetSnapshotConfig e appSlug st =
     (case GetAppFromSlug st appSlug of
        Inl err \<Rightarrow> WriteHeader StatusInternalServerError
      | Inr foundApp \<Rightarrow>
          (case (if SnapshotTTL foundApp \<noteq> ''''
                 then (case ParseTTL e (SnapshotTTL foundApp) of
                         Inl err \<Rightarrow> Inl err
                       | Inr parsedTTL \<Rightarrow>
                           Inr \<lparr>InputValue = FormatInt (sint (Quantity parsedTTL)),
                                InputTimeUnit = Unit parsedTTL,
                                Converted = SnapshotTTL foundApp\<rparr>)
                 else Inr \<lparr>InputValue = ''1'', InputTimeUnit = ''month'', Converted = ''720h''\<rparr>) of
             Inl err \<Rightarrow> WriteHeader StatusInternalServerError
           | Inr ttl \<Rightarrow>
               JSON StatusOK
                 \<lparr>AutoEnabled = (SnapshotSchedule foundApp \<noteq> ''''),
                  AutoSchedule = (if SnapshotSchedule foundApp \<noteq> '''' then SnapshotSchedule foundApp
                                  else ''0 0 * * MON''),
                  TTl = ttl\<rparr>))"

definition GetInstanceSnapshotConfig :: "'s env \<Rightarrow> store \<Rightarrow> SnapshotConfig response" where
  "GetInstanceSnapshotConfig e st =
     (case ListClusters st of
        Inl err \<Rightarrow> WriteHeader StatusInternalServerError
      | Inr [] \<Rightarrow> WriteHeader StatusInternalServerError
      | Inr (c # cs) \<Rightarrow>
          (case (if InstanceSnapshotTTL c \<noteq> ''''
                 then (case ParseTTL e (InstanceSnapshotTTL c) of
                         Inl err \<Rightarrow> Inl err
                       | Inr parsedTTL \<Rightarrow>
                           Inr \<lparr>InputValue = FormatInt (sint (Quantity parsedTTL)),
                                InputTimeUnit = Unit parsedTTL,
                                Converted = InstanceSnapshotTTL c\<rparr>)
                 else Inr \<lparr>InputValue = ''1'', InputTimeUnit = ''month'', Converted = ''720h''\<rparr>) of
             Inl err \<Rightarrow> WriteHeader StatusInternalServerError
           | Inr ttl \<Rightarrow>
               JSON StatusOK
                 \<lparr>AutoEnabled = (InstanceSnapshotSchedule c \<noteq> ''''),
                  AutoSchedule = (if InstanceSnapshotSchedule c \<noteq> '''' then InstanceSnapshotSchedule c
                                  else ''0 0 * * MON''),
                  TTl = ttl\<rparr>))"

section \<open>Saving the snapshot configuration\<close>

text \<open>
  The decoded request body. \<open>SaveInstanceSnapshotConfigRequest\<close> has the same fields
  without \<open>AppID\<close>; the fields carry a prefix because \<open>InputValue\<close>,
  \<open>InputTimeUnit\<close> and \<open>AutoEnabled\<close> are fields of the read side already.
\<close>

record SaveSnapshotConfigRequest =
  ReqAppID :: string
  ReqInputValue :: string
  ReqInputTimeUnit :: string
  ReqSchedule :: string
  ReqAutoEnabled :: bool

record SaveInstanceSnapshotConfigRequest =
  InstInputValue :: string
  InstInputTimeUnit :: string
  InstSchedule :: string
  InstAutoEnabled :: bool

text \<open>\<open>SaveSnapshotConfigResponse\<close> and \<open>SaveInstanceSnapshotConfigResponse\<close>.\<close>

record SaveSnapshotConfigResponse =
  Success :: bool
  Error :: string

definition failed :: "string \<Rightarrow> SaveSnapshotConfigResponse" where
  "failed msg = \<lparr>Success = False, Error = msg\<rparr>"

definition succeeded :: SaveSnapshotConfigResponse where
  "succeeded = \<lparr>Success = True, Error = []\<rparr>"

definition SaveSnapshotConfig ::
  "'s env \<Rightarrow> error + SaveSnapshotConfigRequest \<Rightarrow> store
     \<Rightarrow> SaveSnapshotConfigResponse response \<times> store" where
  "SaveSnapshotConfig e body st =
     (case body of
        Inl err \<Rightarrow> (JSON StatusBadRequest (failed ''failed to decode request body''), st)
      | Inr requestBody \<Rightarrow>
     (case GetApp st (ReqAppID requestBody) of
        Inl err \<Rightarrow> (JSON StatusInternalServerError (failed ''Failed to get app''), st)
      | Inr app \<Rightarrow>
     (case FormatTTL e (ReqInputValue requestBody) (ReqInputTimeUnit requestBody) of
        Inl err \<Rightarrow>
          (JSON StatusBadRequest
             (failed (''Invalid snapshot retention: '' @ ReqInputValue requestBody @ '' ''
                        @ ReqInputTimeUnit requestBody)), st)
      | Inr retention \<Rightarrow>
     (case (if SnapshotTTL app \<noteq> retention then SetSnapshotTTL st (ID app) retention else Inr st) of
        Inl err \<Rightarrow> (JSON StatusInternalServerError (failed ''Failed to set snapshot retention''), st)
      | Inr st1 \<Rightarrow>
     (if \<not> ReqAutoEnabled requestBody then
        (case SetSnapshotSchedule st1 (ID app) [] of
           Inl err \<Rightarrow>
             (JSON StatusInternalServerError (failed ''Failed to clear snapshot schedule''), st1)
         | Inr st2 \<Rightarrow>
        (case DeletePendingScheduledSnapshots st2 (ID app) of
           Inl err \<Rightarrow>
             (JSON StatusInternalServerError (failed ''Failed to delete scheduled snapshots''), st2)
         | Inr st3 \<Rightarrow> (JSON StatusOK succeeded, st3)))
      else
        (case ParseStandard e (ReqSchedule requestBody) of
           Inl err \<Rightarrow>
             (JSON StatusBadRequest
                (failed (''Invalid cron schedule expression: '' @ ReqSchedule requestBody)), st1)
         | Inr cronSchedule \<Rightarrow>
        (if ReqSchedule requestBody \<noteq> SnapshotSchedule app then
           (case DeletePendingScheduledSnapshots st1 (ID app) of
              Inl err \<Rightarrow>
                (JSON StatusInternalServerError (failed ''Failed to delete scheduled snapshots''), st1)
            | Inr st2 \<Rightarrow>
           (case SetSnapshotSchedule st2 (ID app) (ReqSchedule requestBody) of
              Inl err \<Rightarrow>
                (JSON StatusInternalServerError (failed ''Failed to save snapshot schedule''), st2)
            | Inr st3 \<Rightarrow>
           (case CreateScheduledSnapshot st3 (ToLower (rand_String e)) (ID app)
                   (Next e cronSchedule (time_Now e)) of
              Inl err \<Rightarrow>
                (JSON StatusInternalServerError
                   (failed ''Failed to create first scheduled snapshot''), st3)
            | Inr st4 \<Rightarrow> (JSON StatusOK succeeded, st4))))
         else (JSON StatusOK succeeded, st1))))))))"

definition SaveInstanceSnapshotConfig ::
  "'s env \<Rightarrow> error + SaveInstanceSnapshotConfigRequest \<Rightarrow> store
     \<Rightarrow> SaveSnapshotConfigResponse response \<times> store" where
  "SaveInstanceSnapshotConfig e body st =
     (case body of
        Inl err \<Rightarrow> (JSON StatusBadRequest (failed ''failed to decode request body''), st)
      | Inr requestBody \<Rightarrow>
     (case ListClusters st of
        Inl err \<Rightarrow> (JSON StatusInternalServerError (failed ''Failed to list clusters''), st)
      | Inr [] \<Rightarrow> (JSON StatusInternalServerError (failed ''No clusters found''), st)
      | Inr (c # cs) \<Rightarrow>
     (case FormatTTL e (InstInputValue requestBody) (InstInputTimeUnit requestBody) of
        Inl err \<Rightarrow>
          (JSON StatusBadRequest
             (failed (''Invalid instance snapshot retention: '' @ InstInputValue requestBody @ '' ''
                        @ InstInputTimeUnit requestBody)), st)
      | Inr retention \<Rightarrow>
     (case (if InstanceSnapshotTTL c \<noteq> retention
            then SetInstanceSnapshotTTL st (ClusterID c) retention else Inr st) of
        Inl err \<Rightarrow>
          (JSON StatusInternalServerError (failed ''Failed to set instance snapshot retention''), st)
      | Inr st1 \<Rightarrow>
     (if \<not> InstAutoEnabled requestBody then
        (case SetInstanceSnapshotSchedule st1 (ClusterID c) [] of
           Inl err \<Rightarrow>
             (JSON StatusInternalServerError
                (failed ''Failed to clear instance snapshot schedule''), st1)
         | Inr st2 \<Rightarrow>
        (case DeletePendingScheduledInstanceSnapshots st2 (ClusterID c) of
           Inl err \<Rightarrow>
             (JSON StatusInternalServerError
                (failed ''Failed to delete pending scheduled instance snapshots''), st2)
         | Inr st3 \<Rightarrow> (JSON StatusOK succeeded, st3)))
      else
        (case ParseStandard e (InstSchedule requestBody) of
           Inl err \<Rightarrow>
             (JSON StatusBadRequest
                (failed (''Invalid cron schedule expression: '' @ InstSchedule requestBody)), st1)
         | Inr cronSchedule \<Rightarrow>
        (if InstSchedule requestBody \<noteq> InstanceSnapshotSchedule c then
           (case DeletePendingScheduledInstanceSnapshots st1 (ClusterID c) of
              Inl err \<Rightarrow>
                (JSON StatusInternalServerError (failed ''Failed to delete scheduled snapshots''), st1)
            | Inr st2 \<Rightarrow>
           (case SetInstanceSnapshotSchedule st2 (ClusterID c) (InstSchedule requestBody) of
              Inl err \<Rightarrow>
                (JSON StatusInternalServerError
                   (failed ''Failed to save instance snapshot schedule''), st2)
            | Inr st3 \<Rightarrow>
           (case CreateScheduledInstanceSnapshot st3 (ToLower (rand_String e)) (ClusterID c)
                   (Next e cronSchedule (time_Now e)) of
              Inl err \<Rightarrow>
                (JSON StatusInternalServerError
                   (failed ''Failed to create first scheduled instance snapshot''), st3)
            | Inr st4 \<Rightarrow> (JSON StatusOK succeeded, st4))))
         else (JSON StatusOK succeeded, st1))))))))"

section \<open>The cluster\<close>

record Container =
  Name :: string
  Image :: string
  Args :: "string list"

text \<open>
  The pod template of a workload: the three fields the image configuration writes, and
  \<open>ServiceAccountName\<close> and \<open>NodeSelector\<close> for the fields it does not.
  A \<open>LocalObjectReference\<close> is the name of a secret.
\<close>

record PodSpec =
  ImagePullSecrets :: "string list"
  InitContainers :: "Container list"
  Containers :: "Container list"
  ServiceAccountName :: string
  NodeSelector :: "(string \<times> string) list"

record Deployment =
  deploy_namespace :: string
  deploy_name :: string
  deploy_labels :: "(string \<times> string) list"
  Replicas :: nat
  Template :: PodSpec
  AvailableReplicas :: int

record DaemonSet =
  ds_namespace :: string
  ds_name :: string
  ds_labels :: "(string \<times> string) list"
  ds_Template :: PodSpec
  NumberAvailable :: int
  NumberUnavailable :: int

text \<open>\<open>Data = None\<close> is Go's nil map.\<close>

record ConfigMap =
  cm_namespace :: string
  cm_name :: string
  cm_labels :: "(string \<times> string) list"
  Data :: "(string \<times> string) list option"

record BackupStorageLocation =
  bsl_namespace :: string
  bsl_name :: string

record NFSConfig =
  Path :: string
  Server :: string

text \<open>
  The self-hosted backend as deployed: the share it is bound to and the generation of the
  credentials issued for it.
\<close>

record NFSMinio =
  CurrentNFSConfig :: NFSConfig
  CredentialsGeneration :: nat

record KotsadmOptions =
  OverrideRegistry :: string
  OverrideNamespace :: string
  Username :: string
  Password :: string

datatype api_call =
    GetConfig | NewVeleroClient | NewClientset | Clientset
  | ListBackupStorageLocations | ListDeployments | ListDaemonSets
  | GetDeployment | UpdateDeployment | GetDaemonSet | UpdateDaemonSet
  | GetConfigMap | CreateConfigMap | UpdateConfigMap | DeleteConfigMap
  | EnsureSecret | GetKotsadmOptions | DeployMinio

text \<open>
  The cluster as the code sees it through its clients. \<open>api_unavailable\<close> lists the calls
  that return an error other than not-found; \<open>VeleroCRDsInstalled = False\<close> makes listing
  backup storage locations answer not-found.
\<close>

record kube =
  IsKurl :: bool
  IsOpenShift :: bool
  IsKotsadmClusterScoped :: bool
  POD_NAMESPACE :: string
  StoredKotsadmOptions :: KotsadmOptions
  VeleroCRDsInstalled :: bool
  BackupStorageLocations :: "BackupStorageLocation list"
  Deployments :: "Deployment list"
  DaemonSets :: "DaemonSet list"
  ConfigMaps :: "ConfigMap list"
  Secrets :: "(string \<times> string) list"
  nfs_minio :: "NFSMinio option"
  api_unavailable :: "api_call list"

definition api_error :: "kube \<Rightarrow> api_call \<Rightarrow> bool" where
  "api_error k c = (c \<in> set (api_unavailable k))"

definition NamespaceDefault :: string where
  "NamespaceDefault = ''default''"

definition veleroNamespace :: string where
  "veleroNamespace = ''velero''"

definition veleroDeploymentName :: string where
  "veleroDeploymentName = ''velero''"

definition defaultVeleroImage :: string where
  "defaultVeleroImage = ''velero/velero:v1.5.1''"

definition defaultVeleroAWSPluginImage :: string where
  "defaultVeleroAWSPluginImage = ''velero/velero-plugin-for-aws:v1.1.0''"

definition defaultVeleroResticRestoreHelperImage :: string where
  "defaultVeleroResticRestoreHelperImage = ''velero/velero-restic-restore-helper:v1.5.1''"

definition resticConfigMapName :: string where
  "resticConfigMapName = ''restic-restore-action-config''"

definition resticDaemonSetName :: string where
  "resticDaemonSetName = ''restic''"

subsection \<open>The typed clients\<close>

text \<open>
  Modelled from the spec: the Kubernetes clients are a collaborator (section 6 of the spec:
  list, get and update workloads; list backup storage locations; create, update and delete
  config objects). \<open>Get\<close>, \<open>Update\<close> and \<open>Delete\<close> answer not-found for an object that
  does not exist, \<open>Update\<close> replaces the object of the same namespace and name, and
  \<open>Create\<close> stores the object in the namespace of the client.
\<close>

definition Deployments_Get :: "kube \<Rightarrow> string \<Rightarrow> string \<Rightarrow> error + Deployment" where
  "Deployments_Get k ns n =
     (if api_error k GetDeployment then Inl (Failure ''the server is unavailable'')
      else case find (\<lambda>d. deploy_namespace d = ns \<and> deploy_name d = n) (Deployments k) of
             None \<Rightarrow> Inl (StatusNotFound (''deployments '' @ n @ '' not found''))
           | Some d \<Rightarrow> Inr d)"

definition Deployments_Update :: "kube \<Rightarrow> string \<Rightarrow> Deployment \<Rightarrow> error + kube" where
  "Deployments_Update k ns d =
     (if api_error k UpdateDeployment then Inl (Failure ''the server is unavailable'')
      else if \<not> list_ex (\<lambda>x. deploy_namespace x = ns \<and> deploy_name x = deploy_name d) (Deployments k)
      then Inl (StatusNotFound (''deployments '' @ deploy_name d @ '' not found''))
      else Inr (k\<lparr>Deployments :=
                     map (\<lambda>x. if deploy_namespace x = ns \<and> deploy_name x = deploy_name d then d else x)
                       (Deployments k)\<rparr>))"

definition DaemonSets_Get :: "kube \<Rightarrow> string \<Rightarrow> string \<Rightarrow> error + DaemonSet" where
  "DaemonSets_Get k ns n =
     (if api_error k GetDaemonSet then Inl (Failure ''the server is unavailable'')
      else case find (\<lambda>d. ds_namespace d = ns \<and> ds_name d = n) (DaemonSets k) of
             None \<Rightarrow> Inl (StatusNotFound (''daemonsets '' @ n @ '' not found''))
           | Some d \<Rightarrow> Inr d)"

definition DaemonSets_Update :: "kube \<Rightarrow> string \<Rightarrow> DaemonSet \<Rightarrow> error + kube" where
  "DaemonSets_Update k ns d =
     (if api_error k UpdateDaemonSet then Inl (Failure ''the server is unavailable'')
      else if \<not> list_ex (\<lambda>x. ds_namespace x = ns \<and> ds_name x = ds_name d) (DaemonSets k)
      then Inl (StatusNotFound (''daemonsets '' @ ds_name d @ '' not found''))
      else Inr (k\<lparr>DaemonSets :=
                     map (\<lambda>x. if ds_namespace x = ns \<and> ds_name x = ds_name d then d else x)
                       (DaemonSets k)\<rparr>))"

definition ConfigMaps_Get :: "kube \<Rightarrow> string \<Rightarrow> string \<Rightarrow> error + ConfigMap" where
  "ConfigMaps_Get k ns n =
     (if api_error k GetConfigMap then Inl (Failure ''the server is unavailable'')
      else case find (\<lambda>c. cm_namespace c = ns \<and> cm_name c = n) (ConfigMaps k) of
             None \<Rightarrow> Inl (StatusNotFound (''configmaps '' @ n @ '' not found''))
           | Some c \<Rightarrow> Inr c)"

definition ConfigMaps_Create :: "kube \<Rightarrow> string \<Rightarrow> ConfigMap \<Rightarrow> error + kube" where
  "ConfigMaps_Create k ns c =
     (if api_error k CreateConfigMap then Inl (Failure ''the server is unavailable'')
      else if list_ex (\<lambda>x. cm_namespace x = ns \<and> cm_name x = cm_name c) (ConfigMaps k)
      then Inl (Failure (''configmaps '' @ cm_name c @ '' already exists''))
      else Inr (k\<lparr>ConfigMaps := ConfigMaps k @ [c\<lparr>cm_namespace := ns\<rparr>]\<rparr>))"

definition ConfigMaps_Update :: "kube \<Rightarrow> string \<Rightarrow> ConfigMap \<Rightarrow> error + kube" where
  "ConfigMaps_Update k ns c =
     (if api_error k UpdateConfigMap then Inl (Failure ''the server is unavailable'')
      else if \<not> list_ex (\<lambda>x. cm_namespace x = ns \<and> cm_name x = cm_name c) (ConfigMaps k)
      then Inl (StatusNotFound (''configmaps '' @ cm_name c @ '' not found''))
      else Inr (k\<lparr>ConfigMaps :=
                     map (\<lambda>x. if cm_namespace x = ns \<and> cm_name x = cm_name c
                               then c\<lparr>cm_namespace := ns\<rparr> else x)
                       (ConfigMaps k)\<rparr>))"

definition ConfigMaps_Delete :: "kube \<Rightarrow> string \<Rightarrow> string \<Rightarrow> error + kube" where
  "ConfigMaps_Delete k ns n =
     (if api_error k DeleteConfigMap then Inl (Failure ''the server is unavailable'')
      else if \<not> list_ex (\<lambda>x. cm_namespace x = ns \<and> cm_name x = n) (ConfigMaps k)
      then Inl (StatusNotFound (''configmaps '' @ n @ '' not found''))
      else Inr (k\<lparr>ConfigMaps :=
                     filter (\<lambda>x. \<not> (cm_namespace x = ns \<and> cm_name x = n)) (ConfigMaps k)\<rparr>))"

text \<open>
  Listing with a label selector \<open>key=value\<close>: the objects of the namespace that carry the
  label.
\<close>

definition Deployments_List :: "kube \<Rightarrow> string \<Rightarrow> string \<times> string \<Rightarrow> error + Deployment list" where
  "Deployments_List k ns label =
     (if api_error k ListDeployments then Inl (Failure ''the server is unavailable'')
      else Inr (filter (\<lambda>d. deploy_namespace d = ns \<and> label \<in> set (deploy_labels d)) (Deployments k)))"

definition DaemonSets_List :: "kube \<Rightarrow> string \<Rightarrow> string \<times> string \<Rightarrow> error + DaemonSet list" where
  "DaemonSets_List k ns label =
     (if api_error k ListDaemonSets then Inl (Failure ''the server is unavailable'')
      else Inr (filter (\<lambda>d. ds_namespace d = ns \<and> label \<in> set (ds_labels d)) (DaemonSets k)))"

text \<open>\<open>BackupStorageLocations("").List\<close>: every namespace.\<close>

definition BackupStorageLocations_List :: "kube \<Rightarrow> error + BackupStorageLocation list" where
  "BackupStorageLocations_List k =
     (if api_error k ListBackupStorageLocations then Inl (Failure ''the server is unavailable'')
      else if \<not> VeleroCRDsInstalled k
      then Inl (StatusNotFound ''the server could not find the requested resource'')
      else Inr (BackupStorageLocations k))"

text \<open>
  Modelled from the spec: \<open>kotsadm.GetKotsadmOptionsFromCluster\<close> is not among the sources;
  it reads the registry options (section 3 of the spec: target registry plus optional pull
  credentials).
\<close>

definition GetKotsadmOptionsFromCluster :: "string \<Rightarrow> kube \<Rightarrow> error + KotsadmOptions" where
  "GetKotsadmOptionsFromCluster ns k =
     (if api_error k GetKotsadmOptions then Inl (Failure ''failed to get existing kotsadm config map'')
      else Inr (StoredKotsadmOptions k))"

text \<open>
  Modelled from the spec: \<open>kotsadm.EnsurePrivateKotsadmRegistrySecret\<close> is not among the
  sources; it attaches the pull secret that the registry options call for (section 3 of the
  spec), and touches no workload.
\<close>

definition EnsurePrivateKotsadmRegistrySecret :: "string \<Rightarrow> KotsadmOptions \<Rightarrow> kube \<Rightarrow> error + kube" where
  "EnsurePrivateKotsadmRegistrySecret ns opts k =
     (if api_error k EnsureSecret then Inl (Failure ''failed to create registry secret'')
      else if OverrideRegistry opts = [] \<or> (ns, ''kotsadm-private-registry'') \<in> set (Secrets k)
      then Inr k
      else Inr (k\<lparr>Secrets := Secrets k @ [(ns, ''kotsadm-private-registry'')]\<rparr>))"

text \<open>The config map of a namespace and name that the cluster holds, if any.\<close>

definition configmap_at :: "kube \<Rightarrow> string \<Rightarrow> string \<Rightarrow> ConfigMap option" where
  "configmap_at k ns n = find (\<lambda>c. cm_namespace c = ns \<and> cm_name c = n) (ConfigMaps k)"

section \<open>The self-hosted backend over a network file share\<close>

record NFSDeployOptions =
  Namespace :: string
  DeployIsOpenShift :: bool
  ForceReset :: bool
  DeployNFSConfig :: NFSConfig
  Wait :: bool

definition reset_warning :: "NFSConfig \<Rightarrow> NFSConfig \<Rightarrow> string" where
  "reset_warning current desired =
     ''The NFS share '' @ Server current @ '':'' @ Path current
       @ '' is already configured and differs from '' @ Server desired @ '':'' @ Path desired
       @ ''. Re-configuring will reset the backend.''"

text \<open>
  Modelled from the spec: \<open>snapshot.DeployNFSMinio\<close> is not among the sources (only its
  callers are). Section 4.2 of the spec gives \<open>Reconcile(desired, forceReset)\<close>: with no prior
  deployment, create it against \<open>desired\<close>; with a prior deployment of the same
  \<open>NFSConfig\<close>, nothing to do; with a prior deployment of a different \<open>NFSConfig\<close> and no
  forced reset, the conflict error carrying a description of the discrepancy; with a forced
  reset, tear down and recreate against \<open>desired\<close>, which invalidates the credentials issued
  before. A failing cluster call is the internal error.
\<close>

definition DeployNFSMinio :: "kube \<Rightarrow> NFSDeployOptions \<Rightarrow> KotsadmOptions \<Rightarrow> error + kube" where
  "DeployNFSMinio k deployOptions registryOptions =
     (if api_error k DeployMinio then Inl (Failure ''failed to ensure nfs minio'')
      else case nfs_minio k of
             None \<Rightarrow>
               Inr (k\<lparr>nfs_minio := Some \<lparr>CurrentNFSConfig = DeployNFSConfig deployOptions,
                                          CredentialsGeneration = 0\<rparr>\<rparr>)
           | Some m \<Rightarrow>
               if CurrentNFSConfig m = DeployNFSConfig deployOptions then Inr k
               else if \<not> ForceReset deployOptions
               then Inl (ResetNFSError (reset_warning (CurrentNFSConfig m) (DeployNFSConfig deployOptions)))
               else Inr (k\<lparr>nfs_minio := Some \<lparr>CurrentNFSConfig = DeployNFSConfig deployOptions,
                                               CredentialsGeneration = Suc (CredentialsGeneration m)\<rparr>\<rparr>))"

subsection \<open>The handler\<close>

record NFSOptions =
  OptPath :: string
  OptServer :: string
  OptForceReset :: bool

text \<open>\<open>ConfigureNFSSnapshotsResponse\<close>: \<open>Success\<close>, \<open>Error\<close> and \<open>IsMinimalRBACEnabled\<close>.\<close>

record ConfigureNFSSnapshotsResponse = SaveSnapshotConfigResponse +
  IsMinimalRBACEnabled :: bool

definition configureNFSMinio :: "kube \<Rightarrow> NFSOptions \<Rightarrow> error + kube" where
  "configureNFSMinio k opts =
     (case GetKotsadmOptionsFromCluster (POD_NAMESPACE k) k of
        Inl err \<Rightarrow> Inl (Wrapped err ''failed to get kotsadm options from cluster'')
      | Inr registryOptions \<Rightarrow>
          DeployNFSMinio k
            \<lparr>Namespace = POD_NAMESPACE k, DeployIsOpenShift = IsOpenShift k,
             ForceReset = OptForceReset opts,
             DeployNFSConfig = \<lparr>Path = OptPath opts, Server = OptServer opts\<rparr>,
             Wait = True\<rparr>
            registryOptions)"

text \<open>
  \<open>ConfigureNFSSnapshots\<close> up to the deployment of the backend; \<open>install_velero\<close> is the
  rest of the handler (installing or configuring the engine), which the handler reaches only
  when \<open>configureNFSMinio\<close> returns no error.
\<close>

definition ConfigureNFSSnapshots ::
  "(kube \<Rightarrow> ConfigureNFSSnapshotsResponse response \<times> kube)
     \<Rightarrow> error + NFSOptions \<Rightarrow> kube \<Rightarrow> ConfigureNFSSnapshotsResponse response \<times> kube" where
  "ConfigureNFSSnapshots install_velero body k =
     (case body of
        Inl err \<Rightarrow>
          (JSON StatusBadRequest
             \<lparr>Success = False, Error = ''failed to decode request body'', IsMinimalRBACEnabled = False\<rparr>, k)
      | Inr nfsOptions \<Rightarrow>
     (if api_error k Clientset then (WriteHeader StatusInternalServerError, k)
      else if \<not> IsKotsadmClusterScoped k
      then (JSON StatusOK \<lparr>Success = False, Error = [], IsMinimalRBACEnabled = True\<rparr>, k)
      else
        (case configureNFSMinio k nfsOptions of
           Inl err \<Rightarrow>
             (if is_ResetNFSError (Cause err)
              then (JSON StatusConflict
                      \<lparr>Success = False, Error = Error_text err, IsMinimalRBACEnabled = False\<rparr>, k)
              else (WriteHeader StatusInternalServerError, k))
         | Inr k1 \<Rightarrow> install_velero k1)))"

subsection \<open>The command line\<close>

datatype prompt_error = ErrInterrupt | ErrAbort | ErrEOF

datatype log_event =
    ActionWithSpinner string
  | ActionWithoutSpinner string
  | ColoredInfo string
  | FinishSpinner
  | FinishSpinnerWithError

datatype prompt_outcome = Confirmed | Exit int

text \<open>
  The confirmation loop over what \<open>prompt.Run()\<close> returns, one answer after the other.
  \<open>None\<close>: the answers are used up and the loop is still asking.
\<close>

fun prompt_loop :: "(string \<times> prompt_error option) list \<Rightarrow> prompt_outcome option" where
  "prompt_loop [] = None"
| "prompt_loop ((resp, err) # answers) =
     (if err = Some ErrInterrupt then Some (Exit (- 1))
      else if ToLower resp = ''n'' then Some (Exit (- 1))
      else if ToLower resp = ''y'' then Some Confirmed
      else prompt_loop answers)"

definition promptForNFSReset ::
  "string \<Rightarrow> (string \<times> prompt_error option) list \<Rightarrow> prompt_outcome option \<times> log_event list" where
  "promptForNFSReset warningMsg answers =
     (case prompt_loop answers of
        Some Confirmed \<Rightarrow> (Some Confirmed, [ColoredInfo (CHR 0x0A # warningMsg), ActionWithoutSpinner []])
      | r \<Rightarrow> (r, [ColoredInfo (CHR 0x0A # warningMsg)]))"

record cli_flags =
  flag_namespace :: string
  flag_path :: string
  flag_server :: string

datatype cli_outcome = Return "error option" | Exited int | StillAsking

text \<open>
  \<open>BackupConfigureNFSCmd\<close>, the command's \<open>RunE\<close>, up to the deployment of the backend.
  \<open>validateNamespace\<close> and the result of \<open>getRegistryConfig\<close> are taken from outside;
  \<open>configure_velero\<close> is the rest of the command, reached only when the backend is deployed.
  The second component is what was written to the log.
\<close>

definition BackupConfigureNFSCmd ::
  "(string \<Rightarrow> error option) \<Rightarrow> error + KotsadmOptions \<Rightarrow> (kube \<Rightarrow> error option \<times> kube)
     \<Rightarrow> cli_flags \<Rightarrow> (string \<times> prompt_error option) list \<Rightarrow> kube
     \<Rightarrow> cli_outcome \<times> log_event list \<times> kube" where
  "BackupConfigureNFSCmd validateNamespace registryConfig configure_velero v answers k =
     (case validateNamespace (flag_namespace v) of
        Some err \<Rightarrow> (Return (Some err), [], k)
      | None \<Rightarrow>
     (if flag_path v = [] then (Return (Some (Failure ''path is rquired'')), [], k)
      else if flag_server v = [] then (Return (Some (Failure ''server is rquired'')), [], k)
      else if api_error k Clientset
      then (Return (Some (Wrapped (Failure ''failed to create kubernetes clientset'')
                            ''failed to get clientset'')), [], k)
      else
     (case registryConfig of
        Inl err \<Rightarrow> (Return (Some (Wrapped err ''failed to get registry config'')), [], k)
      | Inr registryOptions \<Rightarrow>
     (let deployOptions =
            \<lparr>Namespace = flag_namespace v, DeployIsOpenShift = IsOpenShift k, ForceReset = False,
             DeployNFSConfig = \<lparr>Path = flag_path v, Server = flag_server v\<rparr>, Wait = True\<rparr>;
          log0 = [ActionWithSpinner ''Setting up NFS Minio'']
      in
     (case DeployNFSMinio k deployOptions registryOptions of
        Inr k1 \<Rightarrow>
          (case configure_velero k1 of (r, k2) \<Rightarrow> (Return r, log0 @ [FinishSpinner], k2))
      | Inl err \<Rightarrow>
          (if is_ResetNFSError (Cause err) then
             (case promptForNFSReset (Error_text err) answers of
                (None, plog) \<Rightarrow> (StillAsking, log0 @ [FinishSpinnerWithError] @ plog, k)
              | (Some (Exit c), plog) \<Rightarrow> (Exited c, log0 @ [FinishSpinnerWithError] @ plog, k)
              | (Some Confirmed, plog) \<Rightarrow>
                  (let log1 = log0 @ [FinishSpinnerWithError] @ plog
                              @ [ActionWithSpinner ''Re-configuring NFS Minio'']
                   in
                  (case DeployNFSMinio k (deployOptions\<lparr>ForceReset := True\<rparr>) registryOptions of
                     Inl err2 \<Rightarrow>
                       (Return (Some (Wrapped err2 ''failed to force deploy nfs minio'')),
                        log1 @ [FinishSpinnerWithError], k)
                   | Inr k1 \<Rightarrow>
                       (case configure_velero k1 of
                          (r, k2) \<Rightarrow> (Return r, log1 @ [FinishSpinner], k2)))))
           else (Return (Some (Wrapped err ''failed to deploy nfs minio'')),
                 log0 @ [FinishSpinnerWithError], k)))))))"

section \<open>The image-reference tokenizer\<close>

text \<open>
  The part of Go's regular expressions that \<open>dockerImageNameRegex\<close> uses: a character class
  (\<open>Class neg cs\<close> is \<open>[cs]\<close>, or \<open>[^cs]\<close> when \<open>neg\<close>), its greedy repetition \<open>+\<close>, the greedy
  option \<open>?\<close>, concatenation and capturing groups (numbered from 0 here). A class is matched
  against one byte; the classes of this expression list ASCII characters only, so that
  matching bytes gives the captures that matching UTF-8 code points gives.
\<close>

datatype regex =
    Class bool string
  | PlusClass bool string
  | Opt regex
  | Seq regex regex
  | Group nat regex

fun in_class :: "bool \<Rightarrow> string \<Rightarrow> char \<Rightarrow> bool" where
  "in_class neg cs c = ((c \<in> set cs) \<noteq> neg)"

text \<open>
  What is left of the input after one or more characters of the class, the longest run first.
\<close>

fun plus_rests :: "(char \<Rightarrow> bool) \<Rightarrow> string \<Rightarrow> string list" where
  "plus_rests p [] = []"
| "plus_rests p (c # s) = (if p c then plus_rests p s @ [s] else [])"

text \<open>
  Every way to match the expression at the start of the input, in the order in which a
  backtracking search finds them (Go's leftmost-first rule picks the first): the input left
  over and the text of the groups.
\<close>

fun rmatch :: "regex \<Rightarrow> string \<times> string list \<Rightarrow> (string \<times> string list) list" where
  "rmatch (Class neg cs) (s, caps) =
     (case s of [] \<Rightarrow> [] | c # r \<Rightarrow> if in_class neg cs c then [(r, caps)] else [])"
| "rmatch (PlusClass neg cs) (s, caps) = map (\<lambda>r. (r, caps)) (plus_rests (in_class neg cs) s)"
| "rmatch (Opt a) st = rmatch a st @ [st]"
| "rmatch (Seq a b) st = concat (map (rmatch b) (rmatch a st))"
| "rmatch (Group i a) (s, caps) =
     map (\<lambda>(r, caps'). (r, caps'[i := take (length s - length r) s])) (rmatch a (s, caps))"

fun num_groups :: "regex \<Rightarrow> nat" where
  "num_groups (Class neg cs) = 0"
| "num_groups (PlusClass neg cs) = 0"
| "num_groups (Opt a) = num_groups a"
| "num_groups (Seq a b) = num_groups a + num_groups b"
| "num_groups (Group i a) = Suc (num_groups a)"

text \<open>
  \<open>FindStringSubmatch\<close>: the leftmost match, as the matched text followed by the text of
  each group (empty for a group that took no part); the empty list for Go's nil when nothing
  matches.
\<close>

fun find_submatch :: "regex \<Rightarrow> string \<Rightarrow> string list" where
  "find_submatch re s =
     (case rmatch re (s, replicate (num_groups re) []) of
        (r, caps) # others \<Rightarrow> take (length s - length r) s # caps
      | [] \<Rightarrow> (case s of [] \<Rightarrow> [] | c # s' \<Rightarrow> find_submatch re s'))"

declare find_submatch.simps [simp del]

definition FindStringSubmatch :: "regex \<Rightarrow> string \<Rightarrow> string list" where
  "FindStringSubmatch re s = find_submatch re s"

text \<open>\<open>(?:([^\/]+)\/)?(?:([^\/]+)\/)?([^@:\/]+)(?:[@:](.+))\<close>\<close>

definition dockerImageNameRegex :: regex where
  "dockerImageNameRegex =
     Seq (Opt (Seq (Group 0 (PlusClass True ''/'')) (Class False ''/'')))
    (Seq (Opt (Seq (Group 1 (PlusClass True ''/'')) (Class False ''/'')))
    (Seq (Group 2 (PlusClass True ''@:/''))
         (Seq (Class False ''@:'') (Group 3 (PlusClass True [CHR 0x0A])))))"

section \<open>Rewriting and configuring the engine's images\<close>

text \<open>
  \<open>kotsadmversion.ImageRewriteKotsadmRegistry(namespace, options)\<close> is not among the sources:
  the functions below take it as the parameter \<open>rewrite\<close>; \<open>rewrite ns opts img always\<close> is
  the new reference and the pull secrets it needs, or an error.
\<close>

type_synonym image_rewrite =
  "string \<Rightarrow> KotsadmOptions \<Rightarrow> string \<Rightarrow> bool \<Rightarrow> error + (string \<times> string list)"

text \<open>
  The results are \<open>(veleroImage, awsPluginImage, resticRestoreHelperImage, imagePullSecrets)\<close>;
  with an error the callers read none of them.
\<close>

definition rewriteVeleroImages ::
  "image_rewrite \<Rightarrow> kube \<Rightarrow> string \<Rightarrow> KotsadmOptions
     \<Rightarrow> error + (string \<times> string \<times> string \<times> string list)" where
  "rewriteVeleroImages rewrite k kotsadmNamespace kotsadmRegistryOptions =
     (if \<not> IsKurl k \<or> kotsadmNamespace \<noteq> NamespaceDefault then
        (case rewrite kotsadmNamespace kotsadmRegistryOptions defaultVeleroImage False of
           Inl err \<Rightarrow> Inl (Wrapped err ''failed to rewrite velero image'')
         | Inr (veleroImage, imagePullSecrets) \<Rightarrow>
        (case rewrite kotsadmNamespace kotsadmRegistryOptions defaultVeleroAWSPluginImage False of
           Inl err \<Rightarrow> Inl (Wrapped err ''failed to rewrite aws plugin image'')
         | Inr (awsPluginImage, s2) \<Rightarrow>
        (case rewrite kotsadmNamespace kotsadmRegistryOptions
                defaultVeleroResticRestoreHelperImage False of
           Inl err \<Rightarrow> Inl (Wrapped err ''failed to rewrite restic restore helper image'')
         | Inr (resticRestoreHelperImage, s3) \<Rightarrow>
             Inr (veleroImage, awsPluginImage, resticRestoreHelperImage, imagePullSecrets))))
      else Inr (defaultVeleroImage, defaultVeleroAWSPluginImage,
                defaultVeleroResticRestoreHelperImage, []))"

definition resticConfigMapResource :: "string \<Rightarrow> ConfigMap" where
  "resticConfigMapResource img =
     \<lparr>cm_namespace = [], cm_name = resticConfigMapName,
      cm_labels = [(''velero.io/plugin-config'', []), (''velero.io/restic'', ''RestoreItemAction'')],
      Data = Some [(''image'', img)]\<rparr>"

text \<open>The patch of the engine deployment (lines 143 to 155 of the operation).\<close>

definition patch_velero_deployment ::
  "kube \<Rightarrow> string \<Rightarrow> string \<Rightarrow> string list \<Rightarrow> error + kube" where
  "patch_velero_deployment k veleroImage awsPluginImage imagePullSecrets =
     (case Deployments_Get k veleroNamespace veleroDeploymentName of
        Inl err \<Rightarrow> Inl (Wrapped err ''failed to get velero deployment'')
      | Inr veleroDeployment \<Rightarrow>
     (case InitContainers (Template veleroDeployment) of
        [] \<Rightarrow> Inl IndexOutOfRange
      | ic # ics \<Rightarrow>
     (case Containers (Template veleroDeployment) of
        [] \<Rightarrow> Inl IndexOutOfRange
      | c # cs \<Rightarrow>
     (case Deployments_Update k veleroNamespace
             (veleroDeployment\<lparr>Template := (Template veleroDeployment)
                \<lparr>ImagePullSecrets := imagePullSecrets,
                 InitContainers := ic\<lparr>Image := awsPluginImage\<rparr> # ics,
                 Containers := c\<lparr>Image := veleroImage\<rparr> # cs\<rparr>\<rparr>) of
        Inl err \<Rightarrow> Inl (Wrapped err ''failed to update velero deployment'')
      | Inr k1 \<Rightarrow> Inr k1))))"

text \<open>The config map of the restore helper (lines 157 to 186).\<close>

definition configure_restic_configmap :: "kube \<Rightarrow> string \<Rightarrow> error + kube" where
  "configure_restic_configmap k resticRestoreHelperImage =
     (if resticRestoreHelperImage \<noteq> defaultVeleroResticRestoreHelperImage then
        (case ConfigMaps_Get k veleroNamespace resticConfigMapName of
           Inl err \<Rightarrow>
             (if \<not> IsNotFound err then Inl (Wrapped err ''failed to get restic configmap'')
              else
                (case ConfigMaps_Create k veleroNamespace
                        (resticConfigMapResource resticRestoreHelperImage) of
                   Inl err2 \<Rightarrow> Inl (Wrapped err2 ''failed to create restic configmap'')
                 | Inr k1 \<Rightarrow> Inr k1))
         | Inr resticConfigMap \<Rightarrow>
             (case ConfigMaps_Update k veleroNamespace
                     (resticConfigMap\<lparr>Data :=
                        Some (AList.update ''image'' resticRestoreHelperImage
                                (case Data resticConfigMap of None \<Rightarrow> [] | Some d \<Rightarrow> d))\<rparr>) of
                Inl err2 \<Rightarrow> Inl (Wrapped err2 ''failed to update restic configmap'')
              | Inr k1 \<Rightarrow> Inr k1))
      else
        (case ConfigMaps_Delete k veleroNamespace resticConfigMapName of
           Inl err \<Rightarrow>
             (if \<not> IsNotFound err then Inl (Wrapped err ''failed to delete restic configmap'')
              else Inr k)
         | Inr k1 \<Rightarrow> Inr k1))"

text \<open>The patch of the companion daemon set (lines 188 to 199).\<close>

definition patch_restic_daemonset :: "kube \<Rightarrow> string \<Rightarrow> string list \<Rightarrow> error + kube" where
  "patch_restic_daemonset k veleroImage imagePullSecrets =
     (case DaemonSets_Get k veleroNamespace resticDaemonSetName of
        Inl err \<Rightarrow> Inl (Wrapped err ''failed to get restic daemonset'')
      | Inr resticDaemonSet \<Rightarrow>
     (case Containers (ds_Template resticDaemonSet) of
        [] \<Rightarrow> Inl IndexOutOfRange
      | c # cs \<Rightarrow>
     (case DaemonSets_Update k veleroNamespace
             (resticDaemonSet\<lparr>ds_Template := (ds_Template resticDaemonSet)
                \<lparr>ImagePullSecrets := imagePullSecrets,
                 Containers := c\<lparr>Image := veleroImage\<rparr> # cs\<rparr>\<rparr>) of
        Inl err \<Rightarrow> Inl (Wrapped err ''failed to update restic daemonset'')
      | Inr k1 \<Rightarrow> Inr k1)))"

text \<open>
  \<open>ConfigureVeleroImages\<close>: the error it returns, if any, and the cluster as it leaves it
  (a step that fails leaves the steps before it applied).
\<close>

definition ConfigureVeleroImages ::
  "image_rewrite \<Rightarrow> kube \<Rightarrow> string \<Rightarrow> KotsadmOptions \<Rightarrow> error option \<times> kube" where
  "ConfigureVeleroImages rewrite k kotsadmNamespace kotsadmRegistryOptions =
     (if IsKurl k \<and> kotsadmNamespace = NamespaceDefault then (None, k)
      else
     (case rewriteVeleroImages rewrite k kotsadmNamespace kotsadmRegistryOptions of
        Inl err \<Rightarrow> (Some (Wrapped err ''failed to rewrite images''), k)
      | Inr (veleroImage, awsPluginImage, resticRestoreHelperImage, imagePullSecrets) \<Rightarrow>
     (case EnsurePrivateKotsadmRegistrySecret veleroNamespace kotsadmRegistryOptions k of
        Inl err \<Rightarrow> (Some (Wrapped err ''failed to ensure private kotsadm registry secret''), k)
      | Inr k1 \<Rightarrow>
     (case patch_velero_deployment k1 veleroImage awsPluginImage imagePullSecrets of
        Inl err \<Rightarrow> (Some err, k1)
      | Inr k2 \<Rightarrow>
     (case configure_restic_configmap k2 resticRestoreHelperImage of
        Inl err \<Rightarrow> (Some err, k2)
      | Inr k3 \<Rightarrow>
     (case patch_restic_daemonset k3 veleroImage imagePullSecrets of
        Inl err \<Rightarrow> (Some err, k3)
      | Inr k4 \<Rightarrow> (None, k4)))))))"

section \<open>Detecting the engine\<close>

record VeleroStatus =
  Version :: string
  Plugins :: "string list"
  Status :: string
  ResticVersion :: string
  ResticStatus :: string

definition DetectVeleroNamespace :: "kube \<Rightarrow> error + string" where
  "DetectVeleroNamespace k =
     (if api_error k GetConfig
      then Inl (Wrapped (Failure ''unable to load in-cluster configuration'') ''failed to get cluster config'')
      else if api_error k NewVeleroClient
      then Inl (Wrapped (Failure ''invalid configuration'') ''failed to create velero clientset'')
      else
        (case BackupStorageLocations_List k of
           Inl err \<Rightarrow> (if IsNotFound err then Inr [] else Inr [])
         | Inr items \<Rightarrow>
             (case find (\<lambda>backupStorageLocation. bsl_name backupStorageLocation = ''default'') items of
                Some backupStorageLocation \<Rightarrow> Inr (bsl_namespace backupStorageLocation)
              | None \<Rightarrow> Inr [])))"

definition listPossibleVeleroDeployments :: "kube \<Rightarrow> string \<Rightarrow> error + Deployment list" where
  "listPossibleVeleroDeployments k ns =
     (case Deployments_List k ns (''component'', ''velero'') of
        Inl err \<Rightarrow> Inl (Wrapped err ''failed to list deployments'')
      | Inr deployments \<Rightarrow>
     (case Deployments_List k ns (''app.kubernetes.io/name'', ''velero'') of
        Inl err \<Rightarrow> Inl (Wrapped err ''failed to list helm deployments'')
      | Inr helmDeployments \<Rightarrow> Inr (deployments @ helmDeployments)))"

definition listPossibleResticDaemonsets :: "kube \<Rightarrow> string \<Rightarrow> error + DaemonSet list" where
  "listPossibleResticDaemonsets k ns =
     (case DaemonSets_List k ns (''component'', ''velero'') of
        Inl err \<Rightarrow> Inl (Wrapped err ''failed to list daemonsets'')
      | Inr daemonsets \<Rightarrow>
     (case DaemonSets_List k ns (''app.kubernetes.io/name'', ''velero'') of
        Inl err \<Rightarrow> Inl (Wrapped err ''failed to list helm daemonsets'')
      | Inr helmDaemonsets \<Rightarrow> Inr (daemonsets @ helmDaemonsets)))"

text \<open>
  The loop over the possible deployments, left at the first one whose first container's image
  the tokenizer matches (\<open>goto DeploymentFound\<close>). Indexing \<open>Containers[0]\<close> of a workload
  without containers panics.
\<close>

fun scan_deployments :: "Deployment list \<Rightarrow> VeleroStatus \<Rightarrow> error + VeleroStatus" where
  "scan_deployments [] veleroStatus = Inr veleroStatus"
| "scan_deployments (deployment # rest) veleroStatus =
     (let st1 = veleroStatus\<lparr>Plugins := Plugins veleroStatus
                                 @ map Name (InitContainers (Template deployment))\<rparr>
      in case Containers (Template deployment) of
           [] \<Rightarrow> Inl IndexOutOfRange
         | c # cs \<Rightarrow>
             (let matches = FindStringSubmatch dockerImageNameRegex (Image c)
              in if length matches = 5
                 then Inr (st1\<lparr>Version := matches ! 4,
                               Status := (if AvailableReplicas deployment > 0 then ''Ready''
                                          else ''NotReady'')\<rparr>)
                 else scan_deployments rest st1))"

fun scan_daemonsets :: "DaemonSet list \<Rightarrow> VeleroStatus \<Rightarrow> error + VeleroStatus" where
  "scan_daemonsets [] veleroStatus = Inr veleroStatus"
| "scan_daemonsets (daemonset # rest) veleroStatus =
     (case Containers (ds_Template daemonset) of
        [] \<Rightarrow> Inl IndexOutOfRange
      | c # cs \<Rightarrow>
          (let matches = FindStringSubmatch dockerImageNameRegex (Image c)
           in if length matches = 5
              then Inr (veleroStatus\<lparr>ResticVersion := matches ! 4,
                                     ResticStatus :=
                                       (if NumberAvailable daemonset > 0
                                           \<and> NumberUnavailable daemonset = 0
                                        then ''Ready'' else ''NotReady'')\<rparr>)
              else scan_daemonsets rest veleroStatus))"

text \<open>\<open>DetectVelero\<close>: \<open>Inr None\<close> is the nil status, the engine is not installed.\<close>

definition DetectVelero :: "kube \<Rightarrow> error + VeleroStatus option" where
  "DetectVelero k =
     (if api_error k GetConfig
      then Inl (Wrapped (Failure ''unable to load in-cluster configuration'') ''failed to get cluster config'')
      else if api_error k NewClientset
      then Inl (Wrapped (Failure ''invalid configuration'') ''failed to create clientset'')
      else
     (case DetectVeleroNamespace k of
        Inl err \<Rightarrow> Inl (Wrapped err ''failed to detect velero namespace'')
      | Inr ns \<Rightarrow>
     (if ns = [] then Inr None
      else
     (case listPossibleVeleroDeployments k ns of
        Inl err \<Rightarrow> Inl (Wrapped err ''failed to list possible velero deployments'')
      | Inr possibleDeployments \<Rightarrow>
     (case scan_deployments possibleDeployments
             \<lparr>Version = [], Plugins = [], Status = [], ResticVersion = [], ResticStatus = []\<rparr> of
        Inl err \<Rightarrow> Inl err
      | Inr st1 \<Rightarrow>
     (case listPossibleResticDaemonsets k ns of
        Inl err \<Rightarrow> Inl (Wrapped err ''failed to list restic daemonsets'')
      | Inr daemonsets \<Rightarrow>
     (case scan_daemonsets daemonsets st1 of
        Inl err \<Rightarrow> Inl err
      | Inr st2 \<Rightarrow> Inr (Some st2))))))))"

section \<open>Concrete collaborators\<close>

text \<open>Instances of the parameters, for running the operations on concrete inputs.\<close>

definition digit_value :: "char \<Rightarrow> nat option" where
  "digit_value c = map_of (zip ''0123456789'' [0, 1, 2, 3, 4, 5, 6, 7, 8, 9]) c"

fun parse_digits :: "string \<Rightarrow> nat \<Rightarrow> nat option" where
  "parse_digits [] acc = Some acc"
| "parse_digits (c # s) acc =
     (case digit_value c of None \<Rightarrow> None | Some d \<Rightarrow> parse_digits s (10 * acc + d))"

definition parse_nat :: "string \<Rightarrow> nat option" where
  "parse_nat s = (if s = [] then None else parse_digits s 0)"

text \<open>
  Modelled from the spec: \<open>snapshot.FormatTTL\<close> is not among the sources. Section 8 of the
  spec fixes it at the unit \<open>month\<close>: formatting \<open>("1", "month")\<close> gives \<open>720h\<close>, and
  \<open>("0", "month")\<close> is rejected. This instance knows that unit and no other.
\<close>

definition month_FormatTTL :: "string \<Rightarrow> string \<Rightarrow> error + string" where
  "month_FormatTTL quantityStr unit =
     (case parse_nat quantityStr of
        None \<Rightarrow> Inl (Failure ''failed to parse quantity'')
      | Some quantity \<Rightarrow>
          if quantity < 1 then Inl (Failure ''invalid quantity'')
          else if unit = ''month'' then Inr (format_nat (quantity * 720) @ ''h'')
          else Inl (Failure ''invalid unit''))"

text \<open>
  Modelled from the spec: \<open>snapshot.ParseTTL\<close> is not among the sources. Section 8 of the
  spec: \<open>720h\<close> parses to quantity 1 and unit \<open>month\<close>. This instance parses whole months.
\<close>

definition month_ParseTTL :: "string \<Rightarrow> error + ParsedTTL" where
  "month_ParseTTL s =
     (if s = [] \<or> last s \<noteq> CHR ''h'' then Inl (Failure ''failed to parse duration'')
      else case parse_nat (butlast s) of
             None \<Rightarrow> Inl (Failure ''failed to parse duration'')
           | Some hours \<Rightarrow>
               if hours mod 720 = 0 then Inr \<lparr>Quantity = of_nat (hours div 720), Unit = ''month''\<rparr>
               else Inl (Failure ''not a whole number of months''))"

text \<open>
  An instance of the cron library at the expression and the descriptors used below: a
  schedule is a period and an offset in seconds since the epoch (1970-01-05 was a Monday), and
  its next occurrence is the first one strictly after the given time.
\<close>

definition periodic_ParseStandard :: "string \<Rightarrow> error + int \<times> int" where
  "periodic_ParseStandard spec =
     (if spec = ''0 0 * * MON'' then Inr (604800, 345600)
      else if spec = ''@daily'' then Inr (86400, 0)
      else if spec = ''@hourly'' then Inr (3600, 0)
      else Inl (Failure (''unrecognized schedule: '' @ spec)))"

definition periodic_Next :: "int \<times> int \<Rightarrow> int \<Rightarrow> int" where
  "periodic_Next sched t = (case sched of (period, offset) \<Rightarrow> t + period - (t - offset) mod period)"

definition sample_env :: "(int \<times> int) env" where
  "sample_env =
     \<lparr>FormatTTL = month_FormatTTL, ParseTTL = month_ParseTTL,
      ParseStandard = periodic_ParseStandard, Next = periodic_Next,
      time_Now = 1604275200, rand_String = ''Xk2bQ7''\<rparr>"

text \<open>
  An instance of the registry rewrite: with no private registry the reference stays; with
  one, the image moves under the registry and namespace and needs the registry's pull secret.
\<close>

fun image_basename :: "string \<Rightarrow> string \<Rightarrow> string" where
  "image_basename [] acc = acc"
| "image_basename (c # s) acc = (if c = CHR ''/'' then image_basename s [] else image_basename s (acc @ [c]))"

definition registry_rewrite :: image_rewrite where
  "registry_rewrite ns opts img always =
     (if OverrideRegistry opts = [] then Inr (img, [])
      else Inr (OverrideRegistry opts @ ''/'' @ OverrideNamespace opts @ ''/'' @ image_basename img [],
                [''kotsadm-private-registry'']))"

section \<open>Concrete inputs\<close>

text \<open>
  A store with an application that has a daily schedule and one pending request, two
  applications that never had a schedule (one of them with a stored retention of two months),
  and one cluster with a daily schedule and one pending request.
\<close>

definition sample_store :: store where
  "sample_store =
     \<lparr>apps =
        [\<lparr>ID = ''app-1'', Slug = ''sentry'', SnapshotTTL = ''720h'', SnapshotSchedule = ''@daily''\<rparr>,
         \<lparr>ID = ''app-2'', Slug = ''redis'', SnapshotTTL = [], SnapshotSchedule = []\<rparr>,
         \<lparr>ID = ''app-3'', Slug = ''minio'', SnapshotTTL = ''1440h'', SnapshotSchedule = []\<rparr>],
      clusters =
        [\<lparr>ClusterID = ''cluster-1'', InstanceSnapshotTTL = ''720h'',
          InstanceSnapshotSchedule = ''@daily''\<rparr>],
      scheduled_snapshots =
        [\<lparr>snapshot_id = ''pending-1'', owner_id = ''app-1'', scheduled_at = 1604361600\<rparr>,
         \<lparr>snapshot_id = ''pending-2'', owner_id = ''app-3'', scheduled_at = 1604361600\<rparr>],
      scheduled_instance_snapshots =
        [\<lparr>snapshot_id = ''pending-3'', owner_id = ''cluster-1'', scheduled_at = 1604361600\<rparr>],
      unavailable = []\<rparr>"

definition unset_store :: store where
  "unset_store =
     sample_store\<lparr>clusters :=
       [\<lparr>ClusterID = ''cluster-1'', InstanceSnapshotTTL = [], InstanceSnapshotSchedule = []\<rparr>]\<rparr>"

definition save_request :: "string \<Rightarrow> string \<Rightarrow> string \<Rightarrow> bool \<Rightarrow> SaveSnapshotConfigRequest" where
  "save_request app quantity sched auto =
     \<lparr>ReqAppID = app, ReqInputValue = quantity, ReqInputTimeUnit = ''month'',
      ReqSchedule = sched, ReqAutoEnabled = auto\<rparr>"

definition save_instance_request :: "string \<Rightarrow> string \<Rightarrow> bool \<Rightarrow> SaveInstanceSnapshotConfigRequest" where
  "save_instance_request quantity sched auto =
     \<lparr>InstInputValue = quantity, InstInputTimeUnit = ''month'',
      InstSchedule = sched, InstAutoEnabled = auto\<rparr>"

text \<open>
  A cluster with the engine installed by its installer: the deployment with its plugin init
  container, the companion daemon set (here with an init container of its own), the default
  backup storage location, and no config map for the restore helper.
\<close>

definition velero_deployment :: Deployment where
  "velero_deployment =
     \<lparr>deploy_namespace = ''velero'', deploy_name = ''velero'',
      deploy_labels = [(''component'', ''velero'')], Replicas = 1,
      Template =
        \<lparr>ImagePullSecrets = [],
         InitContainers =
           [\<lparr>Name = ''velero-plugin-for-aws'', Image = ''velero/velero-plugin-for-aws:v1.1.0'',
             Args = []\<rparr>],
         Containers = [\<lparr>Name = ''velero'', Image = ''velero/velero:v1.5.1'', Args = [''server'']\<rparr>],
         ServiceAccountName = ''velero'', NodeSelector = []\<rparr>,
      AvailableReplicas = 1\<rparr>"

definition restic_daemonset :: DaemonSet where
  "restic_daemonset =
     \<lparr>ds_namespace = ''velero'', ds_name = ''restic'',
      ds_labels = [(''component'', ''velero'')],
      ds_Template =
        \<lparr>ImagePullSecrets = [],
         InitContainers = [\<lparr>Name = ''fix-permissions'', Image = ''busybox:1.32'', Args = []\<rparr>],
         Containers =
           [\<lparr>Name = ''restic'', Image = ''velero/velero:v1.5.1'', Args = [''restic'', ''server'']\<rparr>],
         ServiceAccountName = ''velero'', NodeSelector = [(''kubernetes.io/os'', ''linux'')]\<rparr>,
      NumberAvailable = 3, NumberUnavailable = 0\<rparr>"

definition private_registry :: KotsadmOptions where
  "private_registry =
     \<lparr>OverrideRegistry = ''registry.local:5000'', OverrideNamespace = ''kots'',
      Username = ''admin'', Password = ''secret''\<rparr>"

definition no_registry :: KotsadmOptions where
  "no_registry = \<lparr>OverrideRegistry = [], OverrideNamespace = [], Username = [], Password = []\<rparr>"

definition sample_cluster :: kube where
  "sample_cluster =
     \<lparr>IsKurl = False, IsOpenShift = False, IsKotsadmClusterScoped = True,
      POD_NAMESPACE = ''kots'', StoredKotsadmOptions = private_registry,
      VeleroCRDsInstalled = True,
      BackupStorageLocations = [\<lparr>bsl_namespace = ''velero'', bsl_name = ''default''\<rparr>],
      Deployments = [velero_deployment], DaemonSets = [restic_daemonset],
      ConfigMaps = [], Secrets = [], nfs_minio = None, api_unavailable = []\<rparr>"

text \<open>
  An embedded cluster that still holds a config map for the restore helper, and a cluster
  with no engine at all.
\<close>

definition kurl_cluster :: kube where
  "kurl_cluster =
     sample_cluster\<lparr>IsKurl := True,
                    ConfigMaps := [(resticConfigMapResource ''registry.local:5000/kots/helper:v1.5.1'')
                                     \<lparr>cm_namespace := ''velero''\<rparr>]\<rparr>"

definition bare_cluster :: kube where
  "bare_cluster =
     sample_cluster\<lparr>VeleroCRDsInstalled := False, BackupStorageLocations := [],
                    Deployments := [], DaemonSets := []\<rparr>"

text \<open>
  A cluster whose engine deployment runs an image from a registry with a port and no tag.
\<close>

definition untagged_cluster :: kube where
  "untagged_cluster =
     sample_cluster\<lparr>Deployments :=
       [velero_deployment\<lparr>Template := (Template velero_deployment)
          \<lparr>Containers := [\<lparr>Name = ''velero'', Image = ''localhost:5000/velero/velero'',
                            Args = [''server'']\<rparr>]\<rparr>\<rparr>]\<rparr>"

text \<open>
  The sample cluster after its images have been configured for the private registry.
\<close>

definition configured_cluster :: kube where
  "configured_cluster =
     sample_cluster
       \<lparr>Deployments :=
          [velero_deployment\<lparr>Template := (Template velero_deployment)
             \<lparr>ImagePullSecrets := [''kotsadm-private-registry''],
              InitContainers :=
                [\<lparr>Name = ''velero-plugin-for-aws'',
                  Image = ''registry.local:5000/kots/velero-plugin-for-aws:v1.1.0'', Args = []\<rparr>],
              Containers :=
                [\<lparr>Name = ''velero'', Image = ''registry.local:5000/kots/velero:v1.5.1'',
                  Args = [''server'']\<rparr>]\<rparr>\<rparr>],
        DaemonSets :=
          [restic_daemonset\<lparr>ds_Template := (ds_Template restic_daemonset)
             \<lparr>ImagePullSecrets := [''kotsadm-private-registry''],
              Containers :=
                [\<lparr>Name = ''restic'', Image = ''registry.local:5000/kots/velero:v1.5.1'',
                  Args = [''restic'', ''server'']\<rparr>]\<rparr>\<rparr>],
        ConfigMaps :=
          [(resticConfigMapResource ''registry.local:5000/kots/velero-restic-restore-helper:v1.5.1'')
             \<lparr>cm_namespace := ''velero''\<rparr>],
        Secrets := [(''velero'', ''kotsadm-private-registry'')]\<rparr>"

text \<open>Two shares of one server, and the flags of the command for the second.\<close>

definition share_a :: NFSConfig where
  "share_a = \<lparr>Path = ''/exports/a'', Server = ''10.0.0.1''\<rparr>"

definition share_b :: NFSConfig where
  "share_b = \<lparr>Path = ''/exports/b'', Server = ''10.0.0.1''\<rparr>"

definition deploy_options :: "NFSConfig \<Rightarrow> bool \<Rightarrow> NFSDeployOptions" where
  "deploy_options config force =
     \<lparr>Namespace = ''kots'', DeployIsOpenShift = False, ForceReset = force,
      DeployNFSConfig = config, Wait = True\<rparr>"

definition cluster_on_share_a :: kube where
  "cluster_on_share_a =
     sample_cluster\<lparr>nfs_minio := Some \<lparr>CurrentNFSConfig = share_a, CredentialsGeneration = 0\<rparr>\<rparr>"

text \<open>A rest of the command that changes nothing and returns no error.\<close>

definition nothing_more :: "kube \<Rightarrow> error option \<times> kube" where
  "nothing_more k = (None, k)"

section \<open>Facts about the store and the responses\<close>

lemma find_map_preserve:
  "(\<And>x. P (f x) = P x) \<Longrightarrow> find P (map f xs) = map_option f (find P xs)"
  by (induction xs) auto

lemma GetApp_ID: "GetApp st i = Inr a \<Longrightarrow> ID a = i"
  by (auto simp: GetApp_def find_Some_iff split: if_splits option.splits)

lemma schedule_after_ttl:
  "map SnapshotSchedule (map (\<lambda>a. if ID a = i then a\<lparr>SnapshotTTL := t\<rparr> else a) xs)
     = map SnapshotSchedule xs"
  by (induction xs) auto

lemma instance_schedule_after_ttl:
  "map InstanceSnapshotSchedule
       (map (\<lambda>c. if ClusterID c = i then c\<lparr>InstanceSnapshotTTL := t\<rparr> else c) xs)
     = map InstanceSnapshotSchedule xs"
  by (induction xs) auto

lemmas store_defs =
  GetApp_def GetAppFromSlug_def SetSnapshotTTL_def SetSnapshotSchedule_def
  DeletePendingScheduledSnapshots_def CreateScheduledSnapshot_def ListClusters_def
  SetInstanceSnapshotTTL_def SetInstanceSnapshotSchedule_def
  DeletePendingScheduledInstanceSnapshots_def CreateScheduledInstanceSnapshot_def store_error_def

lemmas sample_defs =
  sample_store_def unset_store_def save_request_def save_instance_request_def sample_env_def
  periodic_ParseStandard_def periodic_Next_def ToLower_def to_lower_char_def

lemma failed_neq_succeeded [simp]: "failed m \<noteq> succeeded" "succeeded \<noteq> failed m"
  by (simp_all add: failed_def succeeded_def)

lemma Status_neq [simp]:
  "StatusOK \<noteq> StatusBadRequest" "StatusOK \<noteq> StatusInternalServerError"
  "StatusBadRequest \<noteq> StatusOK" "StatusInternalServerError \<noteq> StatusOK"
  by (simp_all add: StatusOK_def StatusBadRequest_def StatusInternalServerError_def)

lemma month_FormatTTL_one [simp]: "month_FormatTTL ''1'' ''month'' = Inr ''720h''"
  by (simp add: month_FormatTTL_def parse_nat_def digit_value_def format_nat.simps digit_char_def)

lemma month_FormatTTL_two [simp]: "month_FormatTTL ''2'' ''month'' = Inr ''1440h''"
  by (simp add: month_FormatTTL_def parse_nat_def digit_value_def format_nat.simps digit_char_def)

lemma month_FormatTTL_zero [simp]: "month_FormatTTL ''0'' ''month'' = Inl (Failure ''invalid quantity'')"
  by (simp add: month_FormatTTL_def parse_nat_def digit_value_def)

lemma month_ParseTTL_two [simp]:
  "month_ParseTTL ''1440h'' = Inr \<lparr>Quantity = 2, Unit = ''month''\<rparr>"
  by (simp add: month_ParseTTL_def parse_nat_def digit_value_def)

lemma FormatInt_two [simp]: "FormatInt (sint (2 :: 64 word)) = ''2''"
  by (simp add: FormatInt_def format_nat.simps digit_char_def)

section \<open>Reading the configuration of a workload that has none\<close>

lemma get_config_ttl_default:
  assumes "GetAppFromSlug st appSlug = Inr a" "SnapshotTTL a = []"
  shows "\<exists>cfg. GetSnapshotConfig e appSlug st = JSON StatusOK cfg
           \<and> TTl cfg = \<lparr>InputValue = ''1'', InputTimeUnit = ''month'', Converted = ''720h''\<rparr>"
  using assms by (simp add: GetSnapshotConfig_def)

lemma get_config_schedule_default:
  assumes "GetAppFromSlug st appSlug = Inr a" "SnapshotSchedule a = []"
    and "SnapshotTTL a = [] \<or> ParseTTL e (SnapshotTTL a) = Inr p"
  shows "\<exists>cfg. GetSnapshotConfig e appSlug st = JSON StatusOK cfg
           \<and> AutoSchedule cfg = ''0 0 * * MON'' \<and> \<not> AutoEnabled cfg"
  using assms by (auto simp: GetSnapshotConfig_def)

lemma get_instance_config_ttl_default:
  assumes "ListClusters st = Inr (c # cs)" "InstanceSnapshotTTL c = []"
  shows "\<exists>cfg. GetInstanceSnapshotConfig e st = JSON StatusOK cfg
           \<and> TTl cfg = \<lparr>InputValue = ''1'', InputTimeUnit = ''month'', Converted = ''720h''\<rparr>"
  using assms by (simp add: GetInstanceSnapshotConfig_def)

lemma get_instance_config_schedule_default:
  assumes "ListClusters st = Inr (c # cs)" "InstanceSnapshotSchedule c = []"
    and "InstanceSnapshotTTL c = [] \<or> ParseTTL e (InstanceSnapshotTTL c) = Inr p"
  shows "\<exists>cfg. GetInstanceSnapshotConfig e st = JSON StatusOK cfg
           \<and> AutoSchedule cfg = ''0 0 * * MON'' \<and> \<not> AutoEnabled cfg"
  using assms by (auto simp: GetInstanceSnapshotConfig_def)

text \<open>
  Claim C9. For a workload (an application found by its slug, or the first cluster) whose
  stored retention is the empty string, reading the snapshot configuration answers 200 with
  the retention quantity "1", unit "month" and converted duration "720h". For a workload
  whose stored cron expression is the empty string, and whose stored retention is empty or
  parses, it answers 200 with the schedule "0 0 * * MON" and auto-scheduling reported as
  disabled.
\<close>

theorem C9_config_defaults:
  "(GetAppFromSlug st appSlug = Inr a \<and> SnapshotTTL a = [] \<longrightarrow>
      (\<exists>cfg. GetSnapshotConfig e appSlug st = JSON StatusOK cfg
         \<and> TTl cfg = \<lparr>InputValue = ''1'', InputTimeUnit = ''month'', Converted = ''720h''\<rparr>))
   \<and> (GetAppFromSlug st appSlug = Inr a \<and> SnapshotSchedule a = []
        \<and> (SnapshotTTL a = [] \<or> ParseTTL e (SnapshotTTL a) = Inr p) \<longrightarrow>
      (\<exists>cfg. GetSnapshotConfig e appSlug st = JSON StatusOK cfg
         \<and> AutoSchedule cfg = ''0 0 * * MON'' \<and> \<not> AutoEnabled cfg))
   \<and> (ListClusters st = Inr (c # cs) \<and> InstanceSnapshotTTL c = [] \<longrightarrow>
      (\<exists>cfg. GetInstanceSnapshotConfig e st = JSON StatusOK cfg
         \<and> TTl cfg = \<lparr>InputValue = ''1'', InputTimeUnit = ''month'', Converted = ''720h''\<rparr>))
   \<and> (ListClusters st = Inr (c # cs) \<and> InstanceSnapshotSchedule c = []
        \<and> (InstanceSnapshotTTL c = [] \<or> ParseTTL e (InstanceSnapshotTTL c) = Inr q) \<longrightarrow>
      (\<exists>cfg. GetInstanceSnapshotConfig e st = JSON StatusOK cfg
         \<and> AutoSchedule cfg = ''0 0 * * MON'' \<and> \<not> AutoEnabled cfg))"
  using get_config_ttl_default get_config_schedule_default
    get_instance_config_ttl_default get_instance_config_schedule_default
  by meson

text \<open>
  The theorem at the sample store: the application \<open>redis\<close> has neither retention nor
  schedule, \<open>minio\<close> has a retention of two months and no schedule, and the cluster of
  \<open>unset_store\<close> has neither.
\<close>

theorem C9_config_defaults_witness:
  "GetAppFromSlug unset_store ''redis''
      = Inr \<lparr>ID = ''app-2'', Slug = ''redis'', SnapshotTTL = [], SnapshotSchedule = []\<rparr>
   \<and> ListClusters unset_store
      = Inr [\<lparr>ClusterID = ''cluster-1'', InstanceSnapshotTTL = [], InstanceSnapshotSchedule = []\<rparr>]
   \<and> (\<exists>cfg. GetSnapshotConfig sample_env ''redis'' unset_store = JSON StatusOK cfg
         \<and> TTl cfg = \<lparr>InputValue = ''1'', InputTimeUnit = ''month'', Converted = ''720h''\<rparr>)
   \<and> (\<exists>cfg. GetSnapshotConfig sample_env ''redis'' unset_store = JSON StatusOK cfg
         \<and> AutoSchedule cfg = ''0 0 * * MON'' \<and> \<not> AutoEnabled cfg)
   \<and> (\<exists>cfg. GetInstanceSnapshotConfig sample_env unset_store = JSON StatusOK cfg
         \<and> TTl cfg = \<lparr>InputValue = ''1'', InputTimeUnit = ''month'', Converted = ''720h''\<rparr>)
   \<and> (\<exists>cfg. GetInstanceSnapshotConfig sample_env unset_store = JSON StatusOK cfg
         \<and> AutoSchedule cfg = ''0 0 * * MON'' \<and> \<not> AutoEnabled cfg)"
proof -
  let ?a = "\<lparr>ID = ''app-2'', Slug = ''redis'', SnapshotTTL = [], SnapshotSchedule = []\<rparr>"
  let ?c = "\<lparr>ClusterID = ''cluster-1'', InstanceSnapshotTTL = [], InstanceSnapshotSchedule = []\<rparr>"
  have app: "GetAppFromSlug unset_store ''redis'' = Inr ?a"
    by (simp add: store_defs sample_defs)
  have cl: "ListClusters unset_store = Inr [?c]"
    by (simp add: store_defs sample_defs)
  show ?thesis
    using app cl
      C9_config_defaults [where st = unset_store and appSlug = "''redis''" and a = ?a
        and e = sample_env and c = ?c and cs = "[]"]
    by simp
qed

section \<open>Turning the schedule off\<close>

lemma save_disable_success:
  assumes "GetApp st (ReqAppID r) = Inr a" "\<not> ReqAutoEnabled r"
    and "FormatTTL e (ReqInputValue r) (ReqInputTimeUnit r) = Inr retention"
    and "unavailable st = []"
  shows "fst (SaveSnapshotConfig e (Inr r) st) = JSON StatusOK succeeded"
  using assms
  by (simp add: SaveSnapshotConfig_def SetSnapshotTTL_def SetSnapshotSchedule_def
      DeletePendingScheduledSnapshots_def store_error_def)

lemma save_disable_effect:
  assumes "GetApp st (ReqAppID r) = Inr a" "\<not> ReqAutoEnabled r"
    and "SaveSnapshotConfig e (Inr r) st = (JSON StatusOK succeeded, st')"
  shows "(\<exists>a'. GetApp st' (ReqAppID r) = Inr a' \<and> SnapshotSchedule a' = [])
       \<and> filter (\<lambda>s. owner_id s = ReqAppID r) (scheduled_snapshots st') = []
       \<and> filter (\<lambda>s. owner_id s \<noteq> ReqAppID r) (scheduled_snapshots st')
           = filter (\<lambda>s. owner_id s \<noteq> ReqAppID r) (scheduled_snapshots st)"
  using assms GetApp_ID[OF assms(1)]
  apply (simp add: SaveSnapshotConfig_def split: sum.splits if_splits)
   apply (auto simp: store_defs find_map_preserve split: if_splits option.splits)
  done

lemma save_instance_disable_success:
  assumes "ListClusters st = Inr (c # cs)" "\<not> InstAutoEnabled r"
    and "FormatTTL e (InstInputValue r) (InstInputTimeUnit r) = Inr retention"
    and "unavailable st = []"
  shows "fst (SaveInstanceSnapshotConfig e (Inr r) st) = JSON StatusOK succeeded"
  using assms
  by (simp add: SaveInstanceSnapshotConfig_def SetInstanceSnapshotTTL_def
      SetInstanceSnapshotSchedule_def DeletePendingScheduledInstanceSnapshots_def store_error_def)

lemma save_instance_disable_effect:
  assumes "ListClusters st = Inr (c # cs)" "\<not> InstAutoEnabled r"
    and "SaveInstanceSnapshotConfig e (Inr r) st = (JSON StatusOK succeeded, st')"
  shows "(\<exists>c' cs'. ListClusters st' = Inr (c' # cs') \<and> ClusterID c' = ClusterID c
             \<and> InstanceSnapshotSchedule c' = [])
       \<and> filter (\<lambda>s. owner_id s = ClusterID c) (scheduled_instance_snapshots st') = []
       \<and> filter (\<lambda>s. owner_id s \<noteq> ClusterID c) (scheduled_instance_snapshots st')
           = filter (\<lambda>s. owner_id s \<noteq> ClusterID c) (scheduled_instance_snapshots st)"
  using assms
  apply (simp add: SaveInstanceSnapshotConfig_def split: sum.splits if_splits)
   apply (auto simp: store_defs split: if_splits option.splits)
  done

text \<open>
  Claim C4. Saving a snapshot configuration with auto-scheduling off, for an application the
  store finds (or for the first cluster): the save succeeds when the retention input is valid
  and the store answers every call, and whenever it succeeds the workload's stored cron
  expression is the empty string, no pending request of the workload is left, and the pending
  requests of the other workloads are as before. This holds whatever the stored schedule was,
  so in particular for a workload in the enabled state.
\<close>

theorem C4_disable_clears_schedule_and_pending:
  "(GetApp st (ReqAppID r) = Inr a \<and> \<not> ReqAutoEnabled r \<longrightarrow>
      (FormatTTL e (ReqInputValue r) (ReqInputTimeUnit r) = Inr retention \<and> unavailable st = []
         \<longrightarrow> fst (SaveSnapshotConfig e (Inr r) st) = JSON StatusOK succeeded)
    \<and> (fst (SaveSnapshotConfig e (Inr r) st) = JSON StatusOK succeeded \<longrightarrow>
         (\<exists>a'. GetApp (snd (SaveSnapshotConfig e (Inr r) st)) (ReqAppID r) = Inr a'
                \<and> SnapshotSchedule a' = [])
       \<and> filter (\<lambda>s. owner_id s = ReqAppID r)
            (scheduled_snapshots (snd (SaveSnapshotConfig e (Inr r) st))) = []
       \<and> filter (\<lambda>s. owner_id s \<noteq> ReqAppID r)
            (scheduled_snapshots (snd (SaveSnapshotConfig e (Inr r) st)))
           = filter (\<lambda>s. owner_id s \<noteq> ReqAppID r) (scheduled_snapshots st)))
   \<and> (ListClusters st = Inr (c # cs) \<and> \<not> InstAutoEnabled ri \<longrightarrow>
      (FormatTTL e (InstInputValue ri) (InstInputTimeUnit ri) = Inr retention' \<and> unavailable st = []
         \<longrightarrow> fst (SaveInstanceSnapshotConfig e (Inr ri) st) = JSON StatusOK succeeded)
    \<and> (fst (SaveInstanceSnapshotConfig e (Inr ri) st) = JSON StatusOK succeeded \<longrightarrow>
         (\<exists>c' cs'. ListClusters (snd (SaveInstanceSnapshotConfig e (Inr ri) st)) = Inr (c' # cs')
                \<and> ClusterID c' = ClusterID c \<and> InstanceSnapshotSchedule c' = [])
       \<and> filter (\<lambda>s. owner_id s = ClusterID c)
            (scheduled_instance_snapshots (snd (SaveInstanceSnapshotConfig e (Inr ri) st))) = []
       \<and> filter (\<lambda>s. owner_id s \<noteq> ClusterID c)
            (scheduled_instance_snapshots (snd (SaveInstanceSnapshotConfig e (Inr ri) st)))
           = filter (\<lambda>s. owner_id s \<noteq> ClusterID c) (scheduled_instance_snapshots st)))"
proof -
  have app: "fst (SaveSnapshotConfig e (Inr r) st) = JSON StatusOK succeeded \<Longrightarrow>
      SaveSnapshotConfig e (Inr r) st = (JSON StatusOK succeeded, snd (SaveSnapshotConfig e (Inr r) st))"
    by (metis prod.collapse)
  have inst: "fst (SaveInstanceSnapshotConfig e (Inr ri) st) = JSON StatusOK succeeded \<Longrightarrow>
      SaveInstanceSnapshotConfig e (Inr ri) st
        = (JSON StatusOK succeeded, snd (SaveInstanceSnapshotConfig e (Inr ri) st))"
    by (metis prod.collapse)
  show ?thesis
    using save_disable_success [of st r a e retention]
      save_disable_effect [OF _ _ app, of a]
      save_instance_disable_success [of st c cs ri e retention']
      save_instance_disable_effect [OF _ _ inst, of c cs]
    by blast
qed

text \<open>
  The theorem at the sample store: the application \<open>app-1\<close> and the cluster have a daily
  schedule and one pending request each; both are saved with auto-scheduling off and a
  retention of one month.
\<close>

theorem C4_disable_clears_schedule_and_pending_witness:
  "GetApp sample_store ''app-1''
     = Inr \<lparr>ID = ''app-1'', Slug = ''sentry'', SnapshotTTL = ''720h'', SnapshotSchedule = ''@daily''\<rparr>
   \<and> fst (SaveSnapshotConfig sample_env (Inr (save_request ''app-1'' ''1'' ''@daily'' False)) sample_store)
       = JSON StatusOK succeeded
   \<and> (\<exists>a'. GetApp (snd (SaveSnapshotConfig sample_env
                            (Inr (save_request ''app-1'' ''1'' ''@daily'' False)) sample_store)) ''app-1''
               = Inr a' \<and> SnapshotSchedule a' = [])
   \<and> filter (\<lambda>s. owner_id s = ''app-1'')
        (scheduled_snapshots (snd (SaveSnapshotConfig sample_env
                                     (Inr (save_request ''app-1'' ''1'' ''@daily'' False)) sample_store)))
       = []
   \<and> fst (SaveInstanceSnapshotConfig sample_env (Inr (save_instance_request ''1'' ''@daily'' False))
             sample_store)
       = JSON StatusOK succeeded
   \<and> filter (\<lambda>s. owner_id s = ''cluster-1'')
        (scheduled_instance_snapshots
           (snd (SaveInstanceSnapshotConfig sample_env (Inr (save_instance_request ''1'' ''@daily'' False))
                   sample_store)))
       = []"
proof -
  let ?a = "\<lparr>ID = ''app-1'', Slug = ''sentry'', SnapshotTTL = ''720h'', SnapshotSchedule = ''@daily''\<rparr>"
  let ?c = "\<lparr>ClusterID = ''cluster-1'', InstanceSnapshotTTL = ''720h'',
             InstanceSnapshotSchedule = ''@daily''\<rparr>"
  have h1: "GetApp sample_store (ReqAppID (save_request ''app-1'' ''1'' ''@daily'' False)) = Inr ?a"
    by (simp add: store_defs sample_defs)
  have h2: "\<not> ReqAutoEnabled (save_request ''app-1'' ''1'' ''@daily'' False)"
    by (simp add: save_request_def)
  have h3: "FormatTTL sample_env (ReqInputValue (save_request ''app-1'' ''1'' ''@daily'' False))
              (ReqInputTimeUnit (save_request ''app-1'' ''1'' ''@daily'' False)) = Inr ''720h''"
    by (simp add: sample_defs)
  have h4: "unavailable sample_store = []"
    by (simp add: sample_defs)
  have h5: "ListClusters sample_store = Inr [?c]"
    by (simp add: store_defs sample_defs)
  have h6: "\<not> InstAutoEnabled (save_instance_request ''1'' ''@daily'' False)"
    by (simp add: save_instance_request_def)
  have h7: "FormatTTL sample_env (InstInputValue (save_instance_request ''1'' ''@daily'' False))
              (InstInputTimeUnit (save_instance_request ''1'' ''@daily'' False)) = Inr ''720h''"
    by (simp add: sample_defs)
  have id: "ReqAppID (save_request ''app-1'' ''1'' ''@daily'' False) = ''app-1''"
    by (simp add: save_request_def)
  show ?thesis
    using h1 h2 h3 h4 h5 h6 h7
      C4_disable_clears_schedule_and_pending
        [where st = sample_store and r = "save_request ''app-1'' ''1'' ''@daily'' False" and a = ?a
          and e = sample_env and retention = "''720h''" and c = ?c and cs = "[]"
          and ri = "save_instance_request ''1'' ''@daily'' False" and retention' = "''720h''"]
    unfolding id by simp
qed

section \<open>Setting a schedule\<close>

lemma save_schedule_success:
  assumes "GetApp st (ReqAppID r) = Inr a" "ReqAutoEnabled r"
    and "ParseStandard e (ReqSchedule r) = Inr sched"
    and "FormatTTL e (ReqInputValue r) (ReqInputTimeUnit r) = Inr retention"
    and "unavailable st = []"
  shows "fst (SaveSnapshotConfig e (Inr r) st) = JSON StatusOK succeeded"
  using assms
  by (simp add: SaveSnapshotConfig_def SetSnapshotTTL_def SetSnapshotSchedule_def
      DeletePendingScheduledSnapshots_def CreateScheduledSnapshot_def store_error_def)

lemma save_new_schedule_effect:
  assumes "GetApp st (ReqAppID r) = Inr a" "ReqAutoEnabled r"
    and "ParseStandard e (ReqSchedule r) = Inr sched"
    and "ReqSchedule r \<noteq> SnapshotSchedule a"
    and "SaveSnapshotConfig e (Inr r) st = (JSON StatusOK succeeded, st')"
  shows "filter (\<lambda>s. owner_id s = ReqAppID r) (scheduled_snapshots st')
           = [\<lparr>snapshot_id = ToLower (rand_String e), owner_id = ReqAppID r,
               scheduled_at = Next e sched (time_Now e)\<rparr>]
       \<and> filter (\<lambda>s. owner_id s \<noteq> ReqAppID r) (scheduled_snapshots st')
           = filter (\<lambda>s. owner_id s \<noteq> ReqAppID r) (scheduled_snapshots st)"
  using assms GetApp_ID[OF assms(1)]
  apply (simp add: SaveSnapshotConfig_def split: sum.splits if_splits)
   apply (auto simp: store_defs split: if_splits option.splits)
  done

lemma save_same_schedule_pending:
  assumes "GetApp st (ReqAppID r) = Inr a" "ReqAutoEnabled r"
    and "ParseStandard e (ReqSchedule r) = Inr sched"
    and "ReqSchedule r = SnapshotSchedule a"
  shows "scheduled_snapshots (snd (SaveSnapshotConfig e (Inr r) st)) = scheduled_snapshots st"
  using assms
  by (auto simp: SaveSnapshotConfig_def SetSnapshotTTL_def split: sum.splits if_splits)

lemma save_instance_schedule_success:
  assumes "ListClusters st = Inr (c # cs)" "InstAutoEnabled r"
    and "ParseStandard e (InstSchedule r) = Inr sched"
    and "FormatTTL e (InstInputValue r) (InstInputTimeUnit r) = Inr retention"
    and "unavailable st = []"
  shows "fst (SaveInstanceSnapshotConfig e (Inr r) st) = JSON StatusOK succeeded"
  using assms
  by (simp add: SaveInstanceSnapshotConfig_def SetInstanceSnapshotTTL_def
      SetInstanceSnapshotSchedule_def DeletePendingScheduledInstanceSnapshots_def
      CreateScheduledInstanceSnapshot_def store_error_def)

lemma save_instance_new_schedule_effect:
  assumes "ListClusters st = Inr (c # cs)" "InstAutoEnabled r"
    and "ParseStandard e (InstSchedule r) = Inr sched"
    and "InstSchedule r \<noteq> InstanceSnapshotSchedule c"
    and "SaveInstanceSnapshotConfig e (Inr r) st = (JSON StatusOK succeeded, st')"
  shows "filter (\<lambda>s. owner_id s = ClusterID c) (scheduled_instance_snapshots st')
           = [\<lparr>snapshot_id = ToLower (rand_String e), owner_id = ClusterID c,
               scheduled_at = Next e sched (time_Now e)\<rparr>]
       \<and> filter (\<lambda>s. owner_id s \<noteq> ClusterID c) (scheduled_instance_snapshots st')
           = filter (\<lambda>s. owner_id s \<noteq> ClusterID c) (scheduled_instance_snapshots st)"
  using assms
  apply (simp add: SaveInstanceSnapshotConfig_def split: sum.splits if_splits)
   apply (auto simp: store_defs split: if_splits option.splits)
  done

lemma save_instance_same_schedule_pending:
  assumes "ListClusters st = Inr (c # cs)" "InstAutoEnabled r"
    and "ParseStandard e (InstSchedule r) = Inr sched"
    and "InstSchedule r = InstanceSnapshotSchedule c"
  shows "scheduled_instance_snapshots (snd (SaveInstanceSnapshotConfig e (Inr r) st))
           = scheduled_instance_snapshots st"
  using assms
  by (auto simp: SaveInstanceSnapshotConfig_def SetInstanceSnapshotTTL_def split: sum.splits if_splits)

text \<open>
  Claim C2. Saving a snapshot configuration with auto-scheduling on and a cron expression C that
  parses, for an application the store finds with stored schedule S (or for the first
  cluster). The save succeeds when the retention input is valid and the store answers every
  call. If C equals S, the pending requests are as before: none deleted, none created. If C
  differs from S and the save succeeds, the pending requests of the workload are exactly one
  request, with the lower-cased random id and due at the next occurrence of C after the
  current time, and the pending requests of the other workloads are as before.
\<close>

theorem C2_new_schedule_replaces_pending:
  "(GetApp st (ReqAppID r) = Inr a \<and> ReqAutoEnabled r
      \<and> ParseStandard e (ReqSchedule r) = Inr sched \<longrightarrow>
      (FormatTTL e (ReqInputValue r) (ReqInputTimeUnit r) = Inr retention \<and> unavailable st = []
         \<longrightarrow> fst (SaveSnapshotConfig e (Inr r) st) = JSON StatusOK succeeded)
    \<and> (ReqSchedule r = SnapshotSchedule a \<longrightarrow>
         scheduled_snapshots (snd (SaveSnapshotConfig e (Inr r) st)) = scheduled_snapshots st)
    \<and> (ReqSchedule r \<noteq> SnapshotSchedule a
         \<and> fst (SaveSnapshotConfig e (Inr r) st) = JSON StatusOK succeeded \<longrightarrow>
         filter (\<lambda>s. owner_id s = ReqAppID r)
            (scheduled_snapshots (snd (SaveSnapshotConfig e (Inr r) st)))
           = [\<lparr>snapshot_id = ToLower (rand_String e), owner_id = ReqAppID r,
               scheduled_at = Next e sched (time_Now e)\<rparr>]
       \<and> filter (\<lambda>s. owner_id s \<noteq> ReqAppID r)
            (scheduled_snapshots (snd (SaveSnapshotConfig e (Inr r) st)))
           = filter (\<lambda>s. owner_id s \<noteq> ReqAppID r) (scheduled_snapshots st)))
   \<and> (ListClusters st = Inr (c # cs) \<and> InstAutoEnabled ri
      \<and> ParseStandard e (InstSchedule ri) = Inr sched' \<longrightarrow>
      (FormatTTL e (InstInputValue ri) (InstInputTimeUnit ri) = Inr retention' \<and> unavailable st = []
         \<longrightarrow> fst (SaveInstanceSnapshotConfig e (Inr ri) st) = JSON StatusOK succeeded)
    \<and> (InstSchedule ri = InstanceSnapshotSchedule c \<longrightarrow>
         scheduled_instance_snapshots (snd (SaveInstanceSnapshotConfig e (Inr ri) st))
           = scheduled_instance_snapshots st)
    \<and> (InstSchedule ri \<noteq> InstanceSnapshotSchedule c
         \<and> fst (SaveInstanceSnapshotConfig e (Inr ri) st) = JSON StatusOK succeeded \<longrightarrow>
         filter (\<lambda>s. owner_id s = ClusterID c)
            (scheduled_instance_snapshots (snd (SaveInstanceSnapshotConfig e (Inr ri) st)))
           = [\<lparr>snapshot_id = ToLower (rand_String e), owner_id = ClusterID c,
               scheduled_at = Next e sched' (time_Now e)\<rparr>]
       \<and> filter (\<lambda>s. owner_id s \<noteq> ClusterID c)
            (scheduled_instance_snapshots (snd (SaveInstanceSnapshotConfig e (Inr ri) st)))
           = filter (\<lambda>s. owner_id s \<noteq> ClusterID c) (scheduled_instance_snapshots st)))"
proof -
  have app: "fst (SaveSnapshotConfig e (Inr r) st) = JSON StatusOK succeeded \<Longrightarrow>
      SaveSnapshotConfig e (Inr r) st = (JSON StatusOK succeeded, snd (SaveSnapshotConfig e (Inr r) st))"
    by (metis prod.collapse)
  have inst: "fst (SaveInstanceSnapshotConfig e (Inr ri) st) = JSON StatusOK succeeded \<Longrightarrow>
      SaveInstanceSnapshotConfig e (Inr ri) st
        = (JSON StatusOK succeeded, snd (SaveInstanceSnapshotConfig e (Inr ri) st))"
    by (metis prod.collapse)
  have A: "GetApp st (ReqAppID r) = Inr a \<and> ReqAutoEnabled r
      \<and> ParseStandard e (ReqSchedule r) = Inr sched \<longrightarrow>
      (FormatTTL e (ReqInputValue r) (ReqInputTimeUnit r) = Inr retention \<and> unavailable st = []
         \<longrightarrow> fst (SaveSnapshotConfig e (Inr r) st) = JSON StatusOK succeeded)
    \<and> (ReqSchedule r = SnapshotSchedule a \<longrightarrow>
         scheduled_snapshots (snd (SaveSnapshotConfig e (Inr r) st)) = scheduled_snapshots st)
    \<and> (ReqSchedule r \<noteq> SnapshotSchedule a
         \<and> fst (SaveSnapshotConfig e (Inr r) st) = JSON StatusOK succeeded \<longrightarrow>
         filter (\<lambda>s. owner_id s = ReqAppID r)
            (scheduled_snapshots (snd (SaveSnapshotConfig e (Inr r) st)))
           = [\<lparr>snapshot_id = ToLower (rand_String e), owner_id = ReqAppID r,
               scheduled_at = Next e sched (time_Now e)\<rparr>]
       \<and> filter (\<lambda>s. owner_id s \<noteq> ReqAppID r)
            (scheduled_snapshots (snd (SaveSnapshotConfig e (Inr r) st)))
           = filter (\<lambda>s. owner_id s \<noteq> ReqAppID r) (scheduled_snapshots st))"
    using save_schedule_success [of st r a e sched retention]
      save_same_schedule_pending [of st r a e sched]
      save_new_schedule_effect [OF _ _ _ _ app, of a sched]
    by blast
  have B: "ListClusters st = Inr (c # cs) \<and> InstAutoEnabled ri
      \<and> ParseStandard e (InstSchedule ri) = Inr sched' \<longrightarrow>
      (FormatTTL e (InstInputValue ri) (InstInputTimeUnit ri) = Inr retention' \<and> unavailable st = []
         \<longrightarrow> fst (SaveInstanceSnapshotConfig e (Inr ri) st) = JSON StatusOK succeeded)
    \<and> (InstSchedule ri = InstanceSnapshotSchedule c \<longrightarrow>
         scheduled_instance_snapshots (snd (SaveInstanceSnapshotConfig e (Inr ri) st))
           = scheduled_instance_snapshots st)
    \<and> (InstSchedule ri \<noteq> InstanceSnapshotSchedule c
         \<and> fst (SaveInstanceSnapshotConfig e (Inr ri) st) = JSON StatusOK succeeded \<longrightarrow>
         filter (\<lambda>s. owner_id s = ClusterID c)
            (scheduled_instance_snapshots (snd (SaveInstanceSnapshotConfig e (Inr ri) st)))
           = [\<lparr>snapshot_id = ToLower (rand_String e), owner_id = ClusterID c,
               scheduled_at = Next e sched' (time_Now e)\<rparr>]
       \<and> filter (\<lambda>s. owner_id s \<noteq> ClusterID c)
            (scheduled_instance_snapshots (snd (SaveInstanceSnapshotConfig e (Inr ri) st)))
           = filter (\<lambda>s. owner_id s \<noteq> ClusterID c) (scheduled_instance_snapshots st))"
    using save_instance_schedule_success [of st c cs ri e sched' retention']
      save_instance_same_schedule_pending [of st c cs ri e sched']
      save_instance_new_schedule_effect [OF _ _ _ _ inst, of c cs sched']
    by blast
  from A B show ?thesis by (rule conjI)
qed

text \<open>
  The theorem at the sample store, at 2020-11-02 00:00:00 UTC (a Monday): \<open>app-1\<close> moves
  from the daily schedule to \<open>0 0 * * MON\<close>, which replaces its pending request by one due on
  the following Monday; the cluster is saved with the daily schedule it has, which leaves its
  pending request alone.
\<close>

theorem C2_new_schedule_replaces_pending_witness:
  "GetApp sample_store ''app-1''
     = Inr \<lparr>ID = ''app-1'', Slug = ''sentry'', SnapshotTTL = ''720h'', SnapshotSchedule = ''@daily''\<rparr>
   \<and> ParseStandard sample_env ''0 0 * * MON'' = Inr (604800, 345600)
   \<and> fst (SaveSnapshotConfig sample_env (Inr (save_request ''app-1'' ''1'' ''0 0 * * MON'' True))
            sample_store) = JSON StatusOK succeeded
   \<and> filter (\<lambda>s. owner_id s = ''app-1'')
        (scheduled_snapshots
           (snd (SaveSnapshotConfig sample_env (Inr (save_request ''app-1'' ''1'' ''0 0 * * MON'' True))
                   sample_store)))
       = [\<lparr>snapshot_id = ''xk2bq7'', owner_id = ''app-1'', scheduled_at = 1604880000\<rparr>]
   \<and> scheduled_instance_snapshots
        (snd (SaveInstanceSnapshotConfig sample_env (Inr (save_instance_request ''1'' ''@daily'' True))
                sample_store))
       = scheduled_instance_snapshots sample_store"
proof -
  let ?r = "save_request ''app-1'' ''1'' ''0 0 * * MON'' True"
  let ?ri = "save_instance_request ''1'' ''@daily'' True"
  let ?a = "\<lparr>ID = ''app-1'', Slug = ''sentry'', SnapshotTTL = ''720h'', SnapshotSchedule = ''@daily''\<rparr>"
  let ?c = "\<lparr>ClusterID = ''cluster-1'', InstanceSnapshotTTL = ''720h'',
             InstanceSnapshotSchedule = ''@daily''\<rparr>"
  have h1: "GetApp sample_store (ReqAppID ?r) = Inr ?a"
    by (simp add: store_defs sample_defs)
  have h2: "ReqAutoEnabled ?r" "InstAutoEnabled ?ri"
    by (simp_all add: save_request_def save_instance_request_def)
  have h3: "ParseStandard sample_env (ReqSchedule ?r) = Inr (604800, 345600)"
    "ParseStandard sample_env (InstSchedule ?ri) = Inr (86400, 0)"
    by (simp_all add: sample_defs)
  have h4: "FormatTTL sample_env (ReqInputValue ?r) (ReqInputTimeUnit ?r) = Inr ''720h''"
    "FormatTTL sample_env (InstInputValue ?ri) (InstInputTimeUnit ?ri) = Inr ''720h''"
    by (simp_all add: sample_defs)
  have h5: "unavailable sample_store = []"
    by (simp add: sample_defs)
  have h6: "ListClusters sample_store = Inr [?c]"
    by (simp add: store_defs sample_defs)
  have h7: "ReqSchedule ?r \<noteq> SnapshotSchedule ?a" "InstSchedule ?ri = InstanceSnapshotSchedule ?c"
    by (simp_all add: save_request_def save_instance_request_def)
  have ev: "ReqAppID ?r = ''app-1''" "ReqSchedule ?r = ''0 0 * * MON''"
    "ToLower (rand_String sample_env) = ''xk2bq7''"
    "Next sample_env (604800, 345600) (time_Now sample_env) = 1604880000"
    by (simp_all add: sample_defs)
  show ?thesis
    using h1 h2 h3 h4 h5 h6 h7
      C2_new_schedule_replaces_pending
        [where st = sample_store and r = ?r and a = ?a and e = sample_env
          and sched = "(604800, 345600)" and retention = "''720h''" and c = ?c and cs = "[]"
          and ri = ?ri and sched' = "(86400, 0)" and retention' = "''720h''"]
    unfolding ev by simp
qed

section \<open>A cron expression that does not parse\<close>

lemma save_invalid_cron_frame:
  assumes "ReqAutoEnabled r" "ParseStandard e (ReqSchedule r) = Inl err"
  shows "(\<exists>code msg. fst (SaveSnapshotConfig e (Inr r) st) = JSON code (failed msg) \<and> code \<noteq> StatusOK)
       \<and> map SnapshotSchedule (apps (snd (SaveSnapshotConfig e (Inr r) st)))
           = map SnapshotSchedule (apps st)
       \<and> scheduled_snapshots (snd (SaveSnapshotConfig e (Inr r) st)) = scheduled_snapshots st"
  using assms
  by (auto simp: SaveSnapshotConfig_def SetSnapshotTTL_def schedule_after_ttl
      split: sum.splits if_splits)

lemma save_invalid_cron_status:
  assumes "ReqAutoEnabled r" "ParseStandard e (ReqSchedule r) = Inl err"
    and "GetApp st (ReqAppID r) = Inr a"
    and "FormatTTL e (ReqInputValue r) (ReqInputTimeUnit r) = Inr retention"
    and "OpSetSnapshotTTL \<notin> set (unavailable st)"
  shows "fst (SaveSnapshotConfig e (Inr r) st)
           = JSON StatusBadRequest (failed (''Invalid cron schedule expression: '' @ ReqSchedule r))"
  using assms
  by (simp add: SaveSnapshotConfig_def SetSnapshotTTL_def store_error_def)

lemma save_instance_invalid_cron_frame:
  assumes "InstAutoEnabled r" "ParseStandard e (InstSchedule r) = Inl err"
  shows "(\<exists>code msg. fst (SaveInstanceSnapshotConfig e (Inr r) st) = JSON code (failed msg)
            \<and> code \<noteq> StatusOK)
       \<and> map InstanceSnapshotSchedule (clusters (snd (SaveInstanceSnapshotConfig e (Inr r) st)))
           = map InstanceSnapshotSchedule (clusters st)
       \<and> scheduled_instance_snapshots (snd (SaveInstanceSnapshotConfig e (Inr r) st))
           = scheduled_instance_snapshots st"
  using assms
  by (auto simp: SaveInstanceSnapshotConfig_def SetInstanceSnapshotTTL_def
      instance_schedule_after_ttl split: sum.splits if_splits list.splits)

lemma save_instance_invalid_cron_status:
  assumes "InstAutoEnabled r" "ParseStandard e (InstSchedule r) = Inl err"
    and "ListClusters st = Inr (c # cs)"
    and "FormatTTL e (InstInputValue r) (InstInputTimeUnit r) = Inr retention"
    and "OpSetInstanceSnapshotTTL \<notin> set (unavailable st)"
  shows "fst (SaveInstanceSnapshotConfig e (Inr r) st)
           = JSON StatusBadRequest (failed (''Invalid cron schedule expression: '' @ InstSchedule r))"
  using assms
  by (simp add: SaveInstanceSnapshotConfig_def SetInstanceSnapshotTTL_def store_error_def)

text \<open>
  Claim C3 as stated does not hold: a save request whose cron expression does not parse can
  change persisted state. The application \<open>app-2\<close> of the sample store has no stored
  retention. Saving it with retention one month, auto-scheduling on and the schedule
  \<open>not-a-cron\<close> answers 400 for the cron expression, after the retention \<open>720h\<close> has been
  written. Saving \<open>app-1\<close> with the same expression and auto-scheduling off never parses the
  expression: it answers success, clears the stored schedule and deletes the pending request.
\<close>

theorem C3_invalid_cron_counterexample:
  "ParseStandard sample_env ''not-a-cron'' = Inl (Failure ''unrecognized schedule: not-a-cron'')
   \<and> fst (SaveSnapshotConfig sample_env (Inr (save_request ''app-2'' ''1'' ''not-a-cron'' True))
            sample_store)
       = JSON StatusBadRequest (failed ''Invalid cron schedule expression: not-a-cron'')
   \<and> map SnapshotTTL (apps sample_store) = [''720h'', [], ''1440h'']
   \<and> map SnapshotTTL
        (apps (snd (SaveSnapshotConfig sample_env
                      (Inr (save_request ''app-2'' ''1'' ''not-a-cron'' True)) sample_store)))
       = [''720h'', ''720h'', ''1440h'']
   \<and> fst (SaveSnapshotConfig sample_env (Inr (save_request ''app-1'' ''1'' ''not-a-cron'' False))
            sample_store)
       = JSON StatusOK succeeded
   \<and> map SnapshotSchedule (apps sample_store) = [''@daily'', [], []]
   \<and> map SnapshotSchedule
        (apps (snd (SaveSnapshotConfig sample_env
                      (Inr (save_request ''app-1'' ''1'' ''not-a-cron'' False)) sample_store)))
       = [[], [], []]
   \<and> map snapshot_id (scheduled_snapshots sample_store) = [''pending-1'', ''pending-2'']
   \<and> map snapshot_id
        (scheduled_snapshots (snd (SaveSnapshotConfig sample_env
                      (Inr (save_request ''app-1'' ''1'' ''not-a-cron'' False)) sample_store)))
       = [''pending-2'']"
  by (simp add: SaveSnapshotConfig_def store_defs sample_defs)

text \<open>
  Claim C3, amended. A save request with auto-scheduling on whose cron expression does not
  parse is answered with an error, never with success, and leaves the stored schedule of every
  workload and the pending requests as they were; the error is the validation error 400
  "Invalid cron schedule expression" when the workload is found, the retention input is valid
  and the store accepts the retention. (Nothing is said about the stored retention.)
\<close>

theorem C3_invalid_cron_keeps_schedule_and_pending:
  "(ReqAutoEnabled r \<and> ParseStandard e (ReqSchedule r) = Inl err \<longrightarrow>
      (\<exists>code msg. fst (SaveSnapshotConfig e (Inr r) st) = JSON code (failed msg) \<and> code \<noteq> StatusOK)
    \<and> map SnapshotSchedule (apps (snd (SaveSnapshotConfig e (Inr r) st)))
        = map SnapshotSchedule (apps st)
    \<and> scheduled_snapshots (snd (SaveSnapshotConfig e (Inr r) st)) = scheduled_snapshots st
    \<and> (GetApp st (ReqAppID r) = Inr a
         \<and> FormatTTL e (ReqInputValue r) (ReqInputTimeUnit r) = Inr retention
         \<and> OpSetSnapshotTTL \<notin> set (unavailable st) \<longrightarrow>
        fst (SaveSnapshotConfig e (Inr r) st)
          = JSON StatusBadRequest (failed (''Invalid cron schedule expression: '' @ ReqSchedule r))))
   \<and> (InstAutoEnabled ri \<and> ParseStandard e (InstSchedule ri) = Inl err' \<longrightarrow>
      (\<exists>code msg. fst (SaveInstanceSnapshotConfig e (Inr ri) st) = JSON code (failed msg)
         \<and> code \<noteq> StatusOK)
    \<and> map InstanceSnapshotSchedule (clusters (snd (SaveInstanceSnapshotConfig e (Inr ri) st)))
        = map InstanceSnapshotSchedule (clusters st)
    \<and> scheduled_instance_snapshots (snd (SaveInstanceSnapshotConfig e (Inr ri) st))
        = scheduled_instance_snapshots st
    \<and> (ListClusters st = Inr (c # cs)
         \<and> FormatTTL e (InstInputValue ri) (InstInputTimeUnit ri) = Inr retention'
         \<and> OpSetInstanceSnapshotTTL \<notin> set (unavailable st) \<longrightarrow>
        fst (SaveInstanceSnapshotConfig e (Inr ri) st)
          = JSON StatusBadRequest (failed (''Invalid cron schedule expression: '' @ InstSchedule ri))))"
  using save_invalid_cron_frame [of r e err st]
    save_invalid_cron_status [of r e err st a retention]
    save_instance_invalid_cron_frame [of ri e err' st]
    save_instance_invalid_cron_status [of ri e err' st c cs retention']
  by blast

text \<open>
  The amended claim at the sample store: \<open>app-2\<close> and the cluster saved with the schedule
  \<open>not-a-cron\<close> and auto-scheduling on.
\<close>

theorem C3_invalid_cron_keeps_schedule_and_pending_witness:
  "ParseStandard sample_env ''not-a-cron'' = Inl (Failure ''unrecognized schedule: not-a-cron'')
   \<and> fst (SaveSnapshotConfig sample_env (Inr (save_request ''app-2'' ''1'' ''not-a-cron'' True))
            sample_store)
       = JSON StatusBadRequest (failed ''Invalid cron schedule expression: not-a-cron'')
   \<and> map SnapshotSchedule
        (apps (snd (SaveSnapshotConfig sample_env
                      (Inr (save_request ''app-2'' ''1'' ''not-a-cron'' True)) sample_store)))
       = map SnapshotSchedule (apps sample_store)
   \<and> scheduled_snapshots
        (snd (SaveSnapshotConfig sample_env (Inr (save_request ''app-2'' ''1'' ''not-a-cron'' True))
                sample_store))
       = scheduled_snapshots sample_store
   \<and> fst (SaveInstanceSnapshotConfig sample_env (Inr (save_instance_request ''2'' ''not-a-cron'' True))
            sample_store)
       = JSON StatusBadRequest (failed ''Invalid cron schedule expression: not-a-cron'')
   \<and> scheduled_instance_snapshots
        (snd (SaveInstanceSnapshotConfig sample_env
                (Inr (save_instance_request ''2'' ''not-a-cron'' True)) sample_store))
       = scheduled_instance_snapshots sample_store"
proof -
  let ?r = "save_request ''app-2'' ''1'' ''not-a-cron'' True"
  let ?ri = "save_instance_request ''2'' ''not-a-cron'' True"
  let ?a = "\<lparr>ID = ''app-2'', Slug = ''redis'', SnapshotTTL = [], SnapshotSchedule = []\<rparr>"
  let ?c = "\<lparr>ClusterID = ''cluster-1'', InstanceSnapshotTTL = ''720h'',
             InstanceSnapshotSchedule = ''@daily''\<rparr>"
  let ?err = "Failure ''unrecognized schedule: not-a-cron''"
  have h1: "ReqAutoEnabled ?r" "InstAutoEnabled ?ri"
    by (simp_all add: save_request_def save_instance_request_def)
  have h2: "ParseStandard sample_env (ReqSchedule ?r) = Inl ?err"
    "ParseStandard sample_env (InstSchedule ?ri) = Inl ?err"
    by (simp_all add: sample_defs)
  have h3: "GetApp sample_store (ReqAppID ?r) = Inr ?a" "ListClusters sample_store = Inr [?c]"
    by (simp_all add: store_defs sample_defs)
  have h4: "FormatTTL sample_env (ReqInputValue ?r) (ReqInputTimeUnit ?r) = Inr ''720h''"
    "FormatTTL sample_env (InstInputValue ?ri) (InstInputTimeUnit ?ri) = Inr ''1440h''"
    by (simp_all add: sample_defs)
  have h5: "OpSetSnapshotTTL \<notin> set (unavailable sample_store)"
    "OpSetInstanceSnapshotTTL \<notin> set (unavailable sample_store)"
    by (simp_all add: sample_defs)
  have ev: "ReqSchedule ?r = ''not-a-cron''" "InstSchedule ?ri = ''not-a-cron''"
    by (simp_all add: save_request_def save_instance_request_def)
  show ?thesis
    using h1 h2 h3 h4 h5
      C3_invalid_cron_keeps_schedule_and_pending
        [where r = ?r and e = sample_env and err = ?err and st = sample_store and a = ?a
          and retention = "''720h''" and ri = ?ri and err' = ?err and c = ?c and cs = "[]"
          and retention' = "''1440h''"]
    unfolding ev by simp
qed

section \<open>The tokenizer\<close>

lemmas cluster_defs =
  sample_cluster_def kurl_cluster_def bare_cluster_def untagged_cluster_def velero_deployment_def
  restic_daemonset_def private_registry_def no_registry_def

lemmas client_defs =
  Deployments_Get_def Deployments_Update_def DaemonSets_Get_def DaemonSets_Update_def
  ConfigMaps_Get_def ConfigMaps_Create_def ConfigMaps_Update_def ConfigMaps_Delete_def
  Deployments_List_def DaemonSets_List_def BackupStorageLocations_List_def
  GetKotsadmOptionsFromCluster_def EnsurePrivateKotsadmRegistrySecret_def api_error_def

lemmas image_defs =
  defaultVeleroImage_def defaultVeleroAWSPluginImage_def defaultVeleroResticRestoreHelperImage_def
  veleroNamespace_def veleroDeploymentName_def resticConfigMapName_def resticDaemonSetName_def
  NamespaceDefault_def

lemma plus_rests_set: "r \<in> set (plus_rests p s) \<Longrightarrow> set r \<subseteq> set s"
  by (induction s) (auto split: if_splits)

lemma rmatch_set: "(r, caps') \<in> set (rmatch re (s, caps)) \<Longrightarrow> set r \<subseteq> set s"
proof (induction re arbitrary: s caps r caps')
  case (Class neg cs)
  then show ?case by (cases s) (auto split: if_splits)
next
  case (PlusClass neg cs)
  then show ?case using plus_rests_set by fastforce
next
  case (Opt re)
  from Opt.prems have "(r, caps') \<in> set (rmatch re (s, caps)) \<or> r = s"
    by auto
  then show ?case using Opt.IH by blast
next
  case (Seq a b)
  from Seq.prems obtain m capsm where
    m: "(m, capsm) \<in> set (rmatch a (s, caps))" and r: "(r, caps') \<in> set (rmatch b (m, capsm))"
    by auto
  from Seq.IH(1)[OF m] Seq.IH(2)[OF r] show ?case by blast
next
  case (Group i re)
  from Group.prems obtain capsx where "(r, capsx) \<in> set (rmatch re (s, caps))"
    by auto
  then show ?case by (rule Group.IH)
qed

lemma rmatch_Seq_empty:
  "(\<And>m capsm. (m, capsm) \<in> set (rmatch a st) \<Longrightarrow> rmatch b (m, capsm) = []) \<Longrightarrow>
   rmatch (Seq a b) st = []"
  by auto

lemma rmatch_separator:
  "CHR ''@'' \<notin> set s \<Longrightarrow> CHR '':'' \<notin> set s \<Longrightarrow> rmatch (Seq (Class False ''@:'') b) (s, caps) = []"
  by (cases s) auto

text \<open>
  Without \<open>@\<close> and \<open>:\<close> in the input the expression matches nowhere, and the first
  container's image sets no version.
\<close>

lemma rmatch_docker_no_separator:
  assumes "CHR ''@'' \<notin> set s" "CHR '':'' \<notin> set s"
  shows "rmatch dockerImageNameRegex (s, caps) = []"
proof -
  have separator: "rmatch (Seq (Class False ''@:'') b) (m, c) = []" if "set m \<subseteq> set s" for m c b
    using that assms by (intro rmatch_separator) auto
  show ?thesis
    unfolding dockerImageNameRegex_def
    apply (rule rmatch_Seq_empty)
    apply (rule rmatch_Seq_empty)
    apply (rule rmatch_Seq_empty)
    apply (rule separator)
    apply (blast dest: rmatch_set)
    done
qed

lemma find_submatch_no_separator:
  "CHR ''@'' \<notin> set s \<Longrightarrow> CHR '':'' \<notin> set s \<Longrightarrow> find_submatch dockerImageNameRegex s = []"
proof (induction s)
  case Nil
  then show ?case by (simp add: find_submatch.simps rmatch_docker_no_separator)
next
  case (Cons c s)
  have "rmatch dockerImageNameRegex (c # s, replicate (num_groups dockerImageNameRegex) []) = []"
    using Cons.prems by (rule rmatch_docker_no_separator)
  moreover have "find_submatch dockerImageNameRegex s = []"
    using Cons by simp
  ultimately show ?case
    by (subst find_submatch.simps) simp
qed

lemma FindStringSubmatch_no_separator:
  "CHR ''@'' \<notin> set s \<Longrightarrow> CHR '':'' \<notin> set s \<Longrightarrow> FindStringSubmatch dockerImageNameRegex s = []"
  by (simp add: FindStringSubmatch_def find_submatch_no_separator)

lemma scan_deployments_no_separator:
  assumes "\<forall>d \<in> set ds. \<exists>c cs. Containers (Template d) = c # cs
              \<and> CHR ''@'' \<notin> set (Image c) \<and> CHR '':'' \<notin> set (Image c)"
  shows "\<exists>st'. scan_deployments ds st = Inr st' \<and> Version st' = Version st \<and> Status st' = Status st"
  using assms
proof (induction ds arbitrary: st)
  case Nil
  then show ?case by simp
next
  case (Cons d ds)
  then obtain c cs where c: "Containers (Template d) = c # cs"
    "CHR ''@'' \<notin> set (Image c)" "CHR '':'' \<notin> set (Image c)"
    by auto
  have rest: "\<forall>d \<in> set ds. \<exists>c cs. Containers (Template d) = c # cs
              \<and> CHR ''@'' \<notin> set (Image c) \<and> CHR '':'' \<notin> set (Image c)"
    using Cons.prems by simp
  from Cons.IH[OF rest, of "st\<lparr>Plugins := Plugins st @ map Name (InitContainers (Template d))\<rparr>"]
  show ?case
    using c by (simp add: FindStringSubmatch_no_separator Let_def)
qed

lemma tokenizer_default_image:
  "FindStringSubmatch dockerImageNameRegex ''velero/velero:v1.5.1''
     = [''velero/velero:v1.5.1'', ''velero'', [], ''velero'', ''v1.5.1'']"
  by (simp add: FindStringSubmatch_def find_submatch.simps dockerImageNameRegex_def)

lemma tokenizer_port_and_tag:
  "FindStringSubmatch dockerImageNameRegex ''localhost:5000/velero/velero:v1.5.1''
     = [''localhost:5000/velero/velero:v1.5.1'', ''localhost:5000'', ''velero'', ''velero'', ''v1.5.1'']"
  by (simp add: FindStringSubmatch_def find_submatch.simps dockerImageNameRegex_def)

lemma tokenizer_port_no_tag:
  "FindStringSubmatch dockerImageNameRegex ''localhost:5000/velero/velero''
     = [''localhost:5000/velero/velero'', [], [], ''localhost'', ''5000/velero/velero'']"
  by (simp add: FindStringSubmatch_def find_submatch.simps dockerImageNameRegex_def)

text \<open>
  Claim C7. The tokenizer on "velero/velero:v1.5.1" yields the tag "v1.5.1" as its last
  capture, as the claim says. The claim goes on: an image reference with no tag or digest is
  not matched and leaves the version unset. The reference "localhost:5000/velero/velero"
  names a registry with a port and has neither tag nor digest; the expression is not anchored
  and takes the colon of the port for the separator, so that it matches with five elements and
  detection reports the version "5000/velero/velero".
\<close>

theorem C7_untagged_reference_with_port:
  "FindStringSubmatch dockerImageNameRegex ''velero/velero:v1.5.1'' ! 4 = ''v1.5.1''
   \<and> length (FindStringSubmatch dockerImageNameRegex ''localhost:5000/velero/velero'') = 5
   \<and> FindStringSubmatch dockerImageNameRegex ''localhost:5000/velero/velero'' ! 4 = ''5000/velero/velero''
   \<and> DetectVelero untagged_cluster
       = Inr (Some \<lparr>Version = ''5000/velero/velero'', Plugins = [''velero-plugin-for-aws''],
                    Status = ''Ready'', ResticVersion = ''v1.5.1'', ResticStatus = ''Ready''\<rparr>)"
  by (simp add: tokenizer_default_image tokenizer_port_no_tag DetectVelero_def
      DetectVeleroNamespace_def listPossibleVeleroDeployments_def listPossibleResticDaemonsets_def
      client_defs cluster_defs)

section \<open>Detection where the engine is absent\<close>

lemma find_None_list_ex: "\<not> list_ex P xs \<Longrightarrow> find P xs = None"
  by (induction xs) auto

text \<open>
  Claim C5. When the cluster configuration and the engine client are obtained, and listing the
  backup storage locations returns an error (not-found or any other) or returns a list with no
  item named "default", \<open>DetectVeleroNamespace\<close> returns the empty namespace and no error;
  then \<open>DetectVelero\<close>, once its own client is built, returns the nil status and no error,
  whatever workloads the cluster holds.
\<close>

theorem C5_detection_undetected_not_error:
  "\<not> api_error k GetConfig \<and> \<not> api_error k NewVeleroClient
   \<and> (BackupStorageLocations_List k = Inl err
      \<or> (BackupStorageLocations_List k = Inr items
          \<and> \<not> list_ex (\<lambda>b. bsl_name b = ''default'') items)) \<longrightarrow>
   DetectVeleroNamespace k = Inr []
   \<and> (\<not> api_error k NewClientset \<longrightarrow> DetectVelero k = Inr None)"
  by (auto simp: DetectVeleroNamespace_def DetectVelero_def find_None_list_ex)

text \<open>
  The theorem at a cluster without the engine's resource types (listing answers not-found)
  and without workloads, and at the sample cluster with its storage location renamed.
\<close>

theorem C5_detection_undetected_not_error_witness:
  "BackupStorageLocations_List bare_cluster
     = Inl (StatusNotFound ''the server could not find the requested resource'')
   \<and> DetectVeleroNamespace bare_cluster = Inr []
   \<and> DetectVelero bare_cluster = Inr None
   \<and> BackupStorageLocations_List
        (sample_cluster\<lparr>BackupStorageLocations := [\<lparr>bsl_namespace = ''velero'', bsl_name = ''aws''\<rparr>]\<rparr>)
       = Inr [\<lparr>bsl_namespace = ''velero'', bsl_name = ''aws''\<rparr>]
   \<and> DetectVelero
        (sample_cluster\<lparr>BackupStorageLocations := [\<lparr>bsl_namespace = ''velero'', bsl_name = ''aws''\<rparr>]\<rparr>)
       = Inr None"
proof -
  let ?k = "sample_cluster\<lparr>BackupStorageLocations := [\<lparr>bsl_namespace = ''velero'', bsl_name = ''aws''\<rparr>]\<rparr>"
  let ?items = "[\<lparr>bsl_namespace = ''velero'', bsl_name = ''aws''\<rparr>]"
  have b1: "\<not> api_error bare_cluster GetConfig" "\<not> api_error bare_cluster NewVeleroClient"
    "\<not> api_error bare_cluster NewClientset"
    by (simp_all add: api_error_def cluster_defs)
  have b2: "BackupStorageLocations_List bare_cluster
              = Inl (StatusNotFound ''the server could not find the requested resource'')"
    by (simp add: client_defs cluster_defs)
  have s1: "\<not> api_error ?k GetConfig" "\<not> api_error ?k NewVeleroClient" "\<not> api_error ?k NewClientset"
    by (simp_all add: api_error_def cluster_defs)
  have s2: "BackupStorageLocations_List ?k = Inr ?items"
    by (simp add: client_defs cluster_defs)
  have s3: "\<not> list_ex (\<lambda>b. bsl_name b = ''default'') ?items"
    by simp
  show ?thesis
    using b1 b2 s1 s2 s3
      C5_detection_undetected_not_error
        [where k = bare_cluster
           and err = "StatusNotFound ''the server could not find the requested resource''"]
      C5_detection_undetected_not_error [where k = ?k and items = ?items]
    by simp
qed

text \<open>
  Where the default storage location is found, the status is not nil even when no workload
  matches: it is a status with no version and no health.
\<close>

lemma detect_located_without_workloads:
  "DetectVelero (sample_cluster\<lparr>Deployments := [], DaemonSets := []\<rparr>)
     = Inr (Some \<lparr>Version = [], Plugins = [], Status = [], ResticVersion = [], ResticStatus = []\<rparr>)"
  by (simp add: DetectVelero_def DetectVeleroNamespace_def listPossibleVeleroDeployments_def
      listPossibleResticDaemonsets_def client_defs cluster_defs)

section \<open>The embedded cluster in the default namespace\<close>

text \<open>
  Claim C6. For every registry-options input (and every rewrite function), when the cluster is
  an embedded (kurl) deployment and the kotsadm namespace is the default namespace,
  \<open>rewriteVeleroImages\<close> returns the three default image references and an empty pull-secret
  list with no error, and \<open>ConfigureVeleroImages\<close> returns no error and leaves the cluster
  exactly as it was.
\<close>

theorem C6_embedded_default_namespace_noop:
  "IsKurl k \<and> kotsadmNamespace = NamespaceDefault \<longrightarrow>
   rewriteVeleroImages rewrite k kotsadmNamespace kotsadmRegistryOptions
     = Inr (defaultVeleroImage, defaultVeleroAWSPluginImage,
            defaultVeleroResticRestoreHelperImage, [])
   \<and> ConfigureVeleroImages rewrite k kotsadmNamespace kotsadmRegistryOptions = (None, k)"
  by (simp add: rewriteVeleroImages_def ConfigureVeleroImages_def)

text \<open>The theorem at the embedded cluster, with a private registry configured.\<close>

theorem C6_embedded_default_namespace_noop_witness:
  "IsKurl kurl_cluster \<and> ''default'' = NamespaceDefault
   \<and> rewriteVeleroImages registry_rewrite kurl_cluster ''default'' private_registry
       = Inr (''velero/velero:v1.5.1'', ''velero/velero-plugin-for-aws:v1.1.0'',
              ''velero/velero-restic-restore-helper:v1.5.1'', [])
   \<and> ConfigureVeleroImages registry_rewrite kurl_cluster ''default'' private_registry
       = (None, kurl_cluster)"
proof -
  have h: "IsKurl kurl_cluster \<and> ''default'' = NamespaceDefault"
    by (simp add: cluster_defs NamespaceDefault_def)
  show ?thesis
    using h C6_embedded_default_namespace_noop
      [where k = kurl_cluster and kotsadmNamespace = "''default''" and rewrite = registry_rewrite
         and kotsadmRegistryOptions = private_registry]
    by (simp add: image_defs)
qed

section \<open>The steps of the image configuration\<close>

lemma find_replace:
  "find P xs = Some y \<Longrightarrow> P z \<Longrightarrow> find P (map (\<lambda>x. if P x then z else x) xs) = Some z"
  by (induction xs) (auto split: if_splits)

lemma find_append_new: "find P xs = None \<Longrightarrow> P z \<Longrightarrow> find P (xs @ [z]) = Some z"
  by (induction xs) (auto split: if_splits)

lemma find_filter_not: "find P (filter (\<lambda>x. \<not> P x) xs) = None"
  by (induction xs) auto

lemma find_list_ex: "find P xs = Some y \<Longrightarrow> list_ex P xs"
  by (induction xs) (auto split: if_splits)

lemma find_holds: "find P xs = Some y \<Longrightarrow> P y"
  by (induction xs) (auto split: if_splits)

lemma ensure_secret_frame:
  assumes "EnsurePrivateKotsadmRegistrySecret ns opts k = Inr k1"
  shows "Deployments k1 = Deployments k \<and> DaemonSets k1 = DaemonSets k
       \<and> ConfigMaps k1 = ConfigMaps k \<and> api_unavailable k1 = api_unavailable k"
  using assms by (auto simp: EnsurePrivateKotsadmRegistrySecret_def split: if_splits)

lemma patch_velero_deployment_effect:
  assumes "patch_velero_deployment k veleroImage awsPluginImage imagePullSecrets = Inr k1"
  obtains d ic ics c cs where
    "Deployments_Get k veleroNamespace veleroDeploymentName = Inr d"
    "InitContainers (Template d) = ic # ics" "Containers (Template d) = c # cs"
    "k1 = k\<lparr>Deployments :=
            map (\<lambda>x. if deploy_namespace x = veleroNamespace \<and> deploy_name x = veleroDeploymentName
                      then d\<lparr>Template := (Template d)
                              \<lparr>ImagePullSecrets := imagePullSecrets,
                               InitContainers := ic\<lparr>Image := awsPluginImage\<rparr> # ics,
                               Containers := c\<lparr>Image := veleroImage\<rparr> # cs\<rparr>\<rparr>
                      else x)
              (Deployments k)\<rparr>"
proof -
  from assms obtain d where d: "Deployments_Get k veleroNamespace veleroDeploymentName = Inr d"
    by (auto simp: patch_velero_deployment_def split: sum.splits)
  then have name: "deploy_name d = veleroDeploymentName"
    by (auto simp: Deployments_Get_def dest: find_holds split: if_splits option.splits)
  from assms d obtain ic ics where ic: "InitContainers (Template d) = ic # ics"
    by (auto simp: patch_velero_deployment_def split: list.splits)
  from assms d ic obtain c cs where c: "Containers (Template d) = c # cs"
    by (auto simp: patch_velero_deployment_def split: list.splits)
  from assms d ic c name have
    "k1 = k\<lparr>Deployments :=
              map (\<lambda>x. if deploy_namespace x = veleroNamespace \<and> deploy_name x = veleroDeploymentName
                        then d\<lparr>Template := (Template d)
                                \<lparr>ImagePullSecrets := imagePullSecrets,
                                 InitContainers := ic\<lparr>Image := awsPluginImage\<rparr> # ics,
                                 Containers := c\<lparr>Image := veleroImage\<rparr> # cs\<rparr>\<rparr>
                        else x)
                (Deployments k)\<rparr>"
    by (auto simp: patch_velero_deployment_def Deployments_Update_def split: sum.splits if_splits)
  with d ic c show thesis by (rule that)
qed

lemma patch_restic_daemonset_effect:
  assumes "patch_restic_daemonset k veleroImage imagePullSecrets = Inr k1"
  obtains d c cs where
    "DaemonSets_Get k veleroNamespace resticDaemonSetName = Inr d"
    "Containers (ds_Template d) = c # cs"
    "k1 = k\<lparr>DaemonSets :=
            map (\<lambda>x. if ds_namespace x = veleroNamespace \<and> ds_name x = resticDaemonSetName
                      then d\<lparr>ds_Template := (ds_Template d)
                              \<lparr>ImagePullSecrets := imagePullSecrets,
                               Containers := c\<lparr>Image := veleroImage\<rparr> # cs\<rparr>\<rparr>
                      else x)
              (DaemonSets k)\<rparr>"
proof -
  from assms obtain d where d: "DaemonSets_Get k veleroNamespace resticDaemonSetName = Inr d"
    by (auto simp: patch_restic_daemonset_def split: sum.splits)
  then have name: "ds_name d = resticDaemonSetName"
    by (auto simp: DaemonSets_Get_def dest: find_holds split: if_splits option.splits)
  from assms d obtain c cs where c: "Containers (ds_Template d) = c # cs"
    by (auto simp: patch_restic_daemonset_def split: list.splits)
  from assms d c name have
    "k1 = k\<lparr>DaemonSets :=
              map (\<lambda>x. if ds_namespace x = veleroNamespace \<and> ds_name x = resticDaemonSetName
                        then d\<lparr>ds_Template := (ds_Template d)
                                \<lparr>ImagePullSecrets := imagePullSecrets,
                                 Containers := c\<lparr>Image := veleroImage\<rparr> # cs\<rparr>\<rparr>
                        else x)
                (DaemonSets k)\<rparr>"
    by (auto simp: patch_restic_daemonset_def DaemonSets_Update_def split: sum.splits if_splits)
  with d c show thesis by (rule that)
qed

lemma ConfigMaps_Get_found:
  assumes "ConfigMaps_Get k ns n = Inr c"
  shows "configmap_at k ns n = Some c \<and> cm_namespace c = ns \<and> cm_name c = n"
  using assms
  by (auto simp: ConfigMaps_Get_def configmap_at_def dest: find_holds split: if_splits option.splits)

lemma ConfigMaps_Get_not_found:
  assumes "ConfigMaps_Get k ns n = Inl err" "IsNotFound err"
  shows "configmap_at k ns n = None"
  using assms
  by (auto simp: ConfigMaps_Get_def configmap_at_def split: if_splits option.splits)

lemma restic_configmap_frame:
  assumes "configure_restic_configmap k helper = Inr k1"
  shows "Deployments k1 = Deployments k \<and> DaemonSets k1 = DaemonSets k
       \<and> api_unavailable k1 = api_unavailable k"
  using assms
  by (auto simp: configure_restic_configmap_def ConfigMaps_Create_def ConfigMaps_Update_def
      ConfigMaps_Delete_def split: sum.splits if_splits)

lemma restic_configmap_created:
  assumes "configure_restic_configmap k helper = Inr k1"
    and "helper \<noteq> defaultVeleroResticRestoreHelperImage"
    and "configmap_at k veleroNamespace resticConfigMapName = None"
  shows "configmap_at k1 veleroNamespace resticConfigMapName
           = Some ((resticConfigMapResource helper)\<lparr>cm_namespace := veleroNamespace\<rparr>)"
proof -
  from assms(3) have nf: "\<And>c. ConfigMaps_Get k veleroNamespace resticConfigMapName \<noteq> Inr c"
    using ConfigMaps_Get_found by fastforce
  have nm: "cm_name (resticConfigMapResource helper) = resticConfigMapName"
    by (simp add: resticConfigMapResource_def)
  from assms(1,2) nf have
    "ConfigMaps_Create k veleroNamespace (resticConfigMapResource helper) = Inr k1"
    by (auto simp: configure_restic_configmap_def split: sum.splits if_splits)
  then have "ConfigMaps k1
      = ConfigMaps k @ [(resticConfigMapResource helper)\<lparr>cm_namespace := veleroNamespace\<rparr>]"
    by (auto simp: ConfigMaps_Create_def split: if_splits)
  with assms(3) nm show ?thesis
    by (simp add: configmap_at_def find_append_new)
qed

lemma restic_configmap_updated:
  assumes "configure_restic_configmap k helper = Inr k1"
    and "helper \<noteq> defaultVeleroResticRestoreHelperImage"
    and "configmap_at k veleroNamespace resticConfigMapName = Some cm"
  shows "configmap_at k1 veleroNamespace resticConfigMapName
           = Some (cm\<lparr>Data := Some (AList.update ''image'' helper
                                      (case Data cm of None \<Rightarrow> [] | Some d \<Rightarrow> d))\<rparr>)"
proof -
  let ?cm' = "cm\<lparr>Data := Some (AList.update ''image'' helper
                                (case Data cm of None \<Rightarrow> [] | Some d \<Rightarrow> d))\<rparr>"
  from assms(3) have at: "cm_namespace cm = veleroNamespace" "cm_name cm = resticConfigMapName"
    by (auto simp: configmap_at_def dest: find_holds)
  have get: "ConfigMaps_Get k veleroNamespace resticConfigMapName = Inr cm"
    if "\<not> api_error k GetConfigMap"
    using that assms(3) by (simp add: ConfigMaps_Get_def configmap_at_def)
  have nf: "\<not> IsNotFound err" if "ConfigMaps_Get k veleroNamespace resticConfigMapName = Inl err" for err
    using that assms(3) by (auto simp: ConfigMaps_Get_def configmap_at_def split: if_splits)
  from assms(1,2) get nf have upd: "ConfigMaps_Update k veleroNamespace ?cm' = Inr k1"
    by (auto simp: configure_restic_configmap_def ConfigMaps_Get_def split: sum.splits if_splits)
  have same: "?cm'\<lparr>cm_namespace := veleroNamespace\<rparr> = ?cm'"
    using at by simp
  from upd at have "ConfigMaps k1
      = map (\<lambda>x. if cm_namespace x = veleroNamespace \<and> cm_name x = resticConfigMapName
                  then ?cm' else x) (ConfigMaps k)"
    by (auto simp: ConfigMaps_Update_def same split: if_splits)
  with assms(3) at show ?thesis
    by (simp add: configmap_at_def find_replace)
qed

lemma restic_configmap_deleted:
  assumes "configure_restic_configmap k defaultVeleroResticRestoreHelperImage = Inr k1"
  shows "configmap_at k1 veleroNamespace resticConfigMapName = None"
proof (cases "ConfigMaps_Delete k veleroNamespace resticConfigMapName")
  case (Inl err)
  with assms have "IsNotFound err" "k1 = k"
    by (auto simp: configure_restic_configmap_def split: if_splits)
  with Inl show ?thesis
    by (cases "configmap_at k veleroNamespace resticConfigMapName")
      (auto simp: ConfigMaps_Delete_def configmap_at_def dest: find_list_ex split: if_splits)
next
  case (Inr k2)
  with assms have "k1 = k2"
    by (simp add: configure_restic_configmap_def)
  with Inr show ?thesis
    using find_filter_not [of "\<lambda>c. cm_namespace c = veleroNamespace \<and> cm_name c = resticConfigMapName"
        "ConfigMaps k"]
    by (auto simp: ConfigMaps_Delete_def configmap_at_def split: if_splits)
qed

lemma restic_configmap_absent_ok:
  assumes "\<not> api_error k DeleteConfigMap"
    and "configmap_at k veleroNamespace resticConfigMapName = None"
  shows "configure_restic_configmap k defaultVeleroResticRestoreHelperImage = Inr k"
proof -
  from assms(2) have "\<not> list_ex (\<lambda>x. cm_namespace x = veleroNamespace \<and> cm_name x = resticConfigMapName)
                          (ConfigMaps k)"
    by (auto simp: configmap_at_def find_None_iff list_ex_iff)
  with assms(1) show ?thesis
    by (simp add: configure_restic_configmap_def ConfigMaps_Delete_def)
qed

text \<open>What a run of \<open>ConfigureVeleroImages\<close> without error has gone through.\<close>

lemma ConfigureVeleroImages_steps:
  assumes "ConfigureVeleroImages rewrite k kotsadmNamespace opts = (None, k')"
    and "\<not> (IsKurl k \<and> kotsadmNamespace = NamespaceDefault)"
  obtains veleroImage awsPluginImage helper imagePullSecrets k1 k2 k3 where
    "rewriteVeleroImages rewrite k kotsadmNamespace opts
       = Inr (veleroImage, awsPluginImage, helper, imagePullSecrets)"
    "EnsurePrivateKotsadmRegistrySecret veleroNamespace opts k = Inr k1"
    "patch_velero_deployment k1 veleroImage awsPluginImage imagePullSecrets = Inr k2"
    "configure_restic_configmap k2 helper = Inr k3"
    "patch_restic_daemonset k3 veleroImage imagePullSecrets = Inr k'"
  using assms
  by (auto simp: ConfigureVeleroImages_def split: sum.splits prod.splits if_splits)

section \<open>Runs of the image configuration on the sample clusters\<close>

lemmas configure_defs =
  ConfigureVeleroImages_def rewriteVeleroImages_def patch_velero_deployment_def
  configure_restic_configmap_def patch_restic_daemonset_def resticConfigMapResource_def
  registry_rewrite_def configmap_at_def

lemma rewrite_private_registry:
  "rewriteVeleroImages registry_rewrite sample_cluster ''kots'' private_registry
     = Inr (''registry.local:5000/kots/velero:v1.5.1'',
            ''registry.local:5000/kots/velero-plugin-for-aws:v1.1.0'',
            ''registry.local:5000/kots/velero-restic-restore-helper:v1.5.1'',
            [''kotsadm-private-registry''])"
  by (simp add: configure_defs cluster_defs image_defs)

lemma rewrite_no_registry:
  "rewriteVeleroImages registry_rewrite sample_cluster ''kots'' no_registry
     = Inr (defaultVeleroImage, defaultVeleroAWSPluginImage,
            defaultVeleroResticRestoreHelperImage, [])"
  by (simp add: configure_defs cluster_defs image_defs)

lemma run_private_registry:
  "ConfigureVeleroImages registry_rewrite sample_cluster ''kots'' private_registry
     = (None, configured_cluster)"
  by (simp add: configure_defs client_defs cluster_defs image_defs configured_cluster_def)

lemma run_no_registry:
  "ConfigureVeleroImages registry_rewrite sample_cluster ''kots'' no_registry = (None, sample_cluster)"
  by (simp add: configure_defs client_defs cluster_defs image_defs)

lemma run_kurl:
  "ConfigureVeleroImages registry_rewrite kurl_cluster ''default'' private_registry
     = (None, kurl_cluster)"
  by (simp add: ConfigureVeleroImages_def cluster_defs image_defs)

section \<open>Which fields of the workloads the image configuration writes\<close>

lemma Deployments_Get_same:
  "Deployments k1 = Deployments k \<Longrightarrow> api_unavailable k1 = api_unavailable k \<Longrightarrow>
   Deployments_Get k1 ns n = Deployments_Get k ns n"
  by (simp add: Deployments_Get_def api_error_def)

lemma DaemonSets_Get_same:
  "DaemonSets k1 = DaemonSets k \<Longrightarrow> api_unavailable k1 = api_unavailable k \<Longrightarrow>
   DaemonSets_Get k1 ns n = DaemonSets_Get k ns n"
  by (simp add: DaemonSets_Get_def api_error_def)

text \<open>
  Claim C8 as stated does not hold for the companion daemon set: the operation sets its pull
  secrets and the image of its first container and never its init containers. On the sample
  cluster, configured for a private registry, the plugin image is rewritten and written to the
  deployment's first init container, while the daemon set's init container keeps the image it
  had.
\<close>

theorem C8_daemonset_init_container_counterexample:
  "ConfigureVeleroImages registry_rewrite sample_cluster ''kots'' private_registry
     = (None, configured_cluster)
   \<and> rewriteVeleroImages registry_rewrite sample_cluster ''kots'' private_registry
       = Inr (''registry.local:5000/kots/velero:v1.5.1'',
              ''registry.local:5000/kots/velero-plugin-for-aws:v1.1.0'',
              ''registry.local:5000/kots/velero-restic-restore-helper:v1.5.1'',
              [''kotsadm-private-registry''])
   \<and> map (\<lambda>d. map Image (InitContainers (Template d))) (Deployments configured_cluster)
       = [[''registry.local:5000/kots/velero-plugin-for-aws:v1.1.0'']]
   \<and> map (\<lambda>d. map Image (InitContainers (ds_Template d))) (DaemonSets sample_cluster)
       = [[''busybox:1.32'']]
   \<and> map (\<lambda>d. map Image (InitContainers (ds_Template d))) (DaemonSets configured_cluster)
       = [[''busybox:1.32'']]"
proof -
  have dep: "map (\<lambda>d. map Image (InitContainers (Template d))) (Deployments configured_cluster)
       = [[''registry.local:5000/kots/velero-plugin-for-aws:v1.1.0'']]"
    by (simp add: configured_cluster_def cluster_defs)
  have before: "map (\<lambda>d. map Image (InitContainers (ds_Template d))) (DaemonSets sample_cluster)
       = [[''busybox:1.32'']]"
    by (simp add: cluster_defs)
  have after: "map (\<lambda>d. map Image (InitContainers (ds_Template d))) (DaemonSets configured_cluster)
       = [[''busybox:1.32'']]"
    by (simp add: configured_cluster_def cluster_defs)
  show ?thesis
    by (intro conjI run_private_registry rewrite_private_registry dep before after)
qed

text \<open>
  Claim C8, amended. When the image configuration returns no error and is not the embedded
  no-op: the deployment named velero in the engine namespace is replaced by itself with
  exactly three fields of its pod template set (the pull secrets, the image of the first init
  container, the image of the first container); the daemon set named restic is replaced by
  itself with exactly two set (the pull secrets and the image of the first container); every
  other field of the two workloads, and every other deployment and daemon set, is as before.
\<close>

theorem C8_patch_touches_named_fields_only:
  "ConfigureVeleroImages rewrite k kotsadmNamespace opts = (None, k')
   \<and> \<not> (IsKurl k \<and> kotsadmNamespace = NamespaceDefault) \<longrightarrow>
   (\<exists>veleroImage awsPluginImage helper imagePullSecrets d ic ics c cs ds dc dcs.
      rewriteVeleroImages rewrite k kotsadmNamespace opts
        = Inr (veleroImage, awsPluginImage, helper, imagePullSecrets)
    \<and> Deployments_Get k veleroNamespace veleroDeploymentName = Inr d
    \<and> InitContainers (Template d) = ic # ics \<and> Containers (Template d) = c # cs
    \<and> Deployments k'
        = map (\<lambda>x. if deploy_namespace x = veleroNamespace \<and> deploy_name x = veleroDeploymentName
                    then d\<lparr>Template := (Template d)
                            \<lparr>ImagePullSecrets := imagePullSecrets,
                             InitContainers := ic\<lparr>Image := awsPluginImage\<rparr> # ics,
                             Containers := c\<lparr>Image := veleroImage\<rparr> # cs\<rparr>\<rparr>
                    else x)
            (Deployments k)
    \<and> DaemonSets_Get k veleroNamespace resticDaemonSetName = Inr ds
    \<and> Containers (ds_Template ds) = dc # dcs
    \<and> DaemonSets k'
        = map (\<lambda>x. if ds_namespace x = veleroNamespace \<and> ds_name x = resticDaemonSetName
                    then ds\<lparr>ds_Template := (ds_Template ds)
                             \<lparr>ImagePullSecrets := imagePullSecrets,
                              Containers := dc\<lparr>Image := veleroImage\<rparr> # dcs\<rparr>\<rparr>
                    else x)
            (DaemonSets k))"
proof (intro impI, elim conjE)
  assume run: "ConfigureVeleroImages rewrite k kotsadmNamespace opts = (None, k')"
    and guard: "\<not> (IsKurl k \<and> kotsadmNamespace = NamespaceDefault)"
  from run guard obtain veleroImage awsPluginImage helper imagePullSecrets k1 k2 k3 where
    rw: "rewriteVeleroImages rewrite k kotsadmNamespace opts
           = Inr (veleroImage, awsPluginImage, helper, imagePullSecrets)"
    and s1: "EnsurePrivateKotsadmRegistrySecret veleroNamespace opts k = Inr k1"
    and s2: "patch_velero_deployment k1 veleroImage awsPluginImage imagePullSecrets = Inr k2"
    and s3: "configure_restic_configmap k2 helper = Inr k3"
    and s4: "patch_restic_daemonset k3 veleroImage imagePullSecrets = Inr k'"
    by (rule ConfigureVeleroImages_steps)
  note f1 = ensure_secret_frame[OF s1]
  from s2 obtain d ic ics c cs where
    d: "Deployments_Get k1 veleroNamespace veleroDeploymentName = Inr d"
    and ic: "InitContainers (Template d) = ic # ics" and c: "Containers (Template d) = c # cs"
    and k2: "k2 = k1\<lparr>Deployments :=
                map (\<lambda>x. if deploy_namespace x = veleroNamespace \<and> deploy_name x = veleroDeploymentName
                          then d\<lparr>Template := (Template d)
                                  \<lparr>ImagePullSecrets := imagePullSecrets,
                                   InitContainers := ic\<lparr>Image := awsPluginImage\<rparr> # ics,
                                   Containers := c\<lparr>Image := veleroImage\<rparr> # cs\<rparr>\<rparr>
                          else x)
                  (Deployments k1)\<rparr>"
    by (rule patch_velero_deployment_effect)
  note f3 = restic_configmap_frame[OF s3]
  from s4 obtain ds dc dcs where
    ds: "DaemonSets_Get k3 veleroNamespace resticDaemonSetName = Inr ds"
    and dc: "Containers (ds_Template ds) = dc # dcs"
    and k': "k' = k3\<lparr>DaemonSets :=
                map (\<lambda>x. if ds_namespace x = veleroNamespace \<and> ds_name x = resticDaemonSetName
                          then ds\<lparr>ds_Template := (ds_Template ds)
                                   \<lparr>ImagePullSecrets := imagePullSecrets,
                                    Containers := dc\<lparr>Image := veleroImage\<rparr> # dcs\<rparr>\<rparr>
                          else x)
                  (DaemonSets k3)\<rparr>"
    by (rule patch_restic_daemonset_effect)
  have dk: "Deployments_Get k veleroNamespace veleroDeploymentName = Inr d"
    using d f1 Deployments_Get_same [of k1 k veleroNamespace veleroDeploymentName] by simp
  have dss: "DaemonSets k3 = DaemonSets k" and api: "api_unavailable k3 = api_unavailable k"
    using f1 f3 k2 by simp_all
  have dsk: "DaemonSets_Get k veleroNamespace resticDaemonSetName = Inr ds"
    using ds DaemonSets_Get_same [OF dss api, of veleroNamespace resticDaemonSetName] by simp
  have deps: "Deployments k'
        = map (\<lambda>x. if deploy_namespace x = veleroNamespace \<and> deploy_name x = veleroDeploymentName
                    then d\<lparr>Template := (Template d)
                            \<lparr>ImagePullSecrets := imagePullSecrets,
                             InitContainers := ic\<lparr>Image := awsPluginImage\<rparr> # ics,
                             Containers := c\<lparr>Image := veleroImage\<rparr> # cs\<rparr>\<rparr>
                    else x)
            (Deployments k)"
    using k' f3 k2 f1 by simp
  have dsets: "DaemonSets k'
        = map (\<lambda>x. if ds_namespace x = veleroNamespace \<and> ds_name x = resticDaemonSetName
                    then ds\<lparr>ds_Template := (ds_Template ds)
                             \<lparr>ImagePullSecrets := imagePullSecrets,
                              Containers := dc\<lparr>Image := veleroImage\<rparr> # dcs\<rparr>\<rparr>
                    else x)
            (DaemonSets k)"
    using k' dss by simp
  show "\<exists>veleroImage awsPluginImage helper imagePullSecrets d ic ics c cs ds dc dcs.
      rewriteVeleroImages rewrite k kotsadmNamespace opts
        = Inr (veleroImage, awsPluginImage, helper, imagePullSecrets)
    \<and> Deployments_Get k veleroNamespace veleroDeploymentName = Inr d
    \<and> InitContainers (Template d) = ic # ics \<and> Containers (Template d) = c # cs
    \<and> Deployments k'
        = map (\<lambda>x. if deploy_namespace x = veleroNamespace \<and> deploy_name x = veleroDeploymentName
                    then d\<lparr>Template := (Template d)
                            \<lparr>ImagePullSecrets := imagePullSecrets,
                             InitContainers := ic\<lparr>Image := awsPluginImage\<rparr> # ics,
                             Containers := c\<lparr>Image := veleroImage\<rparr> # cs\<rparr>\<rparr>
                    else x)
            (Deployments k)
    \<and> DaemonSets_Get k veleroNamespace resticDaemonSetName = Inr ds
    \<and> Containers (ds_Template ds) = dc # dcs
    \<and> DaemonSets k'
        = map (\<lambda>x. if ds_namespace x = veleroNamespace \<and> ds_name x = resticDaemonSetName
                    then ds\<lparr>ds_Template := (ds_Template ds)
                             \<lparr>ImagePullSecrets := imagePullSecrets,
                              Containers := dc\<lparr>Image := veleroImage\<rparr> # dcs\<rparr>\<rparr>
                    else x)
            (DaemonSets k)"
    apply (intro exI conjI)
           apply (rule rw)
          apply (rule dk)
         apply (rule ic)
        apply (rule c)
       apply (rule deps)
      apply (rule dsk)
     apply (rule dc)
    apply (rule dsets)
    done
qed

text \<open>
  The amended claim at the sample cluster configured for the private registry: the run
  succeeds outside the embedded case, and the workloads it leaves are the sample workloads
  with the named fields set.
\<close>

theorem C8_patch_touches_named_fields_only_witness:
  "(ConfigureVeleroImages registry_rewrite sample_cluster ''kots'' private_registry
      = (None, configured_cluster)
    \<and> \<not> (IsKurl sample_cluster \<and> ''kots'' = NamespaceDefault))
   \<and> (\<exists>veleroImage awsPluginImage helper imagePullSecrets d ic ics c cs ds dc dcs.
        rewriteVeleroImages registry_rewrite sample_cluster ''kots'' private_registry
          = Inr (veleroImage, awsPluginImage, helper, imagePullSecrets)
      \<and> Deployments_Get sample_cluster veleroNamespace veleroDeploymentName = Inr d
      \<and> InitContainers (Template d) = ic # ics \<and> Containers (Template d) = c # cs
      \<and> Deployments configured_cluster
          = map (\<lambda>x. if deploy_namespace x = veleroNamespace \<and> deploy_name x = veleroDeploymentName
                      then d\<lparr>Template := (Template d)
                              \<lparr>ImagePullSecrets := imagePullSecrets,
                               InitContainers := ic\<lparr>Image := awsPluginImage\<rparr> # ics,
                               Containers := c\<lparr>Image := veleroImage\<rparr> # cs\<rparr>\<rparr>
                      else x)
              (Deployments sample_cluster)
      \<and> DaemonSets_Get sample_cluster veleroNamespace resticDaemonSetName = Inr ds
      \<and> Containers (ds_Template ds) = dc # dcs
      \<and> DaemonSets configured_cluster
          = map (\<lambda>x. if ds_namespace x = veleroNamespace \<and> ds_name x = resticDaemonSetName
                      then ds\<lparr>ds_Template := (ds_Template ds)
                               \<lparr>ImagePullSecrets := imagePullSecrets,
                                Containers := dc\<lparr>Image := veleroImage\<rparr> # dcs\<rparr>\<rparr>
                      else x)
              (DaemonSets sample_cluster))"
proof -
  have guard: "\<not> (IsKurl sample_cluster \<and> ''kots'' = NamespaceDefault)"
    by (simp add: cluster_defs)
  have h: "ConfigureVeleroImages registry_rewrite sample_cluster ''kots'' private_registry
             = (None, configured_cluster)
           \<and> \<not> (IsKurl sample_cluster \<and> ''kots'' = NamespaceDefault)"
    using run_private_registry guard by (rule conjI)
  from h C8_patch_touches_named_fields_only
    [where rewrite = registry_rewrite and k = sample_cluster and kotsadmNamespace = "''kots''"
       and opts = private_registry and k' = configured_cluster, THEN mp, OF h]
  show ?thesis by (rule conjI)
qed

section \<open>The config map of the restore helper\<close>

lemma configmap_at_same: "ConfigMaps k1 = ConfigMaps k \<Longrightarrow> configmap_at k1 ns n = configmap_at k ns n"
  by (simp add: configmap_at_def)

lemma image_after_update: "map_of (AList.update ''image'' v al) ''image'' = Some v"
  by (simp add: update_conv')

text \<open>
  Claim C10 as stated does not hold on the embedded cluster in the default namespace: the
  operation succeeds at its first statement, the restore-helper image is the default one, and
  a config map of the restore helper that the cluster holds is not deleted.
\<close>

theorem C10_embedded_keeps_configmap_counterexample:
  "ConfigureVeleroImages registry_rewrite kurl_cluster ''default'' private_registry
     = (None, kurl_cluster)
   \<and> rewriteVeleroImages registry_rewrite kurl_cluster ''default'' private_registry
       = Inr (defaultVeleroImage, defaultVeleroAWSPluginImage,
              defaultVeleroResticRestoreHelperImage, [])
   \<and> configmap_at kurl_cluster veleroNamespace resticConfigMapName
       = Some \<lparr>cm_namespace = ''velero'', cm_name = ''restic-restore-action-config'',
               cm_labels = [(''velero.io/plugin-config'', []),
                            (''velero.io/restic'', ''RestoreItemAction'')],
               Data = Some [(''image'', ''registry.local:5000/kots/helper:v1.5.1'')]\<rparr>"
proof -
  have rw: "rewriteVeleroImages registry_rewrite kurl_cluster ''default'' private_registry
       = Inr (defaultVeleroImage, defaultVeleroAWSPluginImage,
              defaultVeleroResticRestoreHelperImage, [])"
    by (simp add: rewriteVeleroImages_def cluster_defs image_defs)
  have cm: "configmap_at kurl_cluster veleroNamespace resticConfigMapName
       = Some \<lparr>cm_namespace = ''velero'', cm_name = ''restic-restore-action-config'',
               cm_labels = [(''velero.io/plugin-config'', []),
                            (''velero.io/restic'', ''RestoreItemAction'')],
               Data = Some [(''image'', ''registry.local:5000/kots/helper:v1.5.1'')]\<rparr>"
    by (simp add: configmap_at_def resticConfigMapResource_def cluster_defs image_defs)
  show ?thesis
    by (intro conjI run_kurl rw cm)
qed

text \<open>
  Claim C10, amended. After the image configuration succeeds on a cluster that is not the
  embedded default-namespace case: if the restore-helper image was rewritten away from its
  default, the engine namespace holds a config map named "restic-restore-action-config" whose
  Data["image"] is the rewritten reference (the fresh resource if there was none, the old
  config map with that one key set if there was one); if the image is the default, the engine
  namespace holds no such config map. Deleting where there is none is not an error: the step
  leaves the cluster as it is.
\<close>

theorem C10_restore_helper_configmap:
  "(ConfigureVeleroImages rewrite k kotsadmNamespace opts = (None, k')
    \<and> \<not> (IsKurl k \<and> kotsadmNamespace = NamespaceDefault) \<longrightarrow>
    (\<exists>veleroImage awsPluginImage helper imagePullSecrets.
       rewriteVeleroImages rewrite k kotsadmNamespace opts
         = Inr (veleroImage, awsPluginImage, helper, imagePullSecrets)
     \<and> (helper \<noteq> defaultVeleroResticRestoreHelperImage \<longrightarrow>
          (\<exists>cm d. configmap_at k' veleroNamespace resticConfigMapName = Some cm
                   \<and> Data cm = Some d \<and> map_of d ''image'' = Some helper)
        \<and> (configmap_at k veleroNamespace resticConfigMapName = None \<longrightarrow>
             configmap_at k' veleroNamespace resticConfigMapName
               = Some ((resticConfigMapResource helper)\<lparr>cm_namespace := veleroNamespace\<rparr>))
        \<and> (\<forall>cm0. configmap_at k veleroNamespace resticConfigMapName = Some cm0 \<longrightarrow>
             configmap_at k' veleroNamespace resticConfigMapName
               = Some (cm0\<lparr>Data := Some (AList.update ''image'' helper
                                            (case Data cm0 of None \<Rightarrow> [] | Some d \<Rightarrow> d))\<rparr>)))
     \<and> (helper = defaultVeleroResticRestoreHelperImage \<longrightarrow>
          configmap_at k' veleroNamespace resticConfigMapName = None)))
   \<and> (\<not> api_error k DeleteConfigMap \<and> configmap_at k veleroNamespace resticConfigMapName = None
        \<longrightarrow> configure_restic_configmap k defaultVeleroResticRestoreHelperImage = Inr k)"
proof (intro conjI impI; (elim conjE)?)
  assume run: "ConfigureVeleroImages rewrite k kotsadmNamespace opts = (None, k')"
    and guard: "\<not> (IsKurl k \<and> kotsadmNamespace = NamespaceDefault)"
  from run guard obtain veleroImage awsPluginImage helper imagePullSecrets k1 k2 k3 where
    rw: "rewriteVeleroImages rewrite k kotsadmNamespace opts
           = Inr (veleroImage, awsPluginImage, helper, imagePullSecrets)"
    and s1: "EnsurePrivateKotsadmRegistrySecret veleroNamespace opts k = Inr k1"
    and s2: "patch_velero_deployment k1 veleroImage awsPluginImage imagePullSecrets = Inr k2"
    and s3: "configure_restic_configmap k2 helper = Inr k3"
    and s4: "patch_restic_daemonset k3 veleroImage imagePullSecrets = Inr k'"
    by (rule ConfigureVeleroImages_steps)
  have "ConfigMaps k1 = ConfigMaps k"
    using ensure_secret_frame[OF s1] by simp
  moreover have "ConfigMaps k2 = ConfigMaps k1"
    using s2 by (rule patch_velero_deployment_effect) simp
  ultimately have before: "configmap_at k2 veleroNamespace resticConfigMapName
      = configmap_at k veleroNamespace resticConfigMapName"
    by (simp add: configmap_at_def)
  have "ConfigMaps k' = ConfigMaps k3"
    using s4 by (rule patch_restic_daemonset_effect) simp
  then have after: "configmap_at k' veleroNamespace resticConfigMapName
      = configmap_at k3 veleroNamespace resticConfigMapName"
    by (simp add: configmap_at_def)
  have created: "configmap_at k' veleroNamespace resticConfigMapName
               = Some ((resticConfigMapResource helper)\<lparr>cm_namespace := veleroNamespace\<rparr>)"
    if "helper \<noteq> defaultVeleroResticRestoreHelperImage"
      "configmap_at k veleroNamespace resticConfigMapName = None"
    using restic_configmap_created[OF s3 that(1)] that(2) before after by simp
  have updated: "configmap_at k' veleroNamespace resticConfigMapName
               = Some (cm0\<lparr>Data := Some (AList.update ''image'' helper
                                            (case Data cm0 of None \<Rightarrow> [] | Some d \<Rightarrow> d))\<rparr>)"
    if "helper \<noteq> defaultVeleroResticRestoreHelperImage"
      "configmap_at k veleroNamespace resticConfigMapName = Some cm0" for cm0
    using restic_configmap_updated[OF s3 that(1), of cm0] that(2) before after by simp
  have holds: "\<exists>cm d. configmap_at k' veleroNamespace resticConfigMapName = Some cm
                   \<and> Data cm = Some d \<and> map_of d ''image'' = Some helper"
    if h: "helper \<noteq> defaultVeleroResticRestoreHelperImage"
  proof (cases "configmap_at k veleroNamespace resticConfigMapName")
    case None
    from created[OF h None] show ?thesis
      by (simp add: resticConfigMapResource_def)
  next
    case (Some cm0)
    from updated[OF h Some] show ?thesis
      by (simp add: image_after_update)
  qed
  have deleted: "configmap_at k' veleroNamespace resticConfigMapName = None"
    if "helper = defaultVeleroResticRestoreHelperImage"
    using restic_configmap_deleted[of k2 k3] s3 that after by simp
  have body:
    "(helper \<noteq> defaultVeleroResticRestoreHelperImage \<longrightarrow>
          (\<exists>cm d. configmap_at k' veleroNamespace resticConfigMapName = Some cm
                   \<and> Data cm = Some d \<and> map_of d ''image'' = Some helper)
        \<and> (configmap_at k veleroNamespace resticConfigMapName = None \<longrightarrow>
             configmap_at k' veleroNamespace resticConfigMapName
               = Some ((resticConfigMapResource helper)\<lparr>cm_namespace := veleroNamespace\<rparr>))
        \<and> (\<forall>cm0. configmap_at k veleroNamespace resticConfigMapName = Some cm0 \<longrightarrow>
             configmap_at k' veleroNamespace resticConfigMapName
               = Some (cm0\<lparr>Data := Some (AList.update ''image'' helper
                                            (case Data cm0 of None \<Rightarrow> [] | Some d \<Rightarrow> d))\<rparr>)))
     \<and> (helper = defaultVeleroResticRestoreHelperImage \<longrightarrow>
          configmap_at k' veleroNamespace resticConfigMapName = None)"
    apply (intro conjI impI allI)
       apply (erule holds)
      apply (erule (1) created)
     apply (erule (1) updated)
    apply (erule deleted)
    done
  show "\<exists>veleroImage awsPluginImage helper imagePullSecrets.
       rewriteVeleroImages rewrite k kotsadmNamespace opts
         = Inr (veleroImage, awsPluginImage, helper, imagePullSecrets)
     \<and> (helper \<noteq> defaultVeleroResticRestoreHelperImage \<longrightarrow>
          (\<exists>cm d. configmap_at k' veleroNamespace resticConfigMapName = Some cm
                   \<and> Data cm = Some d \<and> map_of d ''image'' = Some helper)
        \<and> (configmap_at k veleroNamespace resticConfigMapName = None \<longrightarrow>
             configmap_at k' veleroNamespace resticConfigMapName
               = Some ((resticConfigMapResource helper)\<lparr>cm_namespace := veleroNamespace\<rparr>))
        \<and> (\<forall>cm0. configmap_at k veleroNamespace resticConfigMapName = Some cm0 \<longrightarrow>
             configmap_at k' veleroNamespace resticConfigMapName
               = Some (cm0\<lparr>Data := Some (AList.update ''image'' helper
                                            (case Data cm0 of None \<Rightarrow> [] | Some d \<Rightarrow> d))\<rparr>)))
     \<and> (helper = defaultVeleroResticRestoreHelperImage \<longrightarrow>
          configmap_at k' veleroNamespace resticConfigMapName = None)"
    apply (rule exI [where x = veleroImage])
    apply (rule exI [where x = awsPluginImage])
    apply (rule exI [where x = helper])
    apply (rule exI [where x = imagePullSecrets])
    apply (rule conjI [OF rw body])
    done
next
  assume "\<not> api_error k DeleteConfigMap"
    and "configmap_at k veleroNamespace resticConfigMapName = None"
  then show "configure_restic_configmap k defaultVeleroResticRestoreHelperImage = Inr k"
    by (rule restic_configmap_absent_ok)
qed

text \<open>
  The amended claim at the sample cluster, which holds no such config map: configured for the
  private registry, the run succeeds and leaves the config map with the rewritten image; and
  the config-map step for the default image, which finds nothing to delete, succeeds.
\<close>

theorem C10_restore_helper_configmap_witness:
  "(ConfigureVeleroImages registry_rewrite sample_cluster ''kots'' private_registry
      = (None, configured_cluster)
    \<and> \<not> (IsKurl sample_cluster \<and> ''kots'' = NamespaceDefault))
   \<and> (\<exists>veleroImage awsPluginImage helper imagePullSecrets.
       rewriteVeleroImages registry_rewrite sample_cluster ''kots'' private_registry
         = Inr (veleroImage, awsPluginImage, helper, imagePullSecrets)
     \<and> (helper \<noteq> defaultVeleroResticRestoreHelperImage \<longrightarrow>
          (\<exists>cm d. configmap_at configured_cluster veleroNamespace resticConfigMapName = Some cm
                   \<and> Data cm = Some d \<and> map_of d ''image'' = Some helper)
        \<and> (configmap_at sample_cluster veleroNamespace resticConfigMapName = None \<longrightarrow>
             configmap_at configured_cluster veleroNamespace resticConfigMapName
               = Some ((resticConfigMapResource helper)\<lparr>cm_namespace := veleroNamespace\<rparr>))
        \<and> (\<forall>cm0. configmap_at sample_cluster veleroNamespace resticConfigMapName = Some cm0 \<longrightarrow>
             configmap_at configured_cluster veleroNamespace resticConfigMapName
               = Some (cm0\<lparr>Data := Some (AList.update ''image'' helper
                                            (case Data cm0 of None \<Rightarrow> [] | Some d \<Rightarrow> d))\<rparr>)))
     \<and> (helper = defaultVeleroResticRestoreHelperImage \<longrightarrow>
          configmap_at configured_cluster veleroNamespace resticConfigMapName = None))
   \<and> (\<not> api_error sample_cluster DeleteConfigMap
      \<and> configmap_at sample_cluster veleroNamespace resticConfigMapName = None)
   \<and> configure_restic_configmap sample_cluster defaultVeleroResticRestoreHelperImage
       = Inr sample_cluster"
proof -
  have guard: "\<not> (IsKurl sample_cluster \<and> ''kots'' = NamespaceDefault)"
    by (simp add: cluster_defs)
  have absent: "configmap_at sample_cluster veleroNamespace resticConfigMapName = None"
    by (simp add: configmap_at_def cluster_defs)
  have del: "\<not> api_error sample_cluster DeleteConfigMap"
    by (simp add: api_error_def cluster_defs)
  have h1: "ConfigureVeleroImages registry_rewrite sample_cluster ''kots'' private_registry
              = (None, configured_cluster)
            \<and> \<not> (IsKurl sample_cluster \<and> ''kots'' = NamespaceDefault)"
    using run_private_registry guard by (rule conjI)
  have h2: "\<not> api_error sample_cluster DeleteConfigMap
            \<and> configmap_at sample_cluster veleroNamespace resticConfigMapName = None"
    using del absent by (rule conjI)
  note inst = C10_restore_helper_configmap
    [where rewrite = registry_rewrite and k = sample_cluster and kotsadmNamespace = "''kots''"
       and opts = private_registry and k' = configured_cluster]
  note c1 = inst [THEN conjunct1, THEN mp, OF h1]
  note c2 = inst [THEN conjunct2, THEN mp, OF h2]
  show ?thesis
    apply (rule conjI)
     apply (rule h1)
    apply (rule conjI)
     apply (rule c1)
    apply (rule conjI)
     apply (rule h2)
    apply (rule c2)
    done
qed

section \<open>Reconfiguring the self-hosted backend against another share\<close>

lemma DeployNFSMinio_provisioned:
  assumes "DeployNFSMinio kinit opts ro = Inr k"
  obtains m where "nfs_minio k = Some m" "CurrentNFSConfig m = DeployNFSConfig opts"
    "\<not> api_error k DeployMinio"
  using assms
  by (auto simp: DeployNFSMinio_def api_error_def split: if_splits option.splits)

lemma DeployNFSMinio_conflict:
  assumes "nfs_minio k = Some m" "CurrentNFSConfig m \<noteq> DeployNFSConfig opts"
    and "\<not> ForceReset opts" "\<not> api_error k DeployMinio"
  shows "DeployNFSMinio k opts ro
           = Inl (ResetNFSError (reset_warning (CurrentNFSConfig m) (DeployNFSConfig opts)))"
  using assms by (simp add: DeployNFSMinio_def)

lemma DeployNFSMinio_forced:
  assumes "nfs_minio k = Some m" "CurrentNFSConfig m \<noteq> DeployNFSConfig opts"
    and "ForceReset opts" "\<not> api_error k DeployMinio"
  shows "DeployNFSMinio k opts ro
           = Inr (k\<lparr>nfs_minio := Some \<lparr>CurrentNFSConfig = DeployNFSConfig opts,
                                       CredentialsGeneration = Suc (CredentialsGeneration m)\<rparr>\<rparr>)"
  using assms by (simp add: DeployNFSMinio_def)

lemma DeployNFSMinio_same:
  assumes "nfs_minio k = Some m" "CurrentNFSConfig m = DeployNFSConfig opts"
    and "\<not> api_error k DeployMinio"
  shows "DeployNFSMinio k opts ro = Inr k"
  using assms by (simp add: DeployNFSMinio_def)

lemma handler_conflict:
  assumes "nfs_minio k = Some m" "CurrentNFSConfig m = A" "A \<noteq> B" "\<not> api_error k DeployMinio"
    and "\<not> api_error k Clientset" "IsKotsadmClusterScoped k" "\<not> api_error k GetKotsadmOptions"
  shows "ConfigureNFSSnapshots install_velero
           (Inr \<lparr>OptPath = Path B, OptServer = Server B, OptForceReset = False\<rparr>) k
           = (JSON StatusConflict
                \<lparr>Success = False, Error = reset_warning A B, IsMinimalRBACEnabled = False\<rparr>, k)"
proof -
  have B: "\<lparr>Path = Path B, Server = Server B\<rparr> = B"
    by simp
  have "configureNFSMinio k \<lparr>OptPath = Path B, OptServer = Server B, OptForceReset = False\<rparr>
          = Inl (ResetNFSError (reset_warning A B))"
    using assms
    by (simp add: configureNFSMinio_def GetKotsadmOptionsFromCluster_def B DeployNFSMinio_def)
  with assms(5,6) show ?thesis
    by (simp add: ConfigureNFSSnapshots_def)
qed

lemma handler_forced:
  assumes "nfs_minio k = Some m" "CurrentNFSConfig m = A" "A \<noteq> B" "\<not> api_error k DeployMinio"
    and "\<not> api_error k Clientset" "IsKotsadmClusterScoped k" "\<not> api_error k GetKotsadmOptions"
  shows "ConfigureNFSSnapshots install_velero
           (Inr \<lparr>OptPath = Path B, OptServer = Server B, OptForceReset = True\<rparr>) k
           = install_velero
               (k\<lparr>nfs_minio := Some \<lparr>CurrentNFSConfig = B,
                      CredentialsGeneration = Suc (CredentialsGeneration m)\<rparr>\<rparr>)"
proof -
  have B: "\<lparr>Path = Path B, Server = Server B\<rparr> = B"
    by simp
  have "configureNFSMinio k \<lparr>OptPath = Path B, OptServer = Server B, OptForceReset = True\<rparr>
          = Inr (k\<lparr>nfs_minio := Some \<lparr>CurrentNFSConfig = B,
                      CredentialsGeneration = Suc (CredentialsGeneration m)\<rparr>\<rparr>)"
    using assms
    by (simp add: configureNFSMinio_def GetKotsadmOptionsFromCluster_def B DeployNFSMinio_def)
  with assms(5,6) show ?thesis
    by (simp add: ConfigureNFSSnapshots_def)
qed

subsection \<open>Which answers the confirmation loop takes\<close>

lemma to_lower_char_y: "to_lower_char c = CHR ''y'' \<longleftrightarrow> c = CHR ''y'' \<or> c = CHR ''Y''"
  by (simp add: to_lower_char_def)

lemma to_lower_char_n: "to_lower_char c = CHR ''n'' \<longleftrightarrow> c = CHR ''n'' \<or> c = CHR ''N''"
  by (simp add: to_lower_char_def)

lemma ToLower_y: "ToLower r = ''y'' \<longleftrightarrow> r = ''y'' \<or> r = ''Y''"
  by (auto simp: ToLower_def map_eq_Cons_conv to_lower_char_y)

lemma ToLower_n: "ToLower r = ''n'' \<longleftrightarrow> r = ''n'' \<or> r = ''N''"
  by (auto simp: ToLower_def map_eq_Cons_conv to_lower_char_n)

lemma prompt_loop_skip:
  "list_all (\<lambda>(r, e). e \<noteq> Some ErrInterrupt \<and> r \<notin> set [''y'', ''Y'', ''n'', ''N'']) skipped \<Longrightarrow>
   prompt_loop (skipped @ answers) = prompt_loop answers"
  by (induction skipped) (auto simp: ToLower_y ToLower_n)

lemma prompt_loop_confirm:
  assumes "list_all (\<lambda>(r, e). e \<noteq> Some ErrInterrupt \<and> r \<notin> set [''y'', ''Y'', ''n'', ''N'']) skipped"
    and "err \<noteq> Some ErrInterrupt" "resp = ''y'' \<or> resp = ''Y''"
  shows "prompt_loop (skipped @ (resp, err) # rest) = Some Confirmed"
  using assms(2,3) by (auto simp: prompt_loop_skip [OF assms(1)] ToLower_y ToLower_n)

lemma prompt_loop_refuse:
  assumes "list_all (\<lambda>(r, e). e \<noteq> Some ErrInterrupt \<and> r \<notin> set [''y'', ''Y'', ''n'', ''N'']) skipped"
    and "err = Some ErrInterrupt \<or> resp = ''n'' \<or> resp = ''N''"
  shows "prompt_loop (skipped @ (resp, err) # rest) = Some (Exit (- 1))"
  using assms(2) by (auto simp: prompt_loop_skip [OF assms(1)] ToLower_y ToLower_n)

lemma prompt_loop_asking:
  assumes "list_all (\<lambda>(r, e). e \<noteq> Some ErrInterrupt \<and> r \<notin> set [''y'', ''Y'', ''n'', ''N'']) skipped"
  shows "prompt_loop skipped = None"
  using prompt_loop_skip [OF assms, of "[]"] by simp

subsection \<open>The command on a conflict\<close>

lemma command_conflict_confirmed:
  assumes "nfs_minio k = Some m" "CurrentNFSConfig m = A" "A \<noteq> B" "\<not> api_error k DeployMinio"
    and "validateNamespace ns = None" "Path B \<noteq> []" "Server B \<noteq> []"
    and "\<not> api_error k Clientset" "prompt_loop answers = Some Confirmed"
  shows "BackupConfigureNFSCmd validateNamespace (Inr ro) configure_velero
           \<lparr>flag_namespace = ns, flag_path = Path B, flag_server = Server B\<rparr> answers k
           = (Return (fst (configure_velero
                        (k\<lparr>nfs_minio := Some \<lparr>CurrentNFSConfig = B,
                               CredentialsGeneration = Suc (CredentialsGeneration m)\<rparr>\<rparr>))),
              [ActionWithSpinner ''Setting up NFS Minio'', FinishSpinnerWithError,
               ColoredInfo (CHR 0x0A # reset_warning A B), ActionWithoutSpinner [],
               ActionWithSpinner ''Re-configuring NFS Minio'', FinishSpinner],
              snd (configure_velero
                     (k\<lparr>nfs_minio := Some \<lparr>CurrentNFSConfig = B,
                            CredentialsGeneration = Suc (CredentialsGeneration m)\<rparr>\<rparr>)))"
proof -
  have B: "\<lparr>Path = Path B, Server = Server B\<rparr> = B"
    by simp
  show ?thesis
    using assms
    by (simp add: BackupConfigureNFSCmd_def B DeployNFSMinio_def promptForNFSReset_def Let_def
        split: prod.splits)
qed

lemma command_conflict_refused:
  assumes "nfs_minio k = Some m" "CurrentNFSConfig m = A" "A \<noteq> B" "\<not> api_error k DeployMinio"
    and "validateNamespace ns = None" "Path B \<noteq> []" "Server B \<noteq> []"
    and "\<not> api_error k Clientset" "prompt_loop answers = Some (Exit c)"
  shows "BackupConfigureNFSCmd validateNamespace (Inr ro) configure_velero
           \<lparr>flag_namespace = ns, flag_path = Path B, flag_server = Server B\<rparr> answers k
           = (Exited c,
              [ActionWithSpinner ''Setting up NFS Minio'', FinishSpinnerWithError,
               ColoredInfo (CHR 0x0A # reset_warning A B)],
              k)"
proof -
  have B: "\<lparr>Path = Path B, Server = Server B\<rparr> = B"
    by simp
  show ?thesis
    using assms
    by (simp add: BackupConfigureNFSCmd_def B DeployNFSMinio_def promptForNFSReset_def Let_def)
qed

lemma command_conflict_asking:
  assumes "nfs_minio k = Some m" "CurrentNFSConfig m = A" "A \<noteq> B" "\<not> api_error k DeployMinio"
    and "validateNamespace ns = None" "Path B \<noteq> []" "Server B \<noteq> []"
    and "\<not> api_error k Clientset" "prompt_loop answers = None"
  shows "BackupConfigureNFSCmd validateNamespace (Inr ro) configure_velero
           \<lparr>flag_namespace = ns, flag_path = Path B, flag_server = Server B\<rparr> answers k
           = (StillAsking,
              [ActionWithSpinner ''Setting up NFS Minio'', FinishSpinnerWithError,
               ColoredInfo (CHR 0x0A # reset_warning A B)],
              k)"
proof -
  have B: "\<lparr>Path = Path B, Server = Server B\<rparr> = B"
    by simp
  show ?thesis
    using assms
    by (simp add: BackupConfigureNFSCmd_def B DeployNFSMinio_def promptForNFSReset_def Let_def)
qed

text \<open>
  Claim C1. After the backend has been provisioned against the share A
  (\<open>DeployNFSMinio\<close> with the configuration A has returned without error), for every share
  B other than A: deploying with B and no forced reset returns the \<open>ResetNFSError\<close> that
  carries the description of the mismatch, and no other error (the cluster answers the calls of
  this deployment as it answered those of the first). The handler answers it with
  409 Conflict and that description, leaving the cluster as it is (the confirmation is then
  the client's), and the same request with \<open>forceReset = true\<close> deploys against B and goes on.
  The command shows the description and asks until it is answered. Answers that are neither an
  interrupt nor one of y, Y, n, N are asked again. On y or Y it deploys again with
  \<open>ForceReset = true\<close>, which succeeds against B and issues new credentials. On n, N or an
  interrupt it exits with status -1, and as long as it is still asking it has done nothing:
  in both cases the backend is the one provisioned against A.
\<close>

theorem C1_other_share_conflicts_until_forced:
  "DeployNFSMinio kinit optsA roA = Inr k \<and> DeployNFSConfig optsA = A \<and> A \<noteq> B \<longrightarrow>
     (DeployNFSConfig optsB = B \<and> \<not> ForceReset optsB \<longrightarrow>
        DeployNFSMinio k optsB ro = Inl (ResetNFSError (reset_warning A B)))
   \<and> (\<not> api_error k Clientset \<and> IsKotsadmClusterScoped k \<and> \<not> api_error k GetKotsadmOptions \<longrightarrow>
        ConfigureNFSSnapshots install_velero
          (Inr \<lparr>OptPath = Path B, OptServer = Server B, OptForceReset = False\<rparr>) k
          = (JSON StatusConflict
               \<lparr>Success = False, Error = reset_warning A B, IsMinimalRBACEnabled = False\<rparr>, k)
      \<and> (\<exists>m. nfs_minio k = Some m
            \<and> ConfigureNFSSnapshots install_velero
                (Inr \<lparr>OptPath = Path B, OptServer = Server B, OptForceReset = True\<rparr>) k
                = install_velero
                    (k\<lparr>nfs_minio := Some \<lparr>CurrentNFSConfig = B,
                           CredentialsGeneration = Suc (CredentialsGeneration m)\<rparr>\<rparr>)))
   \<and> (validateNamespace ns = None \<and> Path B \<noteq> [] \<and> Server B \<noteq> [] \<and> \<not> api_error k Clientset
        \<and> list_all (\<lambda>(r, e). e \<noteq> Some ErrInterrupt \<and> r \<notin> set [''y'', ''Y'', ''n'', ''N''])
             skipped \<longrightarrow>
        (errY \<noteq> Some ErrInterrupt \<and> (respY = ''y'' \<or> respY = ''Y'') \<longrightarrow>
           (\<exists>m kB. nfs_minio k = Some m
              \<and> kB = k\<lparr>nfs_minio := Some \<lparr>CurrentNFSConfig = B,
                             CredentialsGeneration = Suc (CredentialsGeneration m)\<rparr>\<rparr>
              \<and> DeployNFSMinio k
                  \<lparr>Namespace = ns, DeployIsOpenShift = IsOpenShift k, ForceReset = True,
                   DeployNFSConfig = B, Wait = True\<rparr> ro = Inr kB
              \<and> BackupConfigureNFSCmd validateNamespace (Inr ro) configure_velero
                  \<lparr>flag_namespace = ns, flag_path = Path B, flag_server = Server B\<rparr>
                  (skipped @ (respY, errY) # restY) k
                  = (Return (fst (configure_velero kB)),
                     [ActionWithSpinner ''Setting up NFS Minio'', FinishSpinnerWithError,
                      ColoredInfo (CHR 0x0A # reset_warning A B), ActionWithoutSpinner [],
                      ActionWithSpinner ''Re-configuring NFS Minio'', FinishSpinner],
                     snd (configure_velero kB))))
      \<and> (errN = Some ErrInterrupt \<or> respN = ''n'' \<or> respN = ''N'' \<longrightarrow>
           BackupConfigureNFSCmd validateNamespace (Inr ro) configure_velero
             \<lparr>flag_namespace = ns, flag_path = Path B, flag_server = Server B\<rparr>
             (skipped @ (respN, errN) # restN) k
             = (Exited (- 1),
                [ActionWithSpinner ''Setting up NFS Minio'', FinishSpinnerWithError,
                 ColoredInfo (CHR 0x0A # reset_warning A B)],
                k))
      \<and> BackupConfigureNFSCmd validateNamespace (Inr ro) configure_velero
           \<lparr>flag_namespace = ns, flag_path = Path B, flag_server = Server B\<rparr> skipped k
           = (StillAsking,
              [ActionWithSpinner ''Setting up NFS Minio'', FinishSpinnerWithError,
               ColoredInfo (CHR 0x0A # reset_warning A B)],
              k))"
proof (intro impI, elim conjE)
  assume dep: "DeployNFSMinio kinit optsA roA = Inr k" and A: "DeployNFSConfig optsA = A"
    and ne: "A \<noteq> B"
  from dep obtain m where m: "nfs_minio k = Some m" "CurrentNFSConfig m = DeployNFSConfig optsA"
    and api: "\<not> api_error k DeployMinio"
    by (rule DeployNFSMinio_provisioned)
  from m A have cur: "CurrentNFSConfig m = A"
    by simp
  have c1: "DeployNFSConfig optsB = B \<and> \<not> ForceReset optsB \<longrightarrow>
        DeployNFSMinio k optsB ro = Inl (ResetNFSError (reset_warning A B))"
    using DeployNFSMinio_conflict [OF m(1), of optsB ro] cur ne api by auto
  have c2: "\<not> api_error k Clientset \<and> IsKotsadmClusterScoped k \<and> \<not> api_error k GetKotsadmOptions \<longrightarrow>
        ConfigureNFSSnapshots install_velero
          (Inr \<lparr>OptPath = Path B, OptServer = Server B, OptForceReset = False\<rparr>) k
          = (JSON StatusConflict
               \<lparr>Success = False, Error = reset_warning A B, IsMinimalRBACEnabled = False\<rparr>, k)
      \<and> (\<exists>m. nfs_minio k = Some m
            \<and> ConfigureNFSSnapshots install_velero
                (Inr \<lparr>OptPath = Path B, OptServer = Server B, OptForceReset = True\<rparr>) k
                = install_velero
                    (k\<lparr>nfs_minio := Some \<lparr>CurrentNFSConfig = B,
                           CredentialsGeneration = Suc (CredentialsGeneration m)\<rparr>\<rparr>))"
  proof (intro impI, elim conjE)
    assume h: "\<not> api_error k Clientset" "IsKotsadmClusterScoped k"
      "\<not> api_error k GetKotsadmOptions"
    note refused = handler_conflict [where install_velero = install_velero, OF m(1) cur ne api h]
    note forced = handler_forced [where install_velero = install_velero, OF m(1) cur ne api h]
    show "ConfigureNFSSnapshots install_velero
          (Inr \<lparr>OptPath = Path B, OptServer = Server B, OptForceReset = False\<rparr>) k
          = (JSON StatusConflict
               \<lparr>Success = False, Error = reset_warning A B, IsMinimalRBACEnabled = False\<rparr>, k)
      \<and> (\<exists>m. nfs_minio k = Some m
            \<and> ConfigureNFSSnapshots install_velero
                (Inr \<lparr>OptPath = Path B, OptServer = Server B, OptForceReset = True\<rparr>) k
                = install_velero
                    (k\<lparr>nfs_minio := Some \<lparr>CurrentNFSConfig = B,
                           CredentialsGeneration = Suc (CredentialsGeneration m)\<rparr>\<rparr>))"
      apply (rule conjI)
       apply (rule refused)
      apply (rule exI [where x = m])
      apply (rule conjI)
       apply (rule m(1))
      apply (rule forced)
      done
  qed
  have forced: "DeployNFSMinio k
               \<lparr>Namespace = ns, DeployIsOpenShift = IsOpenShift k, ForceReset = True,
                DeployNFSConfig = B, Wait = True\<rparr> ro
          = Inr (k\<lparr>nfs_minio := Some \<lparr>CurrentNFSConfig = B,
                          CredentialsGeneration = Suc (CredentialsGeneration m)\<rparr>\<rparr>)"
    using DeployNFSMinio_forced [OF m(1), of
        "\<lparr>Namespace = ns, DeployIsOpenShift = IsOpenShift k, ForceReset = True,
          DeployNFSConfig = B, Wait = True\<rparr>" ro] cur ne api
    by simp
  have c3: "validateNamespace ns = None \<and> Path B \<noteq> [] \<and> Server B \<noteq> [] \<and> \<not> api_error k Clientset
        \<and> list_all (\<lambda>(r, e). e \<noteq> Some ErrInterrupt \<and> r \<notin> set [''y'', ''Y'', ''n'', ''N''])
             skipped \<longrightarrow>
        (errY \<noteq> Some ErrInterrupt \<and> (respY = ''y'' \<or> respY = ''Y'') \<longrightarrow>
           (\<exists>m kB. nfs_minio k = Some m
              \<and> kB = k\<lparr>nfs_minio := Some \<lparr>CurrentNFSConfig = B,
                             CredentialsGeneration = Suc (CredentialsGeneration m)\<rparr>\<rparr>
              \<and> DeployNFSMinio k
                  \<lparr>Namespace = ns, DeployIsOpenShift = IsOpenShift k, ForceReset = True,
                   DeployNFSConfig = B, Wait = True\<rparr> ro = Inr kB
              \<and> BackupConfigureNFSCmd validateNamespace (Inr ro) configure_velero
                  \<lparr>flag_namespace = ns, flag_path = Path B, flag_server = Server B\<rparr>
                  (skipped @ (respY, errY) # restY) k
                  = (Return (fst (configure_velero kB)),
                     [ActionWithSpinner ''Setting up NFS Minio'', FinishSpinnerWithError,
                      ColoredInfo (CHR 0x0A # reset_warning A B), ActionWithoutSpinner [],
                      ActionWithSpinner ''Re-configuring NFS Minio'', FinishSpinner],
                     snd (configure_velero kB))))
      \<and> (errN = Some ErrInterrupt \<or> respN = ''n'' \<or> respN = ''N'' \<longrightarrow>
           BackupConfigureNFSCmd validateNamespace (Inr ro) configure_velero
             \<lparr>flag_namespace = ns, flag_path = Path B, flag_server = Server B\<rparr>
             (skipped @ (respN, errN) # restN) k
             = (Exited (- 1),
                [ActionWithSpinner ''Setting up NFS Minio'', FinishSpinnerWithError,
                 ColoredInfo (CHR 0x0A # reset_warning A B)],
                k))
      \<and> BackupConfigureNFSCmd validateNamespace (Inr ro) configure_velero
           \<lparr>flag_namespace = ns, flag_path = Path B, flag_server = Server B\<rparr> skipped k
           = (StillAsking,
              [ActionWithSpinner ''Setting up NFS Minio'', FinishSpinnerWithError,
               ColoredInfo (CHR 0x0A # reset_warning A B)],
              k)"
  proof (intro impI, elim conjE)
    assume h: "validateNamespace ns = None" "Path B \<noteq> []" "Server B \<noteq> []"
      "\<not> api_error k Clientset"
      and skip: "list_all (\<lambda>(r, e). e \<noteq> Some ErrInterrupt \<and> r \<notin> set [''y'', ''Y'', ''n'', ''N''])
             skipped"
    have yes: "\<exists>m kB. nfs_minio k = Some m
              \<and> kB = k\<lparr>nfs_minio := Some \<lparr>CurrentNFSConfig = B,
                             CredentialsGeneration = Suc (CredentialsGeneration m)\<rparr>\<rparr>
              \<and> DeployNFSMinio k
                  \<lparr>Namespace = ns, DeployIsOpenShift = IsOpenShift k, ForceReset = True,
                   DeployNFSConfig = B, Wait = True\<rparr> ro = Inr kB
              \<and> BackupConfigureNFSCmd validateNamespace (Inr ro) configure_velero
                  \<lparr>flag_namespace = ns, flag_path = Path B, flag_server = Server B\<rparr>
                  (skipped @ (respY, errY) # restY) k
                  = (Return (fst (configure_velero kB)),
                     [ActionWithSpinner ''Setting up NFS Minio'', FinishSpinnerWithError,
                      ColoredInfo (CHR 0x0A # reset_warning A B), ActionWithoutSpinner [],
                      ActionWithSpinner ''Re-configuring NFS Minio'', FinishSpinner],
                     snd (configure_velero kB))"
      if y: "errY \<noteq> Some ErrInterrupt \<and> (respY = ''y'' \<or> respY = ''Y'')"
    proof -
      from y have "prompt_loop (skipped @ (respY, errY) # restY) = Some Confirmed"
        using prompt_loop_confirm [OF skip, of errY respY restY] by blast
      note cmd = command_conflict_confirmed
        [where validateNamespace = validateNamespace and ns = ns and ro = ro
           and configure_velero = configure_velero, OF m(1) cur ne api h this]
      show ?thesis
        apply (rule exI [where x = m])
        apply (rule exI [where x = "k\<lparr>nfs_minio := Some \<lparr>CurrentNFSConfig = B,
                            CredentialsGeneration = Suc (CredentialsGeneration m)\<rparr>\<rparr>"])
        apply (intro conjI)
           apply (rule m(1))
          apply (rule refl)
         apply (rule forced)
        apply (rule cmd)
        done
    qed
    have no: "BackupConfigureNFSCmd validateNamespace (Inr ro) configure_velero
             \<lparr>flag_namespace = ns, flag_path = Path B, flag_server = Server B\<rparr>
             (skipped @ (respN, errN) # restN) k
             = (Exited (- 1),
                [ActionWithSpinner ''Setting up NFS Minio'', FinishSpinnerWithError,
                 ColoredInfo (CHR 0x0A # reset_warning A B)],
                k)"
      if n: "errN = Some ErrInterrupt \<or> respN = ''n'' \<or> respN = ''N''"
    proof -
      have "prompt_loop (skipped @ (respN, errN) # restN) = Some (Exit (- 1))"
        using prompt_loop_refuse [OF skip n] .
      note cmd = command_conflict_refused
        [where validateNamespace = validateNamespace and ns = ns and ro = ro
           and configure_velero = configure_velero, OF m(1) cur ne api h this]
      show ?thesis
        by (rule cmd)
    qed
    have asking: "BackupConfigureNFSCmd validateNamespace (Inr ro) configure_velero
           \<lparr>flag_namespace = ns, flag_path = Path B, flag_server = Server B\<rparr> skipped k
           = (StillAsking,
              [ActionWithSpinner ''Setting up NFS Minio'', FinishSpinnerWithError,
               ColoredInfo (CHR 0x0A # reset_warning A B)],
              k)"
    proof -
      have "prompt_loop skipped = None"
        using skip by (rule prompt_loop_asking)
      note cmd = command_conflict_asking
        [where validateNamespace = validateNamespace and ns = ns and ro = ro
           and configure_velero = configure_velero, OF m(1) cur ne api h this]
      show ?thesis
        by (rule cmd)
    qed
    from yes no asking show
      "(errY \<noteq> Some ErrInterrupt \<and> (respY = ''y'' \<or> respY = ''Y'') \<longrightarrow>
           (\<exists>m kB. nfs_minio k = Some m
              \<and> kB = k\<lparr>nfs_minio := Some \<lparr>CurrentNFSConfig = B,
                             CredentialsGeneration = Suc (CredentialsGeneration m)\<rparr>\<rparr>
              \<and> DeployNFSMinio k
                  \<lparr>Namespace = ns, DeployIsOpenShift = IsOpenShift k, ForceReset = True,
                   DeployNFSConfig = B, Wait = True\<rparr> ro = Inr kB
              \<and> BackupConfigureNFSCmd validateNamespace (Inr ro) configure_velero
                  \<lparr>flag_namespace = ns, flag_path = Path B, flag_server = Server B\<rparr>
                  (skipped @ (respY, errY) # restY) k
                  = (Return (fst (configure_velero kB)),
                     [ActionWithSpinner ''Setting up NFS Minio'', FinishSpinnerWithError,
                      ColoredInfo (CHR 0x0A # reset_warning A B), ActionWithoutSpinner [],
                      ActionWithSpinner ''Re-configuring NFS Minio'', FinishSpinner],
                     snd (configure_velero kB))))
      \<and> (errN = Some ErrInterrupt \<or> respN = ''n'' \<or> respN = ''N'' \<longrightarrow>
           BackupConfigureNFSCmd validateNamespace (Inr ro) configure_velero
             \<lparr>flag_namespace = ns, flag_path = Path B, flag_server = Server B\<rparr>
             (skipped @ (respN, errN) # restN) k
             = (Exited (- 1),
                [ActionWithSpinner ''Setting up NFS Minio'', FinishSpinnerWithError,
                 ColoredInfo (CHR 0x0A # reset_warning A B)],
                k))
      \<and> BackupConfigureNFSCmd validateNamespace (Inr ro) configure_velero
           \<lparr>flag_namespace = ns, flag_path = Path B, flag_server = Server B\<rparr> skipped k
           = (StillAsking,
              [ActionWithSpinner ''Setting up NFS Minio'', FinishSpinnerWithError,
               ColoredInfo (CHR 0x0A # reset_warning A B)],
              k)"
      by (intro conjI impI)
  qed
  from c1 c2 c3 show
    "(DeployNFSConfig optsB = B \<and> \<not> ForceReset optsB \<longrightarrow>
        DeployNFSMinio k optsB ro = Inl (ResetNFSError (reset_warning A B)))
   \<and> (\<not> api_error k Clientset \<and> IsKotsadmClusterScoped k \<and> \<not> api_error k GetKotsadmOptions \<longrightarrow>
        ConfigureNFSSnapshots install_velero
          (Inr \<lparr>OptPath = Path B, OptServer = Server B, OptForceReset = False\<rparr>) k
          = (JSON StatusConflict
               \<lparr>Success = False, Error = reset_warning A B, IsMinimalRBACEnabled = False\<rparr>, k)
      \<and> (\<exists>m. nfs_minio k = Some m
            \<and> ConfigureNFSSnapshots install_velero
                (Inr \<lparr>OptPath = Path B, OptServer = Server B, OptForceReset = True\<rparr>) k
                = install_velero
                    (k\<lparr>nfs_minio := Some \<lparr>CurrentNFSConfig = B,
                           CredentialsGeneration = Suc (CredentialsGeneration m)\<rparr>\<rparr>)))
   \<and> (validateNamespace ns = None \<and> Path B \<noteq> [] \<and> Server B \<noteq> [] \<and> \<not> api_error k Clientset
        \<and> list_all (\<lambda>(r, e). e \<noteq> Some ErrInterrupt \<and> r \<notin> set [''y'', ''Y'', ''n'', ''N''])
             skipped \<longrightarrow>
        (errY \<noteq> Some ErrInterrupt \<and> (respY = ''y'' \<or> respY = ''Y'') \<longrightarrow>
           (\<exists>m kB. nfs_minio k = Some m
              \<and> kB = k\<lparr>nfs_minio := Some \<lparr>CurrentNFSConfig = B,
                             CredentialsGeneration = Suc (CredentialsGeneration m)\<rparr>\<rparr>
              \<and> DeployNFSMinio k
                  \<lparr>Namespace = ns, DeployIsOpenShift = IsOpenShift k, ForceReset = True,
                   DeployNFSConfig = B, Wait = True\<rparr> ro = Inr kB
              \<and> BackupConfigureNFSCmd validateNamespace (Inr ro) configure_velero
                  \<lparr>flag_namespace = ns, flag_path = Path B, flag_server = Server B\<rparr>
                  (skipped @ (respY, errY) # restY) k
                  = (Return (fst (configure_velero kB)),
                     [ActionWithSpinner ''Setting up NFS Minio'', FinishSpinnerWithError,
                      ColoredInfo (CHR 0x0A # reset_warning A B), ActionWithoutSpinner [],
                      ActionWithSpinner ''Re-configuring NFS Minio'', FinishSpinner],
                     snd (configure_velero kB))))
      \<and> (errN = Some ErrInterrupt \<or> respN = ''n'' \<or> respN = ''N'' \<longrightarrow>
           BackupConfigureNFSCmd validateNamespace (Inr ro) configure_velero
             \<lparr>flag_namespace = ns, flag_path = Path B, flag_server = Server B\<rparr>
             (skipped @ (respN, errN) # restN) k
             = (Exited (- 1),
                [ActionWithSpinner ''Setting up NFS Minio'', FinishSpinnerWithError,
                 ColoredInfo (CHR 0x0A # reset_warning A B)],
                k))
      \<and> BackupConfigureNFSCmd validateNamespace (Inr ro) configure_velero
           \<lparr>flag_namespace = ns, flag_path = Path B, flag_server = Server B\<rparr> skipped k
           = (StillAsking,
              [ActionWithSpinner ''Setting up NFS Minio'', FinishSpinnerWithError,
               ColoredInfo (CHR 0x0A # reset_warning A B)],
              k))"
    by (intro conjI)
qed

lemma reconcile_after_forced_reset_is_noop:
  assumes "DeployNFSMinio k opts ro = Inr k'"
  shows "DeployNFSMinio k' (opts\<lparr>ForceReset := False\<rparr>) ro' = Inr k'"
proof -
  from assms obtain m where "nfs_minio k' = Some m" "CurrentNFSConfig m = DeployNFSConfig opts"
    "\<not> api_error k' DeployMinio"
    by (rule DeployNFSMinio_provisioned)
  then show ?thesis
    by (simp add: DeployNFSMinio_def)
qed

text \<open>
  The theorem at the sample cluster: provisioned against the share \<open>/exports/a\<close>, then
  asked for \<open>/exports/b\<close> of the same server. The command is answered first with a word it
  does not know; then, in one run, with \<open>Y\<close>, and in another with \<open>n\<close> (which the prompt
  returns together with its abort error) followed by a \<open>y\<close> that is never read.
\<close>

theorem C1_other_share_conflicts_until_forced_witness:
  "(DeployNFSMinio sample_cluster (deploy_options share_a False) private_registry
      = Inr cluster_on_share_a
    \<and> DeployNFSConfig (deploy_options share_a False) = share_a \<and> share_a \<noteq> share_b)
   \<and> (DeployNFSConfig (deploy_options share_b False) = share_b
      \<and> \<not> ForceReset (deploy_options share_b False))
   \<and> DeployNFSMinio cluster_on_share_a (deploy_options share_b False) private_registry
       = Inl (ResetNFSError (reset_warning share_a share_b))
   \<and> (\<not> api_error cluster_on_share_a Clientset \<and> IsKotsadmClusterScoped cluster_on_share_a
      \<and> \<not> api_error cluster_on_share_a GetKotsadmOptions)
   \<and> (ConfigureNFSSnapshots (\<lambda>k. (WriteHeader StatusOK, k))
        (Inr \<lparr>OptPath = Path share_b, OptServer = Server share_b, OptForceReset = False\<rparr>)
        cluster_on_share_a
       = (JSON StatusConflict
            \<lparr>Success = False, Error = reset_warning share_a share_b, IsMinimalRBACEnabled = False\<rparr>,
          cluster_on_share_a)
      \<and> (\<exists>m. nfs_minio cluster_on_share_a = Some m
            \<and> ConfigureNFSSnapshots (\<lambda>k. (WriteHeader StatusOK, k))
                (Inr \<lparr>OptPath = Path share_b, OptServer = Server share_b, OptForceReset = True\<rparr>)
                cluster_on_share_a
                = (\<lambda>k. (WriteHeader StatusOK, k))
                    (cluster_on_share_a\<lparr>nfs_minio := Some \<lparr>CurrentNFSConfig = share_b,
                       CredentialsGeneration = Suc (CredentialsGeneration m)\<rparr>\<rparr>)))
   \<and> ((\<lambda>n. None) ''kots'' = (None :: error option) \<and> Path share_b \<noteq> [] \<and> Server share_b \<noteq> []
      \<and> \<not> api_error cluster_on_share_a Clientset
      \<and> list_all (\<lambda>(r, e). e \<noteq> Some ErrInterrupt \<and> r \<notin> set [''y'', ''Y'', ''n'', ''N''])
           [(''maybe'', None)])
   \<and> (None \<noteq> Some ErrInterrupt \<and> (''Y'' = ''y'' \<or> ''Y'' = ''Y''))
   \<and> (\<exists>m kB. nfs_minio cluster_on_share_a = Some m
         \<and> kB = cluster_on_share_a\<lparr>nfs_minio := Some \<lparr>CurrentNFSConfig = share_b,
                    CredentialsGeneration = Suc (CredentialsGeneration m)\<rparr>\<rparr>
         \<and> DeployNFSMinio cluster_on_share_a
             \<lparr>Namespace = ''kots'', DeployIsOpenShift = IsOpenShift cluster_on_share_a,
              ForceReset = True, DeployNFSConfig = share_b, Wait = True\<rparr> private_registry = Inr kB
         \<and> BackupConfigureNFSCmd (\<lambda>n. None) (Inr private_registry) nothing_more
             \<lparr>flag_namespace = ''kots'', flag_path = Path share_b, flag_server = Server share_b\<rparr>
             ([(''maybe'', None)] @ (''Y'', None) # []) cluster_on_share_a
             = (Return (fst (nothing_more kB)),
                [ActionWithSpinner ''Setting up NFS Minio'', FinishSpinnerWithError,
                 ColoredInfo (CHR 0x0A # reset_warning share_a share_b), ActionWithoutSpinner [],
                 ActionWithSpinner ''Re-configuring NFS Minio'', FinishSpinner],
                snd (nothing_more kB)))
   \<and> (Some ErrAbort = Some ErrInterrupt \<or> ''n'' = ''n'' \<or> ''n'' = ''N'')
   \<and> BackupConfigureNFSCmd (\<lambda>n. None) (Inr private_registry) nothing_more
        \<lparr>flag_namespace = ''kots'', flag_path = Path share_b, flag_server = Server share_b\<rparr>
        ([(''maybe'', None)] @ (''n'', Some ErrAbort) # [(''y'', None)]) cluster_on_share_a
        = (Exited (- 1),
           [ActionWithSpinner ''Setting up NFS Minio'', FinishSpinnerWithError,
            ColoredInfo (CHR 0x0A # reset_warning share_a share_b)],
           cluster_on_share_a)
   \<and> BackupConfigureNFSCmd (\<lambda>n. None) (Inr private_registry) nothing_more
        \<lparr>flag_namespace = ''kots'', flag_path = Path share_b, flag_server = Server share_b\<rparr>
        [(''maybe'', None)] cluster_on_share_a
        = (StillAsking,
           [ActionWithSpinner ''Setting up NFS Minio'', FinishSpinnerWithError,
            ColoredInfo (CHR 0x0A # reset_warning share_a share_b)],
           cluster_on_share_a)"
proof -
  have h0: "DeployNFSMinio sample_cluster (deploy_options share_a False) private_registry
      = Inr cluster_on_share_a
    \<and> DeployNFSConfig (deploy_options share_a False) = share_a \<and> share_a \<noteq> share_b"
    by (simp add: DeployNFSMinio_def deploy_options_def share_a_def share_b_def
        cluster_on_share_a_def api_error_def cluster_defs)
  have h1: "DeployNFSConfig (deploy_options share_b False) = share_b
      \<and> \<not> ForceReset (deploy_options share_b False)"
    by (simp add: deploy_options_def)
  have h2: "\<not> api_error cluster_on_share_a Clientset \<and> IsKotsadmClusterScoped cluster_on_share_a
      \<and> \<not> api_error cluster_on_share_a GetKotsadmOptions"
    by (simp add: cluster_on_share_a_def api_error_def cluster_defs)
  have h3: "(\<lambda>n. None) ''kots'' = (None :: error option) \<and> Path share_b \<noteq> [] \<and> Server share_b \<noteq> []
      \<and> \<not> api_error cluster_on_share_a Clientset
      \<and> list_all (\<lambda>(r, e). e \<noteq> Some ErrInterrupt \<and> r \<notin> set [''y'', ''Y'', ''n'', ''N''])
           [(''maybe'', None)]"
    by (simp add: share_b_def cluster_on_share_a_def api_error_def cluster_defs)
  have hY: "None \<noteq> Some ErrInterrupt \<and> (''Y'' = ''y'' \<or> ''Y'' = ''Y'')"
    by simp
  have hN: "Some ErrAbort = Some ErrInterrupt \<or> ''n'' = ''n'' \<or> ''n'' = ''N''"
    by simp
  note inst = C1_other_share_conflicts_until_forced
    [where kinit = sample_cluster and optsA = "deploy_options share_a False" and roA = private_registry
       and k = cluster_on_share_a and A = share_a and B = share_b
       and optsB = "deploy_options share_b False" and ro = private_registry
       and install_velero = "\<lambda>k. (WriteHeader StatusOK, k)"
       and validateNamespace = "\<lambda>n. None" and ns = "''kots''"
       and skipped = "[(''maybe'', None)]"
       and respY = "''Y''" and errY = None and restY = "[]"
       and respN = "''n''" and errN = "Some ErrAbort" and restN = "[(''y'', None)]"
       and configure_velero = nothing_more, THEN mp, OF h0]
  note c1 = inst [THEN conjunct1, THEN mp, OF h1]
  note c2 = inst [THEN conjunct2, THEN conjunct1, THEN mp, OF h2]
  note c3 = inst [THEN conjunct2, THEN conjunct2, THEN mp, OF h3]
  note c3y = c3 [THEN conjunct1, THEN mp, OF hY]
  note c3n = c3 [THEN conjunct2, THEN conjunct1, THEN mp, OF hN]
  note c3a = c3 [THEN conjunct2, THEN conjunct2]
  show ?thesis
    apply (rule conjI)
     apply (rule h0)
    apply (rule conjI)
     apply (rule h1)
    apply (rule conjI)
     apply (rule c1)
    apply (rule conjI)
     apply (rule h2)
    apply (rule conjI)
     apply (rule c2)
    apply (rule conjI)
     apply (rule h3)
    apply (rule conjI)
     apply (rule hY)
    apply (rule conjI)
     apply (rule c3y)
    apply (rule conjI)
     apply (rule hN)
    apply (rule conjI)
     apply (rule c3n)
    apply (rule c3a)
    done
qed

end
